theory Spec2Isabelle
  imports Complex_Main "HOL-Library.Sublist" "HOL-Library.Multiset"
begin

section \<open>Data model\<close>

text \<open>
  The notebook writes three Python scripts: \<^verbatim>\<open>sklearn_pipeline.py\<close> (the monolithic
  variant), \<^verbatim>\<open>preprocessing.py\<close> and \<^verbatim>\<open>training.py\<close> (the two-stage workflow).
  Each script is a sequence of calls into pandas, scikit-learn, joblib, argparse,
  \<^verbatim>\<open>os.path\<close> and \<^verbatim>\<open>shutil\<close>. The scripts are embedded as they are written; what the
  libraries compute (the numbers a scaler produces, the trees of a forest, the bytes of a
  pickle, the pseudo-random permutation) is not part of the repository and enters as the
  fields of a record \<open>library\<close>, a parameter of every definition.
\<close>

text \<open>Every exception the scripts can let escape is a value.\<close>

datatype error =
    FileNotFoundError
  | OSError
  | SameFileError
  | KeyError
  | AttributeError
  | ValueError
  | TypeError
  | IndexError
  | ParserError
  | UnpicklingError
  | InvalidIndexError
  | NotFittedError
  | SystemExit nat

text \<open>
  A label, of a column or of a row, is a string (a CSV header or a row name read by
  \<^verbatim>\<open>read_csv\<close>, the label \<^verbatim>\<open>"y"\<close>) or an integer (the labels \<^verbatim>\<open>0 .. k-1\<close> that
  \<^verbatim>\<open>pd.DataFrame(ndarray)\<close> gives to columns and rows, the default row labels of
  \<^verbatim>\<open>read_csv\<close>, integer row names of a file).
\<close>

datatype label = StrName string | IntName int

text \<open>
  A DataFrame is its row index and its ordered list of labelled columns; a Series (one
  column taken out of a frame) is its row index and its values. \<^verbatim>\<open>read_csv\<close> gives a
  frame the default index \<^verbatim>\<open>0 .. n-1\<close>, unless the data rows of the file have one
  field more than the header: then the first field of every row is its label. An array
  handed to scikit-learn is the list of its feature columns, without labels.
\<close>

record 'a dataframe =
  row_index :: "label list"
  cols :: "(label \<times> 'a list) list"

type_synonym 'a series = "label list \<times> 'a list"

type_synonym 'a array2d = "'a list list"

text \<open>
  The Python values that \<^verbatim>\<open>argparse\<close> can leave in an attribute of the namespace of
  these scripts: \<^verbatim>\<open>None\<close> (the default of a directory whose environment variable is
  unset), a string, an integer, or the empty list (which some releases store for
  \<^verbatim>\<open>--option=--\<close>).
\<close>

datatype pyval = PyNone | PyStr string | PyInt int | PyEmptyList

text \<open>
  The estimator objects the scripts build. \<open>'s\<close> is the fitted state of a
  \<^verbatim>\<open>StandardScaler\<close>, \<open>'f\<close> the fitted state of a \<^verbatim>\<open>RandomForestClassifier\<close>;
  \<open>None\<close> is the unfitted object. The forest carries \<^verbatim>\<open>n_estimators\<close>,
  \<^verbatim>\<open>min_samples_leaf\<close> and \<^verbatim>\<open>n_jobs\<close> as they were passed to the constructor, which
  does not check them.
\<close>

datatype ('s, 'f) estimator =
    StandardScaler "'s option"
  | RandomForestClassifier pyval pyval pyval "'f option"
  | Pipeline "(string \<times> ('s, 'f) estimator) list"

text \<open>
  What \<^verbatim>\<open>accuracy_score\<close> returns: a float. The fraction of matches is kept as an exact
  rational (the float is its nearest double, and rounding to nearest keeps a value that lies
  between the doubles 0 and 1 between them); the mean of an empty array is \<^verbatim>\<open>nan\<close>.
\<close>

datatype score = NaN | Score rat

text \<open>
  The \<^verbatim>\<open>type\<close> of a command-line option, \<^verbatim>\<open>str\<close> or \<^verbatim>\<open>int\<close>.
\<close>

datatype arg_type = AsStr | AsInt

text \<open>
  The library functions whose results the scripts only pass along. \<open>'a\<close> is a table cell,
  \<open>'b\<close> the content of a file, \<open>'r\<close> the state of a pseudo-random generator.
  \<open>to_csv_render\<close> is \<^verbatim>\<open>to_csv(index=False)\<close>: it is given the columns only.
  \<open>np_nan\<close> is the cell that pandas puts where a row has no value, and \<open>index_union\<close> the
  row index that \<^verbatim>\<open>pd.concat\<close> builds from two different ones: their union, or the
  exception it raises when it cannot re-index an operand (a row label that occurs twice).
  \<open>py_int\<close> is \<^verbatim>\<open>int\<close> on a string. The last two fields are the two corners of
  \<^verbatim>\<open>argparse\<close> that depend on the release of Python: how the process ends when text is
  attached to \<^verbatim>\<open>-h\<close> (\<^verbatim>\<open>-hx\<close>, \<^verbatim>\<open>-h=\<close>), and what becomes of the value \<^verbatim>\<open>--\<close>
  attached to an option (\<^verbatim>\<open>--option=--\<close>).
\<close>

record ('a, 's, 'f, 'b, 'r) library =
  read_csv_parse :: "'b \<Rightarrow> error + 'a dataframe"
  to_csv_render :: "(label \<times> 'a list) list \<Rightarrow> 'b"
  joblib_dumps :: "('s, 'f) estimator \<Rightarrow> 'b"
  joblib_loads :: "'b \<Rightarrow> error + ('s, 'f) estimator"
  scaler_fit :: "'a array2d \<Rightarrow> error + 's"
  scaler_transform :: "'s \<Rightarrow> 'a array2d \<Rightarrow> error + 'a array2d"
  forest_fit :: "'r \<Rightarrow> pyval \<Rightarrow> pyval \<Rightarrow> 'a array2d \<Rightarrow> 'a list \<Rightarrow> error + 'f"
  forest_predict :: "'f \<Rightarrow> 'a array2d \<Rightarrow> error + 'a list"
  rng_seed :: "int \<Rightarrow> 'r"
  rng_permutation :: "'r \<Rightarrow> nat \<Rightarrow> nat list"
  py_int :: "string \<Rightarrow> int option"
  np_nan :: "'a"
  index_union :: "label list \<Rightarrow> label list \<Rightarrow> error + label list"
  argparse_attached_help :: "string \<Rightarrow> error"
  argparse_dashes_value :: "arg_type \<Rightarrow> error + pyval"

text \<open>
  The world a script runs in: the files by path, which paths the operating system lets
  the script create or overwrite (the parent directory exists and is writable; the
  notebook creates \<^verbatim>\<open>./temp/train\<close>, \<^verbatim>\<open>./temp/test\<close> and \<^verbatim>\<open>./temp/pipeline\<close> by
  hand for this reason), and the accuracy lines printed so far. Two paths name the same
  file exactly when they are the same string.
\<close>

record 'b world =
  files :: "string \<rightharpoonup> 'b"
  writable :: "string \<Rightarrow> bool"
  stdout :: "score list"

section \<open>Scripts as state transformers that may raise\<close>

text \<open>
  A script step takes the world and returns the new world together with a value or the
  exception raised. None of the scripts has a \<^verbatim>\<open>try\<close>: the first exception ends the run
  and the world stays as it was at that moment.
\<close>

type_synonym ('b, 'x) script = "'b world \<Rightarrow> (error + 'x) \<times> 'b world"

definition returnS :: "'x \<Rightarrow> ('b, 'x) script" where
  "returnS x = (\<lambda>w. (Inr x, w))"

definition liftE :: "error + 'x \<Rightarrow> ('b, 'x) script" where
  "liftE r = (\<lambda>w. (r, w))"

definition bindS :: "('b, 'x) script \<Rightarrow> ('x \<Rightarrow> ('b, 'y) script) \<Rightarrow> ('b, 'y) script" where
  "bindS m f = (\<lambda>w. case m w of (Inl e, w') \<Rightarrow> (Inl e, w') | (Inr x, w') \<Rightarrow> f x w')"

definition bindE :: "error + 'x \<Rightarrow> ('x \<Rightarrow> error + 'y) \<Rightarrow> error + 'y" where
  "bindE r f = (case r of Inl e \<Rightarrow> Inl e | Inr x \<Rightarrow> f x)"

section \<open>Library calls with fixed behaviour\<close>

subsection \<open>Paths and files\<close>

text \<open>
  \<^verbatim>\<open>os.path.join(a, b)\<close> on POSIX: an absolute \<open>b\<close> replaces \<open>a\<close>; otherwise \<open>b\<close> is
  appended, after a separator unless \<open>a\<close> is empty or already ends with one.
\<close>

definition path_join :: "string \<Rightarrow> string \<Rightarrow> string" where
  "path_join a b =
     (if b \<noteq> [] \<and> hd b = CHR ''/'' then b
      else if a = [] \<or> last a = CHR ''/'' then a @ b
      else a @ ''/'' @ b)"

text \<open>
  \<^verbatim>\<open>os.path.join\<close> on the attributes of the parsed arguments: anything but two strings
  (\<^verbatim>\<open>None\<close> for a directory whose environment variable is unset, a list) raises
  \<^verbatim>\<open>TypeError\<close>.
\<close>

definition path_join_py :: "pyval \<Rightarrow> pyval \<Rightarrow> error + string" where
  "path_join_py a b =
     (case a of
        PyStr d \<Rightarrow> (case b of PyStr f \<Rightarrow> Inr (path_join d f) | _ \<Rightarrow> Inl TypeError)
      | _ \<Rightarrow> Inl TypeError)"

definition read_csv :: "('a, 's, 'f, 'b, 'r) library \<Rightarrow> string \<Rightarrow> ('b, 'a dataframe) script" where
  "read_csv L p = (\<lambda>w. case files w p of
       None \<Rightarrow> (Inl FileNotFoundError, w)
     | Some b \<Rightarrow> (read_csv_parse L b, w))"

definition write_file :: "string \<Rightarrow> 'b \<Rightarrow> ('b, unit) script" where
  "write_file p b = (\<lambda>w.
     if writable w p then (Inr (), w\<lparr>files := (files w)(p \<mapsto> b)\<rparr>)
     else (Inl OSError, w))"

text \<open>\<^verbatim>\<open>df.to_csv(p, index=False)\<close>: the header and the columns, not the row index.\<close>

definition to_csv :: "('a, 's, 'f, 'b, 'r) library \<Rightarrow> 'a dataframe \<Rightarrow> string \<Rightarrow> ('b, unit) script" where
  "to_csv L df p = write_file p (to_csv_render L (cols df))"

definition dump :: "('a, 's, 'f, 'b, 'r) library \<Rightarrow> ('s, 'f) estimator \<Rightarrow> string \<Rightarrow> ('b, unit) script" where
  "dump L obj p = write_file p (joblib_dumps L obj)"

definition load :: "('a, 's, 'f, 'b, 'r) library \<Rightarrow> string \<Rightarrow> ('b, ('s, 'f) estimator) script" where
  "load L p = (\<lambda>w. case files w p of
       None \<Rightarrow> (Inl FileNotFoundError, w)
     | Some b \<Rightarrow> (joblib_loads L b, w))"

text \<open>
  \<^verbatim>\<open>shutil.copy(src, dst)\<close> for a destination that is a file path: the bytes of
  \<open>src\<close> become the bytes of \<open>dst\<close>; a missing source and a destination that is the
  source itself raise.
\<close>

definition copy :: "string \<Rightarrow> string \<Rightarrow> ('b, unit) script" where
  "copy src dst = (\<lambda>w. case files w src of
       None \<Rightarrow> (Inl FileNotFoundError, w)
     | Some b \<Rightarrow> if src = dst then (Inl SameFileError, w) else write_file dst b w)"

definition print_accuracy :: "score \<Rightarrow> ('b, unit) script" where
  "print_accuracy a = (\<lambda>w. (Inr (), w\<lparr>stdout := stdout w @ [a]\<rparr>))"

subsection \<open>DataFrames\<close>

text \<open>\<^verbatim>\<open>len(df)\<close>: the length of the row index.\<close>

definition nrows :: "'a dataframe \<Rightarrow> nat" where
  "nrows df = length (row_index df)"

text \<open>What every pandas frame is: all columns have the length of the index.\<close>

definition rectangular :: "'a dataframe \<Rightarrow> bool" where
  "rectangular df = list_all (\<lambda>c. length (snd c) = length (row_index df)) (cols df)"

text \<open>The default row index \<^verbatim>\<open>RangeIndex(n)\<close>: the labels \<^verbatim>\<open>0 .. n-1\<close>.\<close>

definition default_index :: "nat \<Rightarrow> label list" where
  "default_index n = map (\<lambda>i. IntName (int i)) [0..<n]"

text \<open>\<^verbatim>\<open>df.drop(name, axis=1)\<close>: \<^verbatim>\<open>KeyError\<close> when no column has the label.\<close>

definition drop_column :: "string \<Rightarrow> 'a dataframe \<Rightarrow> error + 'a dataframe" where
  "drop_column name df =
     (if StrName name \<in> set (map fst (cols df))
      then Inr (df\<lparr>cols := filter (\<lambda>c. fst c \<noteq> StrName name) (cols df)\<rparr>)
      else Inl KeyError)"

text \<open>
  \<^verbatim>\<open>df.y\<close>: attribute access to the column labelled \<^verbatim>\<open>y\<close>, a Series that keeps the
  row index of the frame.
\<close>

definition get_column :: "'a dataframe \<Rightarrow> string \<Rightarrow> error + 'a series" where
  "get_column df name =
     (case map_of (cols df) (StrName name) of
        None \<Rightarrow> Inl AttributeError
      | Some c \<Rightarrow> Inr (row_index df, c))"

text \<open>\<^verbatim>\<open>df.values\<close> as scikit-learn sees a frame: the columns without their labels.\<close>

definition to_array :: "'a dataframe \<Rightarrow> 'a array2d" where
  "to_array df = map snd (cols df)"

text \<open>The number of samples of an array: the length of its columns.\<close>

definition n_samples_of :: "'a array2d \<Rightarrow> nat" where
  "n_samples_of t = (case t of [] \<Rightarrow> 0 | c # _ \<Rightarrow> length c)"

text \<open>
  \<^verbatim>\<open>pd.DataFrame(array)\<close>: the columns get the labels \<^verbatim>\<open>0 .. k-1\<close> and the rows the
  default index.
\<close>

definition DataFrame :: "'a array2d \<Rightarrow> 'a dataframe" where
  "DataFrame t =
     \<lparr> row_index = default_index (n_samples_of t),
       cols = zip (default_index (length t)) t \<rparr>"

text \<open>
  The value of a column at a row label: the value at the first position of the label in
  the index, \<^verbatim>\<open>NaN\<close> when the index has no such label.
\<close>

definition at_label :: "('a, 's, 'f, 'b, 'r) library \<Rightarrow> label list \<Rightarrow> 'a list \<Rightarrow> label \<Rightarrow> 'a" where
  "at_label L idx c l = (case map_of (zip idx c) l of None \<Rightarrow> np_nan L | Some v \<Rightarrow> v)"

text \<open>
  \<^verbatim>\<open>pd.concat([frame, series], axis=1)\<close>, an outer join on the row labels. When the two
  indexes are equal the series becomes the last column, under its name. When they differ,
  both operands are re-indexed to the union of the two indexes: every row label of either
  operand becomes a row, with \<^verbatim>\<open>NaN\<close> in the cells of the operand that has no such
  label.
\<close>

definition concat_axis1 ::
    "('a, 's, 'f, 'b, 'r) library \<Rightarrow> 'a dataframe \<Rightarrow> string \<Rightarrow> 'a series \<Rightarrow> error + 'a dataframe" where
  "concat_axis1 L df name ser =
     (if row_index df = fst ser
      then Inr (df\<lparr>cols := cols df @ [(StrName name, snd ser)]\<rparr>)
      else
        bindE (index_union L (row_index df) (fst ser)) (\<lambda>u.
        Inr \<lparr> row_index = u,
              cols = map (\<lambda>c. (fst c, map (at_label L (row_index df) (snd c)) u)) (cols df)
                     @ [(StrName name, map (at_label L (fst ser) (snd ser)) u)] \<rparr>))"

text \<open>The values of a column at the given positions, in that order.\<close>

definition take_positions :: "nat list \<Rightarrow> 'a list \<Rightarrow> 'a list" where
  "take_positions idx c = map (\<lambda>i. c ! i) idx"

text \<open>
  Row \<open>i\<close> of an array as an array of one row, the shape in which the notebook hands a
  row to \<^verbatim>\<open>predict_fn\<close> (\<^verbatim>\<open>[X[0]]\<close>).
\<close>

definition row_at :: "'a array2d \<Rightarrow> nat \<Rightarrow> 'a array2d" where
  "row_at X i = map (\<lambda>c. [c ! i]) X"

text \<open>
  \<^verbatim>\<open>df.iloc[idx]\<close>: the rows at the given positions, in that order, with their labels; a
  position outside the frame raises \<^verbatim>\<open>IndexError\<close>.
\<close>

definition iloc :: "'a dataframe \<Rightarrow> nat list \<Rightarrow> error + 'a dataframe" where
  "iloc df idx =
     (if list_all (\<lambda>i. i < length (row_index df)) idx
         \<and> list_all (\<lambda>c. list_all (\<lambda>i. i < length (snd c)) idx) (cols df)
      then Inr \<lparr> row_index = take_positions idx (row_index df),
                 cols = map (\<lambda>c. (fst c, take_positions idx (snd c))) (cols df) \<rparr>
      else Inl IndexError)"

subsection \<open>scikit-learn\<close>

text \<open>
  \<^verbatim>\<open>check_array\<close>, which every \<^verbatim>\<open>fit\<close>, \<^verbatim>\<open>transform\<close> and \<^verbatim>\<open>predict\<close>
  below runs first: an array with no feature or with no sample raises \<^verbatim>\<open>ValueError\<close>.
\<close>

definition check_array :: "'a array2d \<Rightarrow> error + 'a array2d" where
  "check_array X =
     (if X = [] then Inl ValueError
      else if hd X = [] then Inl ValueError
      else Inr X)"

text \<open>
  \<^verbatim>\<open>transform\<close>. A scaler that was never fitted raises, a forest has no such method, and a
  pipeline hands the array through all of its steps in order. (A pipeline without steps
  cannot be constructed in scikit-learn; the value \<open>Pipeline []\<close> raises wherever it is used.)
\<close>

fun est_transform ::
    "('a, 's, 'f, 'b, 'r) library \<Rightarrow> ('s, 'f) estimator \<Rightarrow> 'a array2d \<Rightarrow> error + 'a array2d"
  and steps_transform ::
    "('a, 's, 'f, 'b, 'r) library \<Rightarrow> (string \<times> ('s, 'f) estimator) list \<Rightarrow> 'a array2d \<Rightarrow> error + 'a array2d"
where
  "est_transform L (StandardScaler None) X = Inl NotFittedError"
| "est_transform L (StandardScaler (Some s)) X = bindE (check_array X) (scaler_transform L s)"
| "est_transform L (RandomForestClassifier ne msl nj f) X = Inl AttributeError"
| "est_transform L (Pipeline []) X = Inl ValueError"
| "est_transform L (Pipeline (st # rest)) X = steps_transform L (st # rest) X"
| "steps_transform L [] X = Inr X"
| "steps_transform L (st # rest) X =
     bindE (est_transform L (snd st) X) (\<lambda>Xt. steps_transform L rest Xt)"

text \<open>
  \<^verbatim>\<open>predict\<close>. A pipeline transforms with every step but the last and predicts with the
  last one.
\<close>

fun est_predict ::
    "('a, 's, 'f, 'b, 'r) library \<Rightarrow> ('s, 'f) estimator \<Rightarrow> 'a array2d \<Rightarrow> error + 'a list"
  and steps_predict ::
    "('a, 's, 'f, 'b, 'r) library \<Rightarrow> (string \<times> ('s, 'f) estimator) list \<Rightarrow> 'a array2d \<Rightarrow> error + 'a list"
where
  "est_predict L (StandardScaler s) X = Inl AttributeError"
| "est_predict L (RandomForestClassifier ne msl nj None) X = Inl NotFittedError"
| "est_predict L (RandomForestClassifier ne msl nj (Some f)) X =
     bindE (check_array X) (forest_predict L f)"
| "est_predict L (Pipeline steps) X = steps_predict L steps X"
| "steps_predict L [] X = Inl ValueError"
| "steps_predict L [st] X = est_predict L (snd st) X"
| "steps_predict L (st # rest) X =
     bindE (est_transform L (snd st) X) (\<lambda>Xt. steps_predict L rest Xt)"

text \<open>
  \<^verbatim>\<open>fit_transform\<close>, which returns the transformed array and leaves the object fitted.
  For the scaler it is \<^verbatim>\<open>fit(X).transform(X)\<close>.
\<close>

fun est_fit_transform ::
    "('a, 's, 'f, 'b, 'r) library \<Rightarrow> ('s, 'f) estimator \<Rightarrow> 'a array2d
       \<Rightarrow> error + (('s, 'f) estimator \<times> 'a array2d)"
  and steps_fit_transform ::
    "('a, 's, 'f, 'b, 'r) library \<Rightarrow> (string \<times> ('s, 'f) estimator) list \<Rightarrow> 'a array2d
       \<Rightarrow> error + ((string \<times> ('s, 'f) estimator) list \<times> 'a array2d)"
where
  "est_fit_transform L (StandardScaler s0) X =
     bindE (check_array X) (\<lambda>X.
     bindE (scaler_fit L X) (\<lambda>s.
     bindE (scaler_transform L s X) (\<lambda>T.
     Inr (StandardScaler (Some s), T))))"
| "est_fit_transform L (RandomForestClassifier ne msl nj f) X = Inl AttributeError"
| "est_fit_transform L (Pipeline []) X = Inl ValueError"
| "est_fit_transform L (Pipeline (st # rest)) X =
     bindE (steps_fit_transform L (st # rest) X) (\<lambda>r.
     Inr (Pipeline (fst r), snd r))"
| "steps_fit_transform L [] X = Inr ([], X)"
| "steps_fit_transform L (st # rest) X =
     bindE (est_fit_transform L (snd st) X) (\<lambda>r.
     bindE (steps_fit_transform L rest (snd r)) (\<lambda>r'.
     Inr ((fst st, fst r) # fst r', snd r')))"

text \<open>
  \<^verbatim>\<open>fit(X, y)\<close>. The forest is built from the pseudo-random generator \<open>g\<close>; a pipeline
  fits and applies every step but the last, then fits the last one on the result.
\<close>

fun est_fit ::
    "('a, 's, 'f, 'b, 'r) library \<Rightarrow> 'r \<Rightarrow> ('s, 'f) estimator \<Rightarrow> 'a array2d \<Rightarrow> 'a list
       \<Rightarrow> error + ('s, 'f) estimator"
  and steps_fit ::
    "('a, 's, 'f, 'b, 'r) library \<Rightarrow> 'r \<Rightarrow> (string \<times> ('s, 'f) estimator) list \<Rightarrow> 'a array2d \<Rightarrow> 'a list
       \<Rightarrow> error + (string \<times> ('s, 'f) estimator) list"
where
  "est_fit L g (StandardScaler s0) X y =
     bindE (check_array X) (\<lambda>X.
     bindE (scaler_fit L X) (\<lambda>s.
     Inr (StandardScaler (Some s))))"
| "est_fit L g (RandomForestClassifier ne msl nj f0) X y =
     bindE (check_array X) (\<lambda>X.
     if length (hd X) \<noteq> length y then Inl ValueError
     else bindE (forest_fit L g ne msl X y) (\<lambda>f.
     Inr (RandomForestClassifier ne msl nj (Some f))))"
| "est_fit L g (Pipeline steps) X y =
     bindE (steps_fit L g steps X y) (\<lambda>steps'. Inr (Pipeline steps'))"
| "steps_fit L g [] X y = Inl ValueError"
| "steps_fit L g [st] X y =
     bindE (est_fit L g (snd st) X y) (\<lambda>e. Inr [(fst st, e)])"
| "steps_fit L g (st # rest) X y =
     bindE (est_fit_transform L (snd st) X) (\<lambda>r.
     bindE (steps_fit L g rest (snd r) y) (\<lambda>rest'.
     Inr ((fst st, fst r) # rest')))"

text \<open>
  Modelled from the spec: \<^verbatim>\<open>accuracy_score\<close> is scikit-learn's, not the repository's;
  the spec calls its result the held-out accuracy metric. It is the fraction of positions
  where \<open>y_true\<close> and \<open>y_pred\<close> agree. Arrays of different lengths raise; two empty
  arrays give \<^verbatim>\<open>nan\<close>, the mean of no values.
\<close>

definition accuracy_score :: "'a list \<Rightarrow> 'a list \<Rightarrow> error + score" where
  "accuracy_score y_true y_pred =
     (if length y_true \<noteq> length y_pred then Inl ValueError
      else if y_true = [] then Inr NaN
      else Inr (Score (of_nat (length (filter (\<lambda>p. fst p = snd p) (zip y_true y_pred)))
                        / of_nat (length y_true))))"

text \<open>\<^verbatim>\<open>estimator.score(X, y)\<close> of a classifier: the accuracy of its predictions.\<close>

definition est_score ::
    "('a, 's, 'f, 'b, 'r) library \<Rightarrow> ('s, 'f) estimator \<Rightarrow> 'a array2d \<Rightarrow> 'a list \<Rightarrow> error + score" where
  "est_score L e X y = bindE (est_predict L e X) (\<lambda>y_pred. accuracy_score y y_pred)"

text \<open>
  Modelled from the spec: \<^verbatim>\<open>check_random_state\<close> is scikit-learn's, not the
  repository's; the spec says that with a fixed seed repeated runs give the same partition.
  An integer seeds a fresh generator; \<^verbatim>\<open>None\<close> is the global generator of the process,
  whose state \<open>g\<close> differs from run to run.
\<close>

definition check_random_state :: "('a, 's, 'f, 'b, 'r) library \<Rightarrow> int option \<Rightarrow> 'r \<Rightarrow> 'r" where
  "check_random_state L random_state g =
     (case random_state of None \<Rightarrow> g | Some seed \<Rightarrow> rng_seed L seed)"

text \<open>
  Modelled from the spec: \<^verbatim>\<open>train_test_split\<close> is called by the scripts and defined in
  scikit-learn, not in the repository. The spec gives its proportion (75/25, "within split
  rounding") and says that the partition depends on the input and the seed only. The
  rounding and the order are scikit-learn's: with neither size given, the test part is a
  quarter of the rows rounded up and the train part is the rest; an empty train part raises.
  The rows are taken in the order of a pseudo-random permutation of the positions, drawn
  from the generator that \<^verbatim>\<open>check_random_state\<close> returns: the first \<open>n_test\<close>
  positions are the test rows, the following \<open>n_train\<close> the train rows.
\<close>

definition train_test_split ::
    "('a, 's, 'f, 'b, 'r) library \<Rightarrow> int option \<Rightarrow> 'r \<Rightarrow> 'a dataframe
       \<Rightarrow> error + ('a dataframe \<times> 'a dataframe)" where
  "train_test_split L random_state g df =
     (let n_samples = nrows df;
          n_test = (n_samples + 3) div 4;
          n_train = n_samples - n_test
      in if n_train = 0 then Inl ValueError
         else
           let rng = check_random_state L random_state g;
               permutation = rng_permutation L rng n_samples;
               ind_test = take n_test permutation;
               ind_train = take n_train (drop n_test permutation)
           in bindE (iloc df ind_train) (\<lambda>train.
              bindE (iloc df ind_test) (\<lambda>test.
              Inr (train, test))))"

section \<open>Command lines\<close>

text \<open>
  Each script builds \<^verbatim>\<open>argparse.ArgumentParser()\<close> with its defaults, adds options that
  take one value each, and calls \<^verbatim>\<open>parse_known_args()\<close> on \<^verbatim>\<open>sys.argv[1:]\<close>. The
  parser therefore also has \<^verbatim>\<open>-h\<close> and \<^verbatim>\<open>--help\<close>, accepts an unambiguous prefix of a
  long option and \<^verbatim>\<open>--option=value\<close>, and ignores what it does not know. What follows
  is \<^verbatim>\<open>argparse\<close> for such a parser: no positional argument, no single-dash option
  but \<^verbatim>\<open>-h\<close>. Characters are ASCII. The releases of Python, from the 3.7 of the
  notebook's kernel on, agree on it except in two corners, which are fields of the library
  record.
\<close>

datatype action = Help | Store arg_type

text \<open>A parser: its option strings in the order of registration, each with its action.\<close>

type_synonym parser = "(string \<times> action) list"

definition option_strings :: "parser \<Rightarrow> string list" where
  "option_strings P = map fst P"

text \<open>
  What \<^verbatim>\<open>_parse_optional\<close> makes of one string of the command line: a positional
  argument, the marker \<^verbatim>\<open>--\<close>, an option of another parser, or an option of this parser
  (its full option string, and the value given in the same string, if any).
\<close>

datatype arg_class = Positional | DoubleDash | Unknown | Option string "string option"

definition before_eq :: "string \<Rightarrow> string" where
  "before_eq s = takeWhile (\<lambda>c. c \<noteq> CHR ''='') s"

definition after_eq :: "string \<Rightarrow> string" where
  "after_eq s = tl (dropWhile (\<lambda>c. c \<noteq> CHR ''='') s)"

text \<open>
  \<^verbatim>\<open>_get_option_tuples\<close>, for a string of at least two characters that starts with a
  dash. A string with two dashes is split at the first \<^verbatim>\<open>=\<close> and matches every option
  string that its first part is a prefix of. A string with one dash matches the option
  string made of its first two characters (the rest is the value) and every option string
  that it is a prefix of.
\<close>

definition get_option_tuples :: "parser \<Rightarrow> string \<Rightarrow> (string \<times> string option) list" where
  "get_option_tuples P arg =
     (if take 2 arg = ''--'' then
        let option_prefix = (if CHR ''='' \<in> set arg then before_eq arg else arg);
            explicit_arg = (if CHR ''='' \<in> set arg then Some (after_eq arg) else None)
        in map (\<lambda>s. (s, explicit_arg)) (filter (\<lambda>s. prefix option_prefix s) (option_strings P))
      else
        concat (map (\<lambda>s. if s = take 2 arg then [(s, Some (drop 2 arg))]
                          else if prefix arg s then [(s, None)]
                          else [])
                    (option_strings P)))"

text \<open>
  The strings that look like a negative number, \<^verbatim>\<open>'^-\\d+$|^-\\d*\\.\\d+$'\<close>; \<^verbatim>\<open>$\<close> also
  matches before a newline that ends the string.
\<close>

definition is_digit :: "char \<Rightarrow> bool" where
  "is_digit c = (c \<in> set ''0123456789'')"

definition negative_number :: "string \<Rightarrow> bool" where
  "negative_number arg =
     (arg \<noteq> [] \<and> hd arg = CHR ''-'' \<and>
      (let body = tl arg;
           body = (if body \<noteq> [] \<and> last body = CHR 0x0A then butlast body else body);
           rest = dropWhile is_digit body
       in (body \<noteq> [] \<and> rest = [])
          \<or> (rest \<noteq> [] \<and> hd rest = CHR ''.'' \<and> tl rest \<noteq> [] \<and> list_all is_digit (tl rest))))"

text \<open>
  \<^verbatim>\<open>_parse_optional\<close>. An ambiguous prefix ends the process with status 2.
\<close>

definition parse_optional :: "parser \<Rightarrow> string \<Rightarrow> error + arg_class" where
  "parse_optional P arg =
     (if arg = [] then Inr Positional
      else if hd arg \<noteq> CHR ''-'' then Inr Positional
      else if arg \<in> set (option_strings P) then Inr (Option arg None)
      else if length arg = 1 then Inr Positional
      else if CHR ''='' \<in> set arg \<and> before_eq arg \<in> set (option_strings P)
        then Inr (Option (before_eq arg) (Some (after_eq arg)))
      else
        (case get_option_tuples P arg of
           t1 # t2 # ts \<Rightarrow> Inl (SystemExit 2)
         | [t] \<Rightarrow> Inr (Option (fst t) (snd t))
         | [] \<Rightarrow>
             if negative_number arg then Inr Positional
             else if CHR '' '' \<in> set arg then Inr Positional
             else Inr Unknown))"

text \<open>
  The first loop of \<^verbatim>\<open>_parse_known_args\<close>: every string is classified, from left to
  right, before any option is acted upon; everything after the first \<^verbatim>\<open>--\<close> is
  positional.
\<close>

fun classify :: "parser \<Rightarrow> string list \<Rightarrow> error + (string \<times> arg_class) list" where
  "classify P [] = Inr []"
| "classify P (a # rest) =
     (if a = ''--'' then Inr ((a, DoubleDash) # map (\<lambda>s. (s, Positional)) rest)
      else bindE (parse_optional P a) (\<lambda>c.
           bindE (classify P rest) (\<lambda>cs.
           Inr ((a, c) # cs))))"

text \<open>
  \<^verbatim>\<open>_get_values\<close> for an option that takes one value: the value is converted by the
  \<^verbatim>\<open>type\<close> of the option, and a string that \<^verbatim>\<open>int\<close> rejects ends the process with
  status 2. The value \<^verbatim>\<open>--\<close> is the corner left to the library: older releases remove
  it from the values and store the empty list, newer ones convert it like any string.
\<close>

definition get_values :: "('a, 's, 'f, 'b, 'r) library \<Rightarrow> arg_type \<Rightarrow> string \<Rightarrow> error + pyval" where
  "get_values L ty x =
     (if x = ''--'' then argparse_dashes_value L ty
      else case ty of
             AsStr \<Rightarrow> Inr (PyStr x)
           | AsInt \<Rightarrow> (case py_int L x of None \<Rightarrow> Inl (SystemExit 2) | Some i \<Rightarrow> Inr (PyInt i)))"

text \<open>
  The second loop of \<^verbatim>\<open>_parse_known_args\<close>: the options are acted upon from left to
  right. An option that stores a value takes it from its own string (\<^verbatim>\<open>--option=value\<close>)
  or else from the next string, which must be positional; every occurrence is converted,
  and the result lists what was stored, in order. Strings that no option takes are the
  extras that \<^verbatim>\<open>parse_known_args\<close> returns and the scripts ignore. \<^verbatim>\<open>-h\<close> and
  \<^verbatim>\<open>--help\<close> print the help and end the process with status 0; \<^verbatim>\<open>--help=x\<close> ends
  it with status 2; with text attached to \<^verbatim>\<open>-h\<close> the process ends too, in the way the
  release of Python has it.
\<close>

fun consume ::
    "('a, 's, 'f, 'b, 'r) library \<Rightarrow> parser \<Rightarrow> (string \<times> arg_class) list
       \<Rightarrow> error + (string \<times> pyval) list" where
  "consume L P [] = Inr []"
| "consume L P ((s, Option opt e) # rest) =
     (case map_of P opt of
        None \<Rightarrow> consume L P rest
      | Some Help \<Rightarrow>
          (case e of
             None \<Rightarrow> Inl (SystemExit 0)
           | Some x \<Rightarrow>
               if take 2 opt = ''--'' then Inl (SystemExit 2)
               else Inl (argparse_attached_help L x))
      | Some (Store ty) \<Rightarrow>
          (case e of
             Some x \<Rightarrow>
               bindE (get_values L ty x) (\<lambda>v.
               bindE (consume L P rest) (\<lambda>vs.
               Inr ((opt, v) # vs)))
           | None \<Rightarrow>
               (case rest of
                  (x, Positional) # rest' \<Rightarrow>
                    bindE (get_values L ty x) (\<lambda>v.
                    bindE (consume L P rest') (\<lambda>vs.
                    Inr ((opt, v) # vs)))
                | _ \<Rightarrow> Inl (SystemExit 2))))"
| "consume L P ((s, c) # rest) = consume L P rest"

definition parse_known_args ::
    "('a, 's, 'f, 'b, 'r) library \<Rightarrow> parser \<Rightarrow> string list \<Rightarrow> error + (string \<times> pyval) list" where
  "parse_known_args L P argv = bindE (classify P argv) (\<lambda>cs. consume L P cs)"

text \<open>
  The attribute of the namespace for an option: the value stored last, or the default.
\<close>

definition namespace_get :: "(string \<times> pyval) list \<Rightarrow> string \<Rightarrow> pyval \<Rightarrow> pyval" where
  "namespace_get stored opt dflt = (case map_of (rev stored) opt of None \<Rightarrow> dflt | Some v \<Rightarrow> v)"

text \<open>\<^verbatim>\<open>os.environ.get(name)\<close>.\<close>

definition environ_get :: "(string \<rightharpoonup> string) \<Rightarrow> string \<Rightarrow> pyval" where
  "environ_get environ name = (case environ name of None \<Rightarrow> PyNone | Some v \<Rightarrow> PyStr v)"

text \<open>
  A string of the command line names a long option when it starts with two dashes, is not
  the marker \<^verbatim>\<open>--\<close>, and what it has before a \<^verbatim>\<open>=\<close> is the option string or the
  beginning of it. Such strings are the only way to supply the option.
\<close>

definition names_option :: "string \<Rightarrow> string \<Rightarrow> bool" where
  "names_option opt arg = (arg \<noteq> ''--'' \<and> take 2 arg = ''--'' \<and> prefix (before_eq arg) opt)"

text \<open>The options found on a classified command line.\<close>

fun options_of :: "(string \<times> arg_class) list \<Rightarrow> string list" where
  "options_of [] = []"
| "options_of ((s, Option opt e) # rest) = opt # options_of rest"
| "options_of ((s, c) # rest) = options_of rest"

text \<open>The arguments of \<^verbatim>\<open>sklearn_pipeline.py\<close>; \<^verbatim>\<open>training.py\<close> adds two.\<close>

record sklearn_pipeline_args =
  n_estimators :: pyval
  min_samples_leaf :: pyval
  model_dir :: pyval
  train :: pyval
  test :: pyval
  train_file :: pyval
  test_file :: pyval

record training_args = sklearn_pipeline_args +
  pipeline :: pyval
  pipeline_file :: pyval

record preprocessing_args =
  filepath :: pyval
  filename :: pyval
  outputpath :: pyval

text \<open>\<^verbatim>\<open>_parse_args\<close> of \<^verbatim>\<open>sklearn_pipeline.py\<close>.\<close>

definition sklearn_pipeline_parser :: parser where
  "sklearn_pipeline_parser =
     [(''-h'', Help), (''--help'', Help),
      (''--n-estimators'', Store AsInt),
      (''--min-samples-leaf'', Store AsInt),
      (''--model-dir'', Store AsStr),
      (''--train'', Store AsStr),
      (''--test'', Store AsStr),
      (''--train-file'', Store AsStr),
      (''--test-file'', Store AsStr)]"

definition parse_args_sklearn_pipeline ::
    "('a, 's, 'f, 'b, 'r) library \<Rightarrow> (string \<rightharpoonup> string) \<Rightarrow> string list
       \<Rightarrow> error + sklearn_pipeline_args" where
  "parse_args_sklearn_pipeline L environ argv =
     bindE (parse_known_args L sklearn_pipeline_parser argv) (\<lambda>stored.
     Inr \<lparr> n_estimators = namespace_get stored ''--n-estimators'' (PyInt 10),
           min_samples_leaf = namespace_get stored ''--min-samples-leaf'' (PyInt 3),
           model_dir = namespace_get stored ''--model-dir'' (environ_get environ ''SM_MODEL_DIR''),
           train = namespace_get stored ''--train'' (environ_get environ ''SM_CHANNEL_TRAIN''),
           test = namespace_get stored ''--test'' (environ_get environ ''SM_CHANNEL_TEST''),
           train_file = namespace_get stored ''--train-file'' (PyStr ''train.csv''),
           test_file = namespace_get stored ''--test-file'' (PyStr ''test.csv'') \<rparr>)"

text \<open>\<^verbatim>\<open>_parse_args\<close> of \<^verbatim>\<open>preprocessing.py\<close>.\<close>

definition preprocessing_parser :: parser where
  "preprocessing_parser =
     [(''-h'', Help), (''--help'', Help),
      (''--filepath'', Store AsStr),
      (''--filename'', Store AsStr),
      (''--outputpath'', Store AsStr)]"

definition parse_args_preprocessing ::
    "('a, 's, 'f, 'b, 'r) library \<Rightarrow> string list \<Rightarrow> error + preprocessing_args" where
  "parse_args_preprocessing L argv =
     bindE (parse_known_args L preprocessing_parser argv) (\<lambda>stored.
     Inr \<lparr> filepath = namespace_get stored ''--filepath'' (PyStr ''/opt/ml/processing/input/''),
           filename = namespace_get stored ''--filename'' (PyStr ''data.csv''),
           outputpath = namespace_get stored ''--outputpath'' (PyStr ''/opt/ml/processing/output/'') \<rparr>)"

text \<open>\<^verbatim>\<open>_parse_args\<close> of \<^verbatim>\<open>training.py\<close>.\<close>

definition training_parser :: parser where
  "training_parser =
     [(''-h'', Help), (''--help'', Help),
      (''--n-estimators'', Store AsInt),
      (''--min-samples-leaf'', Store AsInt),
      (''--model-dir'', Store AsStr),
      (''--train'', Store AsStr),
      (''--test'', Store AsStr),
      (''--pipeline'', Store AsStr),
      (''--train-file'', Store AsStr),
      (''--test-file'', Store AsStr),
      (''--pipeline-file'', Store AsStr)]"

definition parse_args_training ::
    "('a, 's, 'f, 'b, 'r) library \<Rightarrow> (string \<rightharpoonup> string) \<Rightarrow> string list
       \<Rightarrow> error + training_args" where
  "parse_args_training L environ argv =
     bindE (parse_known_args L training_parser argv) (\<lambda>stored.
     Inr \<lparr> n_estimators = namespace_get stored ''--n-estimators'' (PyInt 10),
           min_samples_leaf = namespace_get stored ''--min-samples-leaf'' (PyInt 3),
           model_dir = namespace_get stored ''--model-dir'' (environ_get environ ''SM_MODEL_DIR''),
           train = namespace_get stored ''--train'' (environ_get environ ''SM_CHANNEL_TRAIN''),
           test = namespace_get stored ''--test'' (environ_get environ ''SM_CHANNEL_TEST''),
           train_file = namespace_get stored ''--train-file'' (PyStr ''train.csv''),
           test_file = namespace_get stored ''--test-file'' (PyStr ''test.csv''),
           pipeline = namespace_get stored ''--pipeline'' (environ_get environ ''SM_CHANNEL_PIPELINE''),
           pipeline_file = namespace_get stored ''--pipeline-file'' (PyStr ''preproc-pipeline.joblib'') \<rparr>)"

text \<open>
  The hyperparameters the notebook gives to both cloud training jobs,
  \<^verbatim>\<open>{"n-estimators": 100, "min-samples-leaf": 3}\<close>, as they reach the script, and the
  command line of the notebook's local run of \<^verbatim>\<open>sklearn_pipeline.py\<close>.
\<close>

definition notebook_hyperparameters :: "string list" where
  "notebook_hyperparameters = [''--n-estimators'', ''100'', ''--min-samples-leaf'', ''3'']"

definition notebook_local_run :: "string list" where
  "notebook_local_run = [''--model-dir'', ''.'', ''--train'', ''/tmp/'', ''--test'', ''/tmp/'']"

text \<open>The command line of the notebook's local run of \<^verbatim>\<open>training.py\<close>.\<close>

definition notebook_local_run_training :: "string list" where
  "notebook_local_run_training =
     [''--train'', ''./temp/train'', ''--test'', ''./temp/test'',
      ''--pipeline'', ''./temp/pipeline'', ''--model-dir'', ''./temp/'']"

text \<open>
  The functions that \<^verbatim>\<open>training.py\<close> defines at top level, in order; a name that starts
  with an underscore is private to the script.
\<close>

definition training_py_functions :: "string list" where
  "training_py_functions = [''model_fn'', ''predict_fn'', ''_parse_args'']"

definition handoff_functions :: "string list \<Rightarrow> string list" where
  "handoff_functions names = filter (\<lambda>n. n \<noteq> [] \<and> hd n \<noteq> CHR ''_'') names"

section \<open>The scripts\<close>

subsection \<open>\<^verbatim>\<open>sklearn_pipeline.py\<close>\<close>

definition sklearn_pipeline_model_fn ::
    "('a, 's, 'f, 'b, 'r) library \<Rightarrow> string \<Rightarrow> ('b, ('s, 'f) estimator) script" where
  "sklearn_pipeline_model_fn L mdir =
     bindS (load L (path_join mdir ''pipeline.joblib'')) (\<lambda>clf.
     returnS clf)"

text \<open>\<^verbatim>\<open>predict_fn\<close>, the same in \<^verbatim>\<open>sklearn_pipeline.py\<close> and \<^verbatim>\<open>training.py\<close>.\<close>

definition predict_fn ::
    "('a, 's, 'f, 'b, 'r) library \<Rightarrow> 'a array2d \<Rightarrow> ('s, 'f) estimator \<Rightarrow> error + 'a list" where
  "predict_fn L input_data model =
     bindE (est_predict L model input_data) (\<lambda>prediction.
     Inr prediction)"

text \<open>
  The main block. \<open>g\<close> is the state of the process's global pseudo-random generator, from
  which the forest (\<^verbatim>\<open>random_state=None\<close>) draws.
\<close>

definition sklearn_pipeline_main ::
    "('a, 's, 'f, 'b, 'r) library \<Rightarrow> 'r \<Rightarrow> (string \<rightharpoonup> string) \<Rightarrow> string list
       \<Rightarrow> ('b, unit) script" where
  "sklearn_pipeline_main L g environ argv =
     bindS (liftE (parse_args_sklearn_pipeline L environ argv)) (\<lambda>args.
     bindS (liftE (path_join_py (train args) (train_file args))) (\<lambda>train_path.
     bindS (read_csv L train_path) (\<lambda>train_df.
     bindS (liftE (drop_column ''y'' train_df)) (\<lambda>X_train.
     bindS (liftE (get_column train_df ''y'')) (\<lambda>y_train.
     bindS (liftE (path_join_py (test args) (test_file args))) (\<lambda>test_path.
     bindS (read_csv L test_path) (\<lambda>test_df.
     bindS (liftE (drop_column ''y'' test_df)) (\<lambda>X_test.
     bindS (liftE (get_column test_df ''y'')) (\<lambda>y_test.
     let pipe = Pipeline
           [(''scaler'', StandardScaler None),
            (''rfc'', RandomForestClassifier (n_estimators args) (min_samples_leaf args) PyNone None)]
     in
     bindS (liftE (est_fit L g pipe (to_array X_train) (snd y_train))) (\<lambda>pipe.
     bindS (liftE (est_score L pipe (to_array X_test) (snd y_test))) (\<lambda>accuracy.
     bindS (print_accuracy accuracy) (\<lambda>_.
     bindS (liftE (path_join_py (model_dir args) (PyStr ''pipeline.joblib''))) (\<lambda>out.
     dump L pipe out)))))))))))))"

subsection \<open>\<^verbatim>\<open>preprocessing.py\<close>\<close>

text \<open>
  The main block. \<open>g\<close> is the state of the global pseudo-random generator, which
  \<^verbatim>\<open>train_test_split\<close> would use if it were not given \<^verbatim>\<open>random_state=42\<close>.
\<close>

definition preprocessing_main ::
    "('a, 's, 'f, 'b, 'r) library \<Rightarrow> 'r \<Rightarrow> string list \<Rightarrow> ('b, unit) script" where
  "preprocessing_main L g argv =
     bindS (liftE (parse_args_preprocessing L argv)) (\<lambda>args.
     bindS (liftE (path_join_py (filepath args) (filename args))) (\<lambda>in_path.
     bindS (read_csv L in_path) (\<lambda>df.
     bindS (liftE (drop_column ''y'' df)) (\<lambda>X.
     bindS (liftE (get_column df ''y'')) (\<lambda>y.
     let pipe = Pipeline [(''scaler'', StandardScaler None)] in
     bindS (liftE (est_fit_transform L pipe (to_array X))) (\<lambda>fitted.
     let pipe = fst fitted;
         transformed = snd fitted
     in
     bindS (liftE (concat_axis1 L (DataFrame transformed) ''y'' y)) (\<lambda>output.
     bindS (liftE (train_test_split L (Some 42) g output)) (\<lambda>parts.
     bindS (liftE (path_join_py (outputpath args) (PyStr ''train/train.csv''))) (\<lambda>train_path.
     bindS (to_csv L (fst parts) train_path) (\<lambda>_.
     bindS (liftE (path_join_py (outputpath args) (PyStr ''test/test.csv''))) (\<lambda>test_path.
     bindS (to_csv L (snd parts) test_path) (\<lambda>_.
     bindS (liftE (path_join_py (outputpath args) (PyStr ''pipeline/preproc-pipeline.joblib''))) (\<lambda>pipe_path.
     dump L pipe pipe_path)))))))))))))"

subsection \<open>\<^verbatim>\<open>training.py\<close>\<close>

definition training_model_fn ::
    "('a, 's, 'f, 'b, 'r) library \<Rightarrow> string \<Rightarrow> ('b, ('s, 'f) estimator) script" where
  "training_model_fn L mdir =
     bindS (load L (path_join mdir ''preproc.joblib'')) (\<lambda>preproc.
     bindS (load L (path_join mdir ''model.joblib'')) (\<lambda>model.
     let pipe = Pipeline [(''preproc'', preproc), (''model'', model)] in
     returnS pipe))"

definition training_main ::
    "('a, 's, 'f, 'b, 'r) library \<Rightarrow> 'r \<Rightarrow> (string \<rightharpoonup> string) \<Rightarrow> string list
       \<Rightarrow> ('b, unit) script" where
  "training_main L g environ argv =
     bindS (liftE (parse_args_training L environ argv)) (\<lambda>args.
     bindS (liftE (path_join_py (train args) (train_file args))) (\<lambda>train_path.
     bindS (read_csv L train_path) (\<lambda>train_df.
     bindS (liftE (path_join_py (test args) (test_file args))) (\<lambda>test_path.
     bindS (read_csv L test_path) (\<lambda>test_df.
     bindS (liftE (drop_column ''y'' train_df)) (\<lambda>X_train.
     bindS (liftE (get_column train_df ''y'')) (\<lambda>y_train.
     bindS (liftE (drop_column ''y'' test_df)) (\<lambda>X_test.
     bindS (liftE (get_column test_df ''y'')) (\<lambda>y_test.
     let model = RandomForestClassifier (n_estimators args) (min_samples_leaf args) (PyInt (- 1)) None in
     bindS (liftE (est_fit L g model (to_array X_train) (snd y_train))) (\<lambda>model.
     bindS (liftE (est_predict L model (to_array X_test))) (\<lambda>y_pred.
     bindS (liftE (accuracy_score (snd y_test) y_pred)) (\<lambda>accuracy.
     bindS (print_accuracy accuracy) (\<lambda>_.
     bindS (liftE (path_join_py (model_dir args) (PyStr ''model.joblib''))) (\<lambda>model_path.
     bindS (dump L model model_path) (\<lambda>_.
     bindS (liftE (path_join_py (pipeline args) (pipeline_file args))) (\<lambda>src.
     bindS (liftE (path_join_py (model_dir args) (PyStr ''preproc.joblib''))) (\<lambda>dst.
     copy src dst)))))))))))))))))"

section \<open>A small library instance\<close>

text \<open>
  An instance of the library record on which the scripts can be run. A cell is an integer
  or \<^verbatim>\<open>NaN\<close> (\<open>None\<close>); a file holds the table that \<^verbatim>\<open>read_csv\<close> makes of it (with the
  default row index when it was written by \<^verbatim>\<open>to_csv(index=False)\<close>) or an estimator; the
  "scaler" subtracts the first value it was fitted on; the "forest" learns a threshold from
  the first training value and answers, sample by sample, whether the first feature
  exceeds it; the generator seeded with \<open>r\<close> rotates the positions by \<open>r\<close>; the union of
  two row indexes keeps the labels of the first and appends the new labels of the second;
  \<^verbatim>\<open>int\<close> reads the two numerals that the notebook uses.
\<close>

datatype demo_file = DemoCsv "int option dataframe" | DemoJoblib "(int, int) estimator"

definition demo_union :: "label list \<Rightarrow> label list \<Rightarrow> error + label list" where
  "demo_union a b =
     (if distinct a \<and> distinct b then Inr (a @ filter (\<lambda>l. l \<notin> set a) b)
      else Inl InvalidIndexError)"

definition demo_threshold :: "int \<Rightarrow> int option \<Rightarrow> int option" where
  "demo_threshold f c = (case c of None \<Rightarrow> Some 0 | Some v \<Rightarrow> if v \<le> f then Some 0 else Some 1)"

definition demo_library :: "(int option, int, int, demo_file, nat) library" where
  "demo_library =
     \<lparr> read_csv_parse = (\<lambda>b. case b of DemoCsv df \<Rightarrow> Inr df | DemoJoblib e \<Rightarrow> Inl ParserError),
       to_csv_render =
         (\<lambda>cs. DemoCsv \<lparr> row_index = default_index (n_samples_of (map snd cs)), cols = cs \<rparr>),
       joblib_dumps = DemoJoblib,
       joblib_loads = (\<lambda>b. case b of DemoJoblib e \<Rightarrow> Inr e | DemoCsv df \<Rightarrow> Inl UnpicklingError),
       scaler_fit = (\<lambda>X. Inr (case hd (hd X) of None \<Rightarrow> 0 | Some v \<Rightarrow> v)),
       scaler_transform = (\<lambda>s X. Inr (map (map (map_option (\<lambda>v. v - s))) X)),
       forest_fit = (\<lambda>g ne msl X y. Inr (case hd (hd X) of None \<Rightarrow> 0 | Some v \<Rightarrow> v - 3)),
       forest_predict = (\<lambda>f X. Inr (map (demo_threshold f) (hd X))),
       rng_seed = nat,
       rng_permutation = (\<lambda>r n. rotate r [0..<n]),
       py_int = (\<lambda>s. if s = ''100'' then Some 100 else if s = ''3'' then Some 3 else None),
       np_nan = None,
       index_union = demo_union,
       argparse_attached_help = (\<lambda>x. if x = ''h'' then SystemExit 0 else SystemExit 2),
       argparse_dashes_value = (\<lambda>ty. Inr PyEmptyList) \<rparr>"

text \<open>
  A table of six rows and two features, as \<^verbatim>\<open>read_csv\<close> makes it of a file without row
  names.
\<close>

definition demo_table :: "int option dataframe" where
  "demo_table =
     \<lparr> row_index = default_index 6,
       cols = [(StrName ''a'', map Some [1, 2, 3, 4, 5, 6]),
               (StrName ''y'', map Some [1, 0, 1, 1, 0, 1]),
               (StrName ''b'', map Some [5, 6, 7, 8, 9, 10])] \<rparr>"

text \<open>A table of 100 rows with one feature.\<close>

definition demo_table_100 :: "int option dataframe" where
  "demo_table_100 =
     \<lparr> row_index = default_index 100,
       cols = [(StrName ''x'', map (\<lambda>i. Some (int i)) [0..<100]),
               (StrName ''y'', replicate 100 (Some 1))] \<rparr>"

definition demo_table_no_label :: "int option dataframe" where
  "demo_table_no_label =
     \<lparr> row_index = default_index 4,
       cols = [(StrName ''a'', map Some [1, 2, 3, 4]), (StrName ''b'', map Some [5, 6, 7, 8])] \<rparr>"

text \<open>
  The table that \<^verbatim>\<open>read_csv\<close> makes of a file whose rows start with a row name, the
  layout in which R's \<^verbatim>\<open>write.table\<close> exports a data frame: every data row has one
  field more than the header, and the first field becomes the label of the row.

  \<^verbatim>\<open>a,y\<close>\<^smallskip>
  \<^verbatim>\<open>1,10,1\<close>\<^smallskip>
  \<^verbatim>\<open>2,20,0\<close>\<^smallskip>
  \<^verbatim>\<open>3,30,1\<close>\<^smallskip>
  \<^verbatim>\<open>4,40,0\<close>
\<close>

definition demo_table_row_names :: "int option dataframe" where
  "demo_table_row_names =
     \<lparr> row_index = map IntName [1, 2, 3, 4],
       cols = [(StrName ''a'', map Some [10, 20, 30, 40]),
               (StrName ''y'', map Some [1, 0, 1, 0])] \<rparr>"

text \<open>The table of 100 rows, from a file with the row names \<^verbatim>\<open>1 .. 100\<close>.\<close>

definition demo_table_100_row_names :: "int option dataframe" where
  "demo_table_100_row_names = demo_table_100 \<lparr> row_index := map (\<lambda>i. IntName (int i)) [1..<101] \<rparr>"

definition demo_world :: "demo_file world" where
  "demo_world =
     \<lparr> files = [''/in/data.csv'' \<mapsto> DemoCsv demo_table,
                 ''/in/nolabel.csv'' \<mapsto> DemoCsv demo_table_no_label,
                 ''/in/hundred.csv'' \<mapsto> DemoCsv demo_table_100,
                 ''/in/rownames.csv'' \<mapsto> DemoCsv demo_table_row_names,
                 ''/in/hundred_rownames.csv'' \<mapsto> DemoCsv demo_table_100_row_names],
       writable = (\<lambda>p. True),
       stdout = [] \<rparr>"

definition demo_prep_argv :: "string list" where
  "demo_prep_argv = [''--filepath'', ''/in'', ''--outputpath'', ''/out'']"

definition demo_train_argv :: "string list" where
  "demo_train_argv =
     [''--train'', ''/out/train'', ''--test'', ''/out/test'',
      ''--pipeline'', ''/out/pipeline'', ''--model-dir'', ''/model'']"

definition demo_mono_argv :: "string list" where
  "demo_mono_argv = [''--train'', ''/out/train'', ''--test'', ''/out/test'', ''--model-dir'', ''/mono'']"

text \<open>The world after \<^verbatim>\<open>preprocessing.py\<close>, and after \<^verbatim>\<open>training.py\<close> run on its output.\<close>

definition demo_world_preprocessed :: "demo_file world" where
  "demo_world_preprocessed = snd (preprocessing_main demo_library 0 demo_prep_argv demo_world)"

definition demo_world_trained :: "demo_file world" where
  "demo_world_trained =
     snd (training_main demo_library 7 Map.empty demo_train_argv demo_world_preprocessed)"

text \<open>The world after \<^verbatim>\<open>sklearn_pipeline.py\<close> run on the same train and test files.\<close>

definition demo_world_mono :: "demo_file world" where
  "demo_world_mono =
     snd (sklearn_pipeline_main demo_library 7 Map.empty demo_mono_argv demo_world_preprocessed)"

text \<open>What the two \<^verbatim>\<open>_parse_args\<close> return for the command lines above.\<close>

definition demo_preprocessing_args :: preprocessing_args where
  "demo_preprocessing_args =
     \<lparr> filepath = PyStr ''/in'', filename = PyStr ''data.csv'', outputpath = PyStr ''/out'' \<rparr>"

definition demo_training_args :: training_args where
  "demo_training_args =
     \<lparr> n_estimators = PyInt 10, min_samples_leaf = PyInt 3, model_dir = PyStr ''/model'',
       train = PyStr ''/out/train'', test = PyStr ''/out/test'',
       train_file = PyStr ''train.csv'', test_file = PyStr ''test.csv'',
       pipeline = PyStr ''/out/pipeline'', pipeline_file = PyStr ''preproc-pipeline.joblib'' \<rparr>"

text \<open>
  The forest that \<^verbatim>\<open>training.py\<close> fits on the small instance, the unit that \<^verbatim>\<open>model_fn\<close>
  rebuilds from its model directory, and the feature columns of the two rows of the
  persisted test table.
\<close>

definition demo_model :: "(int, int) estimator" where
  "demo_model = RandomForestClassifier (PyInt 10) (PyInt 3) (PyInt (- 1)) (Some (- 1))"

definition demo_unit :: "(int, int) estimator" where
  "demo_unit =
     Pipeline [(''preproc'', Pipeline [(''scaler'', StandardScaler (Some 1))]), (''model'', demo_model)]"

definition demo_test_features :: "int option array2d" where
  "demo_test_features = [[Some 0, Some 1], [Some 4, Some 5]]"

text \<open>The number of rows of a table file of the small instance.\<close>

definition demo_rows :: "demo_file world \<Rightarrow> string \<Rightarrow> nat option" where
  "demo_rows w p =
     (case files w p of
        Some (DemoCsv d) \<Rightarrow> Some (nrows d)
      | _ \<Rightarrow> None)"

text \<open>The preprocessing stage on the table of 100 rows, and on the two files with row names.\<close>

definition demo_hundred_argv :: "string list" where
  "demo_hundred_argv =
     [''--filepath'', ''/in'', ''--filename'', ''hundred.csv'', ''--outputpath'', ''/big'']"

definition demo_world_hundred :: "demo_file world" where
  "demo_world_hundred = snd (preprocessing_main demo_library 0 demo_hundred_argv demo_world)"

definition demo_row_names_argv :: "string list" where
  "demo_row_names_argv =
     [''--filepath'', ''/in'', ''--filename'', ''rownames.csv'', ''--outputpath'', ''/named'']"

definition demo_world_row_names :: "demo_file world" where
  "demo_world_row_names = snd (preprocessing_main demo_library 0 demo_row_names_argv demo_world)"

definition demo_hundred_row_names_argv :: "string list" where
  "demo_hundred_row_names_argv =
     [''--filepath'', ''/in'', ''--filename'', ''hundred_rownames.csv'', ''--outputpath'', ''/named100'']"

definition demo_world_hundred_row_names :: "demo_file world" where
  "demo_world_hundred_row_names =
     snd (preprocessing_main demo_library 0 demo_hundred_row_names_argv demo_world)"

section \<open>Basic facts about the script steps\<close>

lemma bindS_Inr:
  "bindS m f w = (Inr y, w') \<longleftrightarrow> (\<exists>x w1. m w = (Inr x, w1) \<and> f x w1 = (Inr y, w'))"
  by (auto simp: bindS_def split: prod.splits sum.splits)

lemma liftE_Inr: "liftE r w = (Inr x, w') \<longleftrightarrow> r = Inr x \<and> w' = w"
  by (auto simp: liftE_def)

lemma returnS_Inr: "returnS x w = (Inr y, w') \<longleftrightarrow> y = x \<and> w' = w"
  by (auto simp: returnS_def)

lemma bindE_Inr: "bindE r f = Inr y \<longleftrightarrow> (\<exists>x. r = Inr x \<and> f x = Inr y)"
  by (cases r) (simp_all add: bindE_def)

lemma read_csv_Inr:
  "read_csv L p w = (Inr df, w') \<longleftrightarrow>
     (\<exists>b. files w p = Some b \<and> read_csv_parse L b = Inr df \<and> w' = w)"
  by (auto simp: read_csv_def split: option.splits)

lemma load_Inr:
  "load L p w = (Inr e, w') \<longleftrightarrow>
     (\<exists>b. files w p = Some b \<and> joblib_loads L b = Inr e \<and> w' = w)"
  by (auto simp: load_def split: option.splits)

lemma write_file_Inr:
  "write_file p b w = (Inr u, w') \<longleftrightarrow>
     writable w p \<and> w' = w\<lparr>files := (files w)(p \<mapsto> b)\<rparr>"
  by (auto simp: write_file_def)

lemma copy_Inr:
  "copy src dst w = (Inr u, w') \<longleftrightarrow>
     (\<exists>b. files w src = Some b \<and> src \<noteq> dst \<and> writable w dst
          \<and> w' = w\<lparr>files := (files w)(dst \<mapsto> b)\<rparr>)"
  by (auto simp: copy_def write_file_Inr split: option.splits)

lemma print_accuracy_Inr:
  "print_accuracy a w = (Inr u, w') \<longleftrightarrow> w' = w\<lparr>stdout := stdout w @ [a]\<rparr>"
  by (auto simp: print_accuracy_def)

lemma path_join_py_Inr:
  "path_join_py a b = Inr p \<longleftrightarrow> (\<exists>d f. a = PyStr d \<and> b = PyStr f \<and> p = path_join d f)"
  by (auto simp: path_join_py_def split: pyval.splits)

lemma path_join_suffix: "suffix b (path_join a b)"
  by (simp add: path_join_def suffix_def)

lemma path_join_neq:
  "\<not> suffix b1 b2 \<Longrightarrow> \<not> suffix b2 b1 \<Longrightarrow> path_join a1 b1 \<noteq> path_join a2 b2"
  by (metis path_join_suffix suffix_same_cases)

lemma artifact_names_distinct:
  "path_join a ''train/train.csv'' \<noteq> path_join a' ''test/test.csv''"
  "path_join a ''train/train.csv'' \<noteq> path_join a' ''pipeline/preproc-pipeline.joblib''"
  "path_join a ''test/test.csv'' \<noteq> path_join a' ''pipeline/preproc-pipeline.joblib''"
  "path_join a ''model.joblib'' \<noteq> path_join a' ''preproc.joblib''"
  "path_join a ''pipeline/preproc-pipeline.joblib'' \<noteq> path_join a' ''model.joblib''"
  "path_join a ''pipeline/preproc-pipeline.joblib'' \<noteq> path_join a' ''preproc.joblib''"
  "path_join a ''test/test.csv'' \<noteq> path_join a' ''model.joblib''"
  "path_join a ''test/test.csv'' \<noteq> path_join a' ''preproc.joblib''"
  by (rule path_join_neq; simp add: suffix_to_prefix)+

lemma check_array_Inr: "check_array X = Inr X' \<longleftrightarrow> X \<noteq> [] \<and> hd X \<noteq> [] \<and> X' = X"
  by (auto simp: check_array_def)

lemma fit_transform_scaler_pipeline:
  "est_fit_transform L (Pipeline [(name, StandardScaler s0)]) X = Inr fitted \<longleftrightarrow>
     (\<exists>s T. X \<noteq> [] \<and> hd X \<noteq> [] \<and> scaler_fit L X = Inr s \<and> scaler_transform L s X = Inr T
          \<and> fitted = (Pipeline [(name, StandardScaler (Some s))], T))"
  by (auto simp: bindE_Inr check_array_Inr)

lemma fit_forest:
  "est_fit L g (RandomForestClassifier ne msl nj f0) X y = Inr m \<longleftrightarrow>
     (\<exists>f. X \<noteq> [] \<and> hd X \<noteq> [] \<and> length (hd X) = length y \<and> forest_fit L g ne msl X y = Inr f
         \<and> m = RandomForestClassifier ne msl nj (Some f))"
  by (auto simp: bindE_Inr check_array_Inr split: if_splits)

lemma preprocessing_success:
  assumes "preprocessing_main L g argv w = (Inr u, w1)"
  shows "\<exists>args indir infile out b df X y s T output part_train part_test.
     parse_args_preprocessing L argv = Inr args
   \<and> filepath args = PyStr indir \<and> filename args = PyStr infile \<and> outputpath args = PyStr out
   \<and> files w (path_join indir infile) = Some b
   \<and> read_csv_parse L b = Inr df
   \<and> drop_column ''y'' df = Inr X
   \<and> get_column df ''y'' = Inr y
   \<and> to_array X \<noteq> [] \<and> hd (to_array X) \<noteq> []
   \<and> scaler_fit L (to_array X) = Inr s
   \<and> scaler_transform L s (to_array X) = Inr T
   \<and> concat_axis1 L (DataFrame T) ''y'' y = Inr output
   \<and> train_test_split L (Some 42) g output = Inr (part_train, part_test)
   \<and> w1 = w\<lparr>files := (files w)
        (path_join out ''train/train.csv'' \<mapsto> to_csv_render L (cols part_train),
         path_join out ''test/test.csv'' \<mapsto> to_csv_render L (cols part_test),
         path_join out ''pipeline/preproc-pipeline.joblib''
           \<mapsto> joblib_dumps L (Pipeline [(''scaler'', StandardScaler (Some s))]))\<rparr>"
  using assms
  unfolding preprocessing_main_def Let_def
  by (auto simp: bindS_Inr liftE_Inr read_csv_Inr to_csv_def dump_def write_file_Inr
        fit_transform_scaler_pipeline path_join_py_Inr
      simp del: est_fit_transform.simps)

lemma training_success:
  assumes "training_main L g environ argv w = (Inr u, w2)"
  shows "\<exists>args train_dir train_name test_dir test_name pdir pfile mdir b1 b2 train_df test_df
            X_train y_train X_test y_test f y_pred accuracy artifact.
     parse_args_training L environ argv = Inr args
   \<and> train args = PyStr train_dir \<and> train_file args = PyStr train_name
   \<and> test args = PyStr test_dir \<and> test_file args = PyStr test_name
   \<and> pipeline args = PyStr pdir \<and> pipeline_file args = PyStr pfile
   \<and> model_dir args = PyStr mdir
   \<and> files w (path_join train_dir train_name) = Some b1
   \<and> read_csv_parse L b1 = Inr train_df
   \<and> files w (path_join test_dir test_name) = Some b2
   \<and> read_csv_parse L b2 = Inr test_df
   \<and> drop_column ''y'' train_df = Inr X_train \<and> get_column train_df ''y'' = Inr y_train
   \<and> drop_column ''y'' test_df = Inr X_test \<and> get_column test_df ''y'' = Inr y_test
   \<and> forest_fit L g (n_estimators args) (min_samples_leaf args) (to_array X_train) (snd y_train) = Inr f
   \<and> est_predict L (RandomForestClassifier (n_estimators args) (min_samples_leaf args) (PyInt (- 1)) (Some f))
        (to_array X_test) = Inr y_pred
   \<and> accuracy_score (snd y_test) y_pred = Inr accuracy
   \<and> (if path_join pdir pfile = path_join mdir ''model.joblib''
       then Some (joblib_dumps L
              (RandomForestClassifier (n_estimators args) (min_samples_leaf args) (PyInt (- 1)) (Some f)))
       else files w (path_join pdir pfile)) = Some artifact
   \<and> w2 = w\<lparr>stdout := stdout w @ [accuracy],
            files := (files w)
              (path_join mdir ''model.joblib'' \<mapsto>
                 joblib_dumps L (RandomForestClassifier (n_estimators args) (min_samples_leaf args) (PyInt (- 1)) (Some f)),
               path_join mdir ''preproc.joblib'' \<mapsto> artifact)\<rparr>"
  using assms
  unfolding training_main_def Let_def
  by (clarsimp simp: bindS_Inr liftE_Inr read_csv_Inr dump_def write_file_Inr copy_Inr
        print_accuracy_Inr path_join_py_Inr fit_forest
      simp del: est_fit.simps est_predict.simps split del: if_split cong: if_cong)

lemma write_file_stdout: "write_file p b w = (r, w') \<Longrightarrow> stdout w' = stdout w"
  by (auto simp: write_file_def split: if_splits)

lemma copy_stdout: "copy src dst w = (r, w') \<Longrightarrow> stdout w' = stdout w"
  by (auto simp: copy_def split: option.splits if_splits dest: write_file_stdout)

lemma read_csv_world: "read_csv L p w = (r, w') \<Longrightarrow> w' = w"
  by (auto simp: read_csv_def split: option.splits)

lemma accuracy_score_range:
  assumes "accuracy_score y_true y_pred = Inr a" and "y_pred \<noteq> []"
  shows "\<exists>q. a = Score q \<and> 0 \<le> q \<and> q \<le> 1"
proof -
  from assms have len: "length y_true = length y_pred" and ne: "y_true \<noteq> []"
    by (auto simp: accuracy_score_def split: if_splits)
  let ?k = "length (filter (\<lambda>p. fst p = snd p) (zip y_true y_pred))"
  have a: "a = Score (of_nat ?k / of_nat (length y_true))"
    using assms(1) len ne by (simp add: accuracy_score_def)
  have "?k \<le> length (zip y_true y_pred)"
    by (rule length_filter_le)
  then have k: "?k \<le> length y_true"
    using len by simp
  have pos: "0 < length y_true"
    using ne by simp
  have "(of_nat ?k :: rat) \<le> of_nat (length y_true)"
    using k by (simp only: of_nat_le_iff)
  then have "(of_nat ?k :: rat) / of_nat (length y_true) \<le> 1"
    using pos by (simp add: divide_le_eq_1)
  moreover have "(0::rat) \<le> of_nat ?k / of_nat (length y_true)"
    by simp
  ultimately show ?thesis
    using a by blast
qed

lemma forest_predict_nonempty:
  assumes "\<forall>f X ys. forest_predict L f X = Inr ys \<longrightarrow> length ys = length (hd X)"
    and "est_predict L (RandomForestClassifier ne msl nj fo) X = Inr y_pred"
  shows "y_pred \<noteq> []"
proof (cases fo)
  case None
  with assms(2) show ?thesis by simp
next
  case (Some f)
  with assms(2) have "hd X \<noteq> []" and "forest_predict L f X = Inr y_pred"
    by (auto simp: bindE_Inr check_array_Inr)
  with assms(1) show ?thesis by fastforce
qed

lemma training_outcome:
  assumes "training_main L g environ argv w = (r, w2)"
  shows "stdout w2 = stdout w \<or>
    (\<exists>ne msl nj fo X_test y_test y_pred accuracy.
        est_predict L (RandomForestClassifier ne msl nj fo) X_test = Inr y_pred
      \<and> accuracy_score y_test y_pred = Inr accuracy
      \<and> stdout w2 = stdout w @ [accuracy])"
  using assms
  unfolding training_main_def Let_def
  by (auto simp: bindS_def liftE_def print_accuracy_def dump_def fit_forest
      split: prod.splits sum.splits
      dest!: read_csv_world write_file_stdout copy_stdout
      simp del: est_fit.simps est_predict.simps)

lemma fit_scaler_forest_pipeline:
  assumes "est_fit L g (Pipeline [(n1, StandardScaler s0), (n2, RandomForestClassifier ne msl nj f0)]) X y
             = Inr pipe"
  shows "\<exists>s f. pipe = Pipeline [(n1, StandardScaler (Some s)), (n2, RandomForestClassifier ne msl nj (Some f))]"
  using assms by (auto simp: bindE_Inr check_array_Inr split: if_splits)

lemma predict_scaler_forest_pipeline:
  assumes "\<forall>f X ys. forest_predict L f X = Inr ys \<longrightarrow> length ys = length (hd X)"
    and "est_predict L (Pipeline [(n1, StandardScaler so), (n2, RandomForestClassifier ne msl nj fo)]) X
             = Inr y_pred"
  shows "y_pred \<noteq> []"
proof -
  from assms(2) obtain Xt where "est_predict L (RandomForestClassifier ne msl nj fo) Xt = Inr y_pred"
    by (auto simp: bindE_Inr simp del: est_predict.simps(2,3) est_transform.simps)
  with assms(1) show ?thesis
    by (rule forest_predict_nonempty)
qed

lemma sklearn_pipeline_outcome:
  assumes "sklearn_pipeline_main L g environ argv w = (r, w2)"
  shows "stdout w2 = stdout w \<or>
    (\<exists>n1 so n2 ne msl nj fo X_test y_test y_pred accuracy.
        est_predict L (Pipeline [(n1, StandardScaler so), (n2, RandomForestClassifier ne msl nj fo)]) X_test
          = Inr y_pred
      \<and> accuracy_score y_test y_pred = Inr accuracy
      \<and> stdout w2 = stdout w @ [accuracy])"
  using assms
  unfolding sklearn_pipeline_main_def Let_def est_score_def
  by (auto simp: bindS_def liftE_def print_accuracy_def dump_def bindE_Inr
      split: prod.splits sum.splits
      dest!: read_csv_world write_file_stdout fit_scaler_forest_pipeline
      simp del: est_fit.simps est_predict.simps)

lemma training_model_fn_result:
  assumes "files w (path_join mdir ''preproc.joblib'') = Some pb"
    and "files w (path_join mdir ''model.joblib'') = Some mb"
  shows "training_model_fn L mdir w =
     (bindE (joblib_loads L pb) (\<lambda>preproc.
      bindE (joblib_loads L mb) (\<lambda>model.
      Inr (Pipeline [(''preproc'', preproc), (''model'', model)]))), w)"
  using assms
  by (simp add: training_model_fn_def bindS_def load_def returnS_def bindE_def Let_def
      split: sum.splits)

lemma fit_scaler_forest_pipeline_fitted:
  assumes "est_fit L g (Pipeline [(n1, StandardScaler s0), (n2, RandomForestClassifier ne msl nj f0)]) X y
     = Inr pipe"
  shows "\<exists>s T f. forest_fit L g ne msl T y = Inr f
        \<and> pipe = Pipeline [(n1, StandardScaler (Some s)), (n2, RandomForestClassifier ne msl nj (Some f))]"
  using assms by (auto simp: bindE_Inr check_array_Inr split: if_splits)

lemma sklearn_pipeline_success:
  assumes "sklearn_pipeline_main L g environ argv w = (Inr u, w2)"
  shows "\<exists>args mdir T y s f accuracy.
     parse_args_sklearn_pipeline L environ argv = Inr args
   \<and> model_dir args = PyStr mdir
   \<and> forest_fit L g (n_estimators args) (min_samples_leaf args) T y = Inr f
   \<and> w2 = w\<lparr>stdout := stdout w @ [accuracy],
            files := (files w)
              (path_join mdir ''pipeline.joblib'' \<mapsto>
                 joblib_dumps L
                   (Pipeline [(''scaler'', StandardScaler (Some s)),
                              (''rfc'', RandomForestClassifier (n_estimators args) (min_samples_leaf args)
                                          PyNone (Some f))]))\<rparr>"
  using assms
  unfolding sklearn_pipeline_main_def Let_def
  by (clarsimp simp: bindS_Inr liftE_Inr read_csv_Inr dump_def write_file_Inr
        print_accuracy_Inr path_join_py_Inr
      simp del: est_fit.simps est_predict.simps
      dest!: fit_scaler_forest_pipeline_fitted) blast

section \<open>Facts about the command-line parser\<close>

lemma before_eq_no_eq: "CHR ''='' \<notin> set s \<Longrightarrow> before_eq s = s"
  by (auto simp: before_eq_def takeWhile_eq_all_conv)

lemma before_eq_prefix: "prefix (before_eq s) s"
  unfolding before_eq_def by (metis prefixI takeWhile_dropWhile_id)

lemma take2_prefix:
  assumes "prefix a b" and "2 \<le> length a"
  shows "take 2 b = take 2 a"
proof -
  from assms(1) obtain c where "b = a @ c"
    by (auto simp: prefix_def)
  with assms(2) show ?thesis
    by simp
qed

lemma option_tuple_names:
  assumes t: "(opt, e) \<in> set (get_option_tuples P arg)"
    and long: "take 2 opt = ''--''" "2 < length opt"
    and len: "2 \<le> length arg"
  shows "take 2 arg = ''--'' \<and> prefix (before_eq arg) opt"
proof (cases "take 2 arg = ''--''")
  case True
  with t have "prefix (if CHR ''='' \<in> set arg then before_eq arg else arg) opt"
    by (auto simp: get_option_tuples_def Let_def)
  then have "prefix (before_eq arg) opt"
    by (simp add: before_eq_no_eq split: if_splits)
  with True show ?thesis
    by simp
next
  case False
  with t have "opt = take 2 arg \<or> prefix arg opt"
    by (auto simp: get_option_tuples_def split: if_splits)
  then show ?thesis
  proof
    assume "opt = take 2 arg"
    with long(2) show ?thesis
      by simp
  next
    assume "prefix arg opt"
    from take2_prefix [OF this len] long(1) False show ?thesis
      by simp
  qed
qed

lemma parse_optional_names:
  assumes p: "parse_optional P arg = Inr (Option opt e)"
    and long: "take 2 opt = ''--''" "2 < length opt" "CHR ''='' \<notin> set opt"
  shows "take 2 arg = ''--'' \<and> prefix (before_eq arg) opt"
proof -
  from p have ne: "arg \<noteq> []" and dash: "hd arg = CHR ''-''"
    by (auto simp: parse_optional_def split: if_splits)
  show ?thesis
  proof (cases "arg \<in> set (option_strings P)")
    case True
    with p ne dash have "opt = arg"
      by (simp add: parse_optional_def)
    with long show ?thesis
      by (simp add: before_eq_no_eq)
  next
    case False
    note notexact = this
    with p ne dash have len: "length arg \<noteq> 1"
      by (auto simp: parse_optional_def split: if_splits)
    with ne have len2: "2 \<le> length arg"
      by (cases arg) (auto simp: Suc_le_eq)
    show ?thesis
    proof (cases "CHR ''='' \<in> set arg \<and> before_eq arg \<in> set (option_strings P)")
      case True
      with p ne dash notexact len have opt: "opt = before_eq arg"
        by (simp add: parse_optional_def)
      from before_eq_prefix [of arg] opt have "prefix opt arg"
        by simp
      from take2_prefix [OF this] long show ?thesis
        by (simp add: opt)
    next
      case False
      with p ne dash notexact len
      have "\<exists>t. get_option_tuples P arg = [t] \<and> opt = fst t \<and> e = snd t"
        by (auto simp: parse_optional_def split: if_splits list.splits)
      then have "(opt, e) \<in> set (get_option_tuples P arg)"
        by auto
      from option_tuple_names [OF this long(1,2) len2] show ?thesis .
    qed
  qed
qed

lemma classify_names:
  assumes "classify P argv = Inr cs" and "(s, Option opt e) \<in> set cs"
    and "take 2 opt = ''--''" "2 < length opt" "CHR ''='' \<notin> set opt"
  shows "s \<in> set argv \<and> names_option opt s"
  using assms
proof (induction argv arbitrary: cs)
  case Nil
  then show ?case by simp
next
  case (Cons a rest)
  show ?case
  proof (cases "a = ''--''")
    case True
    with Cons.prems(1,2) show ?thesis
      by auto
  next
    case False
    with Cons.prems(1) obtain c cs' where c: "parse_optional P a = Inr c"
      and cs': "classify P rest = Inr cs'" and cs: "cs = (a, c) # cs'"
      by (auto simp: bindE_Inr)
    from Cons.prems(2) cs have "(s = a \<and> c = Option opt e) \<or> (s, Option opt e) \<in> set cs'"
      by auto
    then show ?thesis
    proof
      assume here: "s = a \<and> c = Option opt e"
      with c have "parse_optional P a = Inr (Option opt e)"
        by simp
      from parse_optional_names [OF this Cons.prems(3,4,5)] here False show ?thesis
        by (simp add: names_option_def)
    next
      assume "(s, Option opt e) \<in> set cs'"
      from Cons.IH [OF cs' this Cons.prems(3,4,5)] show ?thesis
        by simp
    qed
  qed
qed

lemma options_of_set: "opt \<in> set (options_of cs) \<longleftrightarrow> (\<exists>s e. (s, Option opt e) \<in> set cs)"
  by (induction cs rule: options_of.induct) auto

lemma consume_options:
  "consume L P cs = Inr stored \<Longrightarrow> fst ` set stored \<subseteq> set (options_of cs)"
proof (induction L P cs arbitrary: stored rule: consume.induct)
  case (1 L P)
  then show ?case by simp
next
  case (2 L P s opt e rest)
  note prems = \<open>consume L P ((s, Option opt e) # rest) = Inr stored\<close>
  show ?case
  proof (cases "map_of P opt")
    case None
    with prems have "consume L P rest = Inr stored"
      by simp
    with "2.IH" None show ?thesis
      by auto
  next
    case (Some act)
    note act = this
    show ?thesis
    proof (cases act)
      case Help
      with act prems show ?thesis
        by (auto split: option.splits if_splits)
    next
      case (Store ty)
      note store = this
      show ?thesis
      proof (cases e)
        case (Some x)
        with act store prems obtain v vs where v: "get_values L ty x = Inr v"
          and vs: "consume L P rest = Inr vs" and stored: "stored = (opt, v) # vs"
          by (auto simp: bindE_Inr)
        have "fst ` set vs \<subseteq> set (options_of rest)"
          using "2.IH" act store Some v vs by blast
        with stored show ?thesis
          by auto
      next
        case None
        with act store prems
        obtain x rest' v vs where rest: "rest = (x, Positional) # rest'"
          and v: "get_values L ty x = Inr v"
          and vs: "consume L P rest' = Inr vs" and stored: "stored = (opt, v) # vs"
          by (auto simp: bindE_Inr split: list.splits arg_class.splits)
        have "fst ` set vs \<subseteq> set (options_of rest')"
          using "2.IH" act store None rest v vs by blast
        with rest stored show ?thesis
          by auto
      qed
    qed
  qed
qed auto

lemma namespace_get_default:
  "opt \<notin> fst ` set stored \<Longrightarrow> namespace_get stored opt d = d"
  by (simp add: namespace_get_def map_of_eq_None_iff [THEN iffD2])

lemma not_supplied_not_stored:
  assumes absent: "list_all (\<lambda>arg. \<not> names_option opt arg) argv"
    and parsed: "parse_known_args L P argv = Inr stored"
    and long: "take 2 opt = ''--''" "2 < length opt" "CHR ''='' \<notin> set opt"
  shows "opt \<notin> fst ` set stored"
proof
  assume "opt \<in> fst ` set stored"
  from parsed obtain cs where cs: "classify P argv = Inr cs" and st: "consume L P cs = Inr stored"
    by (auto simp: parse_known_args_def bindE_Inr)
  from consume_options [OF st] \<open>opt \<in> fst ` set stored\<close> have "opt \<in> set (options_of cs)"
    by auto
  then obtain s e where "(s, Option opt e) \<in> set cs"
    by (auto simp: options_of_set)
  from classify_names [OF cs this long] absent show False
    by (auto simp: list_all_iff)
qed

section \<open>Facts about tables and the split\<close>

lemma iloc_Inr:
  "iloc df idx = Inr r \<longleftrightarrow>
     list_all (\<lambda>i. i < length (row_index df)) idx
     \<and> list_all (\<lambda>c. list_all (\<lambda>i. i < length (snd c)) idx) (cols df)
     \<and> r = \<lparr> row_index = take_positions idx (row_index df),
             cols = map (\<lambda>c. (fst c, take_positions idx (snd c))) (cols df) \<rparr>"
  by (auto simp: iloc_def)

lemma train_test_split_Inr:
  assumes "train_test_split L rs g df = Inr (part_train, part_test)"
  shows "(nrows df + 3) div 4 < nrows df"
    and "iloc df (take (nrows df - (nrows df + 3) div 4)
            (drop ((nrows df + 3) div 4)
               (rng_permutation L (check_random_state L rs g) (nrows df)))) = Inr part_train"
    and "iloc df (take ((nrows df + 3) div 4)
            (rng_permutation L (check_random_state L rs g) (nrows df))) = Inr part_test"
  using assms
  by (auto simp: train_test_split_def Let_def bindE_Inr split: if_splits)

lemma length_default_index: "length (default_index n) = n"
  by (simp add: default_index_def)

lemma default_index_no_label: "StrName name \<notin> set (default_index n)"
  by (auto simp: default_index_def)

lemma get_column_series:
  assumes "rectangular df" and "get_column df name = Inr ser"
  shows "fst ser = row_index df" and "length (snd ser) = nrows df"
proof -
  from assms(2) obtain c where c: "map_of (cols df) (StrName name) = Some c"
    and ser: "ser = (row_index df, c)"
    by (auto simp: get_column_def split: option.splits)
  from ser show "fst ser = row_index df"
    by simp
  from c have "(StrName name, c) \<in> set (cols df)"
    by (rule map_of_SomeD)
  with assms(1) ser show "length (snd ser) = nrows df"
    by (auto simp: rectangular_def list_all_iff nrows_def)
qed

lemma features_rectangular:
  assumes "rectangular df" and "drop_column name df = Inr X"
  shows "list_all (\<lambda>c. length c = nrows df) (to_array X)"
  using assms
  by (auto simp: drop_column_def rectangular_def to_array_def nrows_def list_all_iff split: if_splits)

lemma features_length:
  assumes "rectangular df" and "drop_column name df = Inr X" and "to_array X \<noteq> []"
  shows "length (hd (to_array X)) = nrows df"
proof -
  from assms(3) have "hd (to_array X) \<in> set (to_array X)"
    by simp
  with features_rectangular [OF assms(1,2)] show ?thesis
    by (simp add: list_all_iff)
qed

lemma shape_hd:
  assumes "map length T = map length X" and "X \<noteq> []"
  shows "T \<noteq> []" and "length (hd T) = length (hd X)"
proof -
  from assms show "T \<noteq> []"
    by auto
  with assms show "length (hd T) = length (hd X)"
    by (cases T; cases X) simp_all
qed

lemma shape_all:
  assumes "map length T = map length X" and "list_all (\<lambda>c. length c = n) X"
  shows "list_all (\<lambda>c. length c = n) T"
proof -
  from assms(2) have "list_all (\<lambda>k. k = n) (map length X)"
    by (simp add: list_all_iff)
  with assms(1) have "list_all (\<lambda>k. k = n) (map length T)"
    by simp
  then show ?thesis
    by (simp add: list_all_iff)
qed

lemma n_samples_of_hd: "T \<noteq> [] \<Longrightarrow> n_samples_of T = length (hd T)"
  by (cases T) (simp_all add: n_samples_of_def)

lemma to_array_DataFrame: "to_array (DataFrame T) = T"
  by (simp add: to_array_def DataFrame_def length_default_index)

text \<open>The table that the preprocessing stage splits, when the labels line up with the rows.\<close>

lemma concat_same_index:
  assumes "row_index df = fst ser"
  shows "concat_axis1 L df name ser = Inr (df\<lparr>cols := cols df @ [(StrName name, snd ser)]\<rparr>)"
  using assms by (simp add: concat_axis1_def)

lemma take_positions_nth:
  "j < length idx \<Longrightarrow> take_positions idx c ! j = c ! (idx ! j)"
  by (simp add: take_positions_def)

lemma selected_columns:
  "map (\<lambda>c. (fst c, take_positions idx (snd c))) (zip ls T @ [(l, ys)])
     = zip ls (map (take_positions idx) T) @ [(l, take_positions idx ys)]"
  by (simp add: zip_map2 case_prod_beta)

lemma features_of_written:
  assumes "length ls = length T" and "StrName name \<notin> set ls"
  shows "map snd (filter (\<lambda>c. fst c \<noteq> StrName name) (zip ls T @ [(StrName name, ys)])) = T"
proof -
  from assms(2) have "filter (\<lambda>c. fst c \<noteq> StrName name) (zip ls T) = zip ls T"
    by (auto simp: filter_id_conv dest: set_zip_leftD)
  with assms(1) show ?thesis
    by simp
qed

lemma same_features:
  assumes "map snd A = map snd B" and "map P A = map P B"
  shows "map snd (filter (\<lambda>c. \<not> P c) A) = map snd (filter (\<lambda>c. \<not> P c) B)"
proof -
  from assms(1) have "length A = length B"
    by (rule map_eq_imp_length_eq)
  then show ?thesis
    using assms by (induction A B rule: list_induct2) auto
qed

lemma transform_scaler_pipeline:
  "X \<noteq> [] \<Longrightarrow> hd X \<noteq> [] \<Longrightarrow>
     est_transform L (Pipeline [(name, StandardScaler (Some s))]) X = scaler_transform L s X"
  by (simp add: check_array_def bindE_def split: sum.splits)

lemma predict_fn_composite:
  "predict_fn L rows (Pipeline [(n1, pre), (n2, model)]) =
     bindE (est_transform L pre rows) (\<lambda>Xt. est_predict L model Xt)"
  by (simp add: predict_fn_def bindE_def split: sum.splits)

lemma preprocessing_tables:
  assumes run: "preprocessing_main L g argv w = (Inr u, w1)"
    and pargs: "parse_args_preprocessing L argv = Inr pargs"
    and indir: "filepath pargs = PyStr indir"
    and infile: "filename pargs = PyStr infile"
    and out: "outputpath pargs = PyStr out"
    and src_file: "files w (path_join indir infile) = Some b"
    and parsed: "read_csv_parse L b = Inr df"
    and rect: "rectangular df"
    and idx: "row_index df = default_index (nrows df)"
    and shape: "\<forall>s X T. scaler_transform L s X = Inr T \<longrightarrow> map length T = map length X"
  shows "\<exists>X y s T ind_train ind_test.
      drop_column ''y'' df = Inr X
    \<and> get_column df ''y'' = Inr y
    \<and> to_array X \<noteq> [] \<and> hd (to_array X) \<noteq> []
    \<and> scaler_fit L (to_array X) = Inr s
    \<and> scaler_transform L s (to_array X) = Inr T
    \<and> (nrows df + 3) div 4 < nrows df
    \<and> ind_test = take ((nrows df + 3) div 4) (rng_permutation L (rng_seed L 42) (nrows df))
    \<and> ind_train = take (nrows df - (nrows df + 3) div 4)
                     (drop ((nrows df + 3) div 4) (rng_permutation L (rng_seed L 42) (nrows df)))
    \<and> list_all (\<lambda>i. i < nrows df) (ind_train @ ind_test)
    \<and> files w1 (path_join out ''train/train.csv'')
        = Some (to_csv_render L
            (zip (default_index (length T)) (map (take_positions ind_train) T)
               @ [(StrName ''y'', take_positions ind_train (snd y))]))
    \<and> files w1 (path_join out ''test/test.csv'')
        = Some (to_csv_render L
            (zip (default_index (length T)) (map (take_positions ind_test) T)
               @ [(StrName ''y'', take_positions ind_test (snd y))]))
    \<and> files w1 (path_join out ''pipeline/preproc-pipeline.joblib'')
        = Some (joblib_dumps L (Pipeline [(''scaler'', StandardScaler (Some s))]))"
proof -
  from preprocessing_success [OF run]
  obtain pargs' indir' infile' out' b' df' X y s T whole part_train part_test where
    pargs': "parse_args_preprocessing L argv = Inr pargs'"
    and indir': "filepath pargs' = PyStr indir'"
    and infile': "filename pargs' = PyStr infile'"
    and out': "outputpath pargs' = PyStr out'"
    and src_file': "files w (path_join indir' infile') = Some b'"
    and parsed': "read_csv_parse L b' = Inr df'"
    and X': "drop_column ''y'' df' = Inr X"
    and y': "get_column df' ''y'' = Inr y"
    and ne: "to_array X \<noteq> []" "hd (to_array X) \<noteq> []"
    and s: "scaler_fit L (to_array X) = Inr s"
    and T: "scaler_transform L s (to_array X) = Inr T"
    and joined: "concat_axis1 L (DataFrame T) ''y'' y = Inr whole"
    and split: "train_test_split L (Some 42) g whole = Inr (part_train, part_test)"
    and w1: "w1 = w\<lparr>files := (files w)
        (path_join out' ''train/train.csv'' \<mapsto> to_csv_render L (cols part_train),
         path_join out' ''test/test.csv'' \<mapsto> to_csv_render L (cols part_test),
         path_join out' ''pipeline/preproc-pipeline.joblib''
           \<mapsto> joblib_dumps L (Pipeline [(''scaler'', StandardScaler (Some s))]))\<rparr>"
    by (elim exE conjE) (rule that, assumption+)
  from pargs pargs' have same: "pargs' = pargs"
    by simp
  with indir indir' infile infile' out out'
  have "indir' = indir" "infile' = infile" and o: "out' = out"
    by simp_all
  with src_file src_file' parsed parsed' have df: "df' = df"
    by simp
  note X = X' [unfolded df] and y = y' [unfolded df]
  let ?n = "nrows df"
  from shape T have len: "map length T = map length (to_array X)"
    by blast
  from shape_hd [OF len ne(1)] features_length [OF rect X ne(1)]
  have Tne: "T \<noteq> []" and Tn: "length (hd T) = ?n"
    by simp_all
  from get_column_series [OF rect y] have yi: "fst y = row_index df" and yn: "length (snd y) = ?n"
    by simp_all
  have "row_index (DataFrame T) = fst y"
    by (simp add: DataFrame_def n_samples_of_hd [OF Tne] Tn yi idx)
  from concat_same_index [OF this, of L "''y''"] joined
  have out_eq: "whole = (DataFrame T)\<lparr>cols := cols (DataFrame T) @ [(StrName ''y'', snd y)]\<rparr>"
    by simp
  have out_cols: "cols whole = zip (default_index (length T)) T @ [(StrName ''y'', snd y)]"
    and out_n: "nrows whole = ?n"
    by (simp_all add: out_eq DataFrame_def nrows_def length_default_index n_samples_of_hd [OF Tne] Tn)
  let ?perm = "rng_permutation L (rng_seed L 42) ?n"
  let ?ind_test = "take ((?n + 3) div 4) ?perm"
  let ?ind_train = "take (?n - (?n + 3) div 4) (drop ((?n + 3) div 4) ?perm)"
  have rng: "check_random_state L (Some 42) g = rng_seed L 42"
    by (simp add: check_random_state_def)
  from train_test_split_Inr [OF split] rng out_n
  have small: "(?n + 3) div 4 < ?n"
    and tr: "iloc whole ?ind_train = Inr part_train"
    and te: "iloc whole ?ind_test = Inr part_test"
    by simp_all
  from tr have tr_range: "list_all (\<lambda>i. i < ?n) ?ind_train"
    and tr_cols: "cols part_train = map (\<lambda>c. (fst c, take_positions ?ind_train (snd c))) (cols whole)"
    using out_n by (simp_all add: iloc_Inr nrows_def)
  from te have te_range: "list_all (\<lambda>i. i < ?n) ?ind_test"
    and te_cols: "cols part_test = map (\<lambda>c. (fst c, take_positions ?ind_test (snd c))) (cols whole)"
    using out_n by (simp_all add: iloc_Inr nrows_def)
  have range: "list_all (\<lambda>i. i < ?n) (?ind_train @ ?ind_test)"
    using tr_range te_range by simp
  have tr_written: "cols part_train = zip (default_index (length T)) (map (take_positions ?ind_train) T)
               @ [(StrName ''y'', take_positions ?ind_train (snd y))]"
    unfolding tr_cols out_cols by (rule selected_columns)
  have te_written: "cols part_test = zip (default_index (length T)) (map (take_positions ?ind_test) T)
               @ [(StrName ''y'', take_positions ?ind_test (snd y))]"
    unfolding te_cols out_cols by (rule selected_columns)
  have f1: "files w1 (path_join out ''train/train.csv'') = Some (to_csv_render L (cols part_train))"
    and f2: "files w1 (path_join out ''test/test.csv'') = Some (to_csv_render L (cols part_test))"
    and f3: "files w1 (path_join out ''pipeline/preproc-pipeline.joblib'')
        = Some (joblib_dumps L (Pipeline [(''scaler'', StandardScaler (Some s))]))"
    by (simp_all add: w1 o artifact_names_distinct)
  note g1 = f1 [unfolded tr_written] and g2 = f2 [unfolded te_written]
  show ?thesis
    apply (rule exI [of _ X], rule exI [of _ y], rule exI [of _ s], rule exI [of _ T])
    apply (rule exI [of _ ?ind_train], rule exI [of _ ?ind_test])
    using X y ne s T small range g1 g2 f3
    apply (intro conjI)
    apply (assumption | rule refl)+
    done
qed

section \<open>Facts about single rows\<close>

lemma drop_column_array:
  "drop_column name df = Inr X \<Longrightarrow>
     to_array X = map snd (filter (\<lambda>c. \<not> (fst c = StrName name)) (cols df))"
  by (auto simp: drop_column_def to_array_def split: if_splits)

lemma row_at_selected:
  "j < length idx \<Longrightarrow> row_at (map (take_positions idx) T) j = row_at T (idx ! j)"
  by (simp add: row_at_def take_positions_def)

lemma row_at_nonempty: "X \<noteq> [] \<Longrightarrow> row_at X i \<noteq> [] \<and> hd (row_at X i) \<noteq> []"
  by (cases X) (simp_all add: row_at_def)

lemma predict_row:
  assumes rows: "\<forall>f X ys j. forest_predict L f X = Inr ys \<and> X \<noteq> [] \<and> j < length (hd X) \<longrightarrow>
                   forest_predict L f (row_at X j) = Inr [ys ! j]"
    and batch: "est_predict L (RandomForestClassifier ne msl nj (Some f)) Xt = Inr ys"
    and j: "j < length (hd Xt)"
  shows "est_predict L (RandomForestClassifier ne msl nj (Some f)) (row_at Xt j) = Inr [ys ! j]"
proof -
  from batch have ne: "Xt \<noteq> []" and p: "forest_predict L f Xt = Inr ys"
    by (auto simp: bindE_Inr check_array_Inr)
  from rows p ne j have "forest_predict L f (row_at Xt j) = Inr [ys ! j]"
    by blast
  with row_at_nonempty [OF ne, of j] show ?thesis
    by (simp add: check_array_def bindE_def)
qed

lemma transform_row:
  assumes rows: "\<forall>s X T i. scaler_transform L s X = Inr T \<and> list_all (\<lambda>c. i < length c) X \<longrightarrow>
                   scaler_transform L s (row_at X i) = Inr (row_at T i)"
    and batch: "scaler_transform L s X = Inr T"
    and ne: "X \<noteq> []"
    and i: "list_all (\<lambda>c. i < length c) X"
  shows "est_transform L (Pipeline [(name, StandardScaler (Some s))]) (row_at X i) = Inr (row_at T i)"
proof -
  from rows batch i have "scaler_transform L s (row_at X i) = Inr (row_at T i)"
    by blast
  moreover from row_at_nonempty [OF ne, of i]
  have "est_transform L (Pipeline [(name, StandardScaler (Some s))]) (row_at X i)
          = scaler_transform L s (row_at X i)"
    by (intro transform_scaler_pipeline) simp_all
  ultimately show ?thesis
    by (simp only:)
qed

section \<open>The scripts on the small instance\<close>

lemma run_eq: "fst p = r \<Longrightarrow> p = (r, snd p)"
  by (cases p) simp

lemma demo_preprocessing_run:
  "preprocessing_main demo_library 0 demo_prep_argv demo_world = (Inr (), demo_world_preprocessed)"
proof -
  have "fst (preprocessing_main demo_library 0 demo_prep_argv demo_world) = Inr ()"
    by code_simp
  then show ?thesis
    unfolding demo_world_preprocessed_def by (rule run_eq)
qed

lemma demo_training_run:
  "training_main demo_library 7 Map.empty demo_train_argv demo_world_preprocessed
     = (Inr (), demo_world_trained)"
proof -
  have "fst (training_main demo_library 7 Map.empty demo_train_argv demo_world_preprocessed) = Inr ()"
    by code_simp
  then show ?thesis
    unfolding demo_world_trained_def by (rule run_eq)
qed

lemma demo_mono_run:
  "sklearn_pipeline_main demo_library 7 Map.empty demo_mono_argv demo_world_preprocessed
     = (Inr (), demo_world_mono)"
proof -
  have "fst (sklearn_pipeline_main demo_library 7 Map.empty demo_mono_argv demo_world_preprocessed) = Inr ()"
    by code_simp
  then show ?thesis
    unfolding demo_world_mono_def by (rule run_eq)
qed

lemma demo_hundred_run:
  "preprocessing_main demo_library 0 demo_hundred_argv demo_world = (Inr (), demo_world_hundred)"
proof -
  have "fst (preprocessing_main demo_library 0 demo_hundred_argv demo_world) = Inr ()"
    by code_simp
  then show ?thesis
    unfolding demo_world_hundred_def by (rule run_eq)
qed

lemma demo_row_names_run:
  "preprocessing_main demo_library 0 demo_row_names_argv demo_world = (Inr (), demo_world_row_names)"
proof -
  have "fst (preprocessing_main demo_library 0 demo_row_names_argv demo_world) = Inr ()"
    by code_simp
  then show ?thesis
    unfolding demo_world_row_names_def by (rule run_eq)
qed

lemma demo_hundred_row_names_run:
  "preprocessing_main demo_library 0 demo_hundred_row_names_argv demo_world
     = (Inr (), demo_world_hundred_row_names)"
proof -
  have "fst (preprocessing_main demo_library 0 demo_hundred_row_names_argv demo_world) = Inr ()"
    by code_simp
  then show ?thesis
    unfolding demo_world_hundred_row_names_def by (rule run_eq)
qed

lemma demo_parse_prep:
  "parse_args_preprocessing demo_library demo_prep_argv = Inr demo_preprocessing_args"
  by code_simp

lemma demo_parse_args:
  "parse_args_training demo_library Map.empty demo_train_argv = Inr demo_training_args"
  by code_simp

lemma demo_parsed: "read_csv_parse demo_library (DemoCsv t) = Inr t"
  by (simp add: demo_library_def)

lemma demo_roundtrip: "\<forall>e. joblib_loads demo_library (joblib_dumps demo_library e) = Inr e"
  by (simp add: demo_library_def)

lemma demo_paths:
  "path_join ''/in'' ''data.csv'' = ''/in/data.csv''"
  "path_join ''/out'' ''pipeline/preproc-pipeline.joblib'' = ''/out/pipeline/preproc-pipeline.joblib''"
  "path_join ''/out'' ''train/train.csv'' = ''/out/train/train.csv''"
  "path_join ''/out'' ''test/test.csv'' = ''/out/test/test.csv''"
  "path_join ''/model'' ''model.joblib'' = ''/model/model.joblib''"
  "path_join ''/model'' ''preproc.joblib'' = ''/model/preproc.joblib''"
  "path_join ''/out/test'' ''test.csv'' = ''/out/test/test.csv''"
  "path_join ''/out/train'' ''train.csv'' = ''/out/train/train.csv''"
  "path_join ''/out/pipeline'' ''preproc-pipeline.joblib'' = ''/out/pipeline/preproc-pipeline.joblib''"
  by code_simp+

lemma demo_model_fn_run:
  "training_model_fn demo_library ''/model'' demo_world_trained
     = (Inr (Pipeline [(''preproc'', Pipeline [(''scaler'', StandardScaler (Some 1))]),
                       (''model'', RandomForestClassifier (PyInt 10) (PyInt 3) (PyInt (- 1)) (Some (- 1)))]),
        snd (training_model_fn demo_library ''/model'' demo_world_trained))"
proof -
  have "fst (training_model_fn demo_library ''/model'' demo_world_trained)
     = Inr (Pipeline [(''preproc'', Pipeline [(''scaler'', StandardScaler (Some 1))]),
                      (''model'', RandomForestClassifier (PyInt 10) (PyInt 3) (PyInt (- 1)) (Some (- 1)))])"
    by code_simp
  then show ?thesis
    by (rule run_eq)
qed

lemma demo_test_file:
  "files demo_world_preprocessed ''/out/test/test.csv''
     = Some (DemoCsv \<lparr> row_index = [IntName 0, IntName 1],
                       cols = [(IntName 0, [Some 0, Some 1]), (IntName 1, [Some 4, Some 5]),
                               (StrName ''y'', [Some 1, Some 0])] \<rparr>)"
  by code_simp

lemma demo_csv:
  "\<forall>cs df'. read_csv_parse demo_library (to_csv_render demo_library cs) = Inr df' \<longrightarrow>
      map snd (cols df') = map snd cs
    \<and> map (\<lambda>c. fst c = StrName ''y'') (cols df') = map (\<lambda>c. fst c = StrName ''y'') cs"
  by (auto simp: demo_library_def)

lemma demo_shape:
  "\<forall>s X T. scaler_transform demo_library s X = Inr T \<longrightarrow> map length T = map length X"
  by (auto simp: demo_library_def comp_def)

lemma demo_scaler_rows:
  "\<forall>s X T i. scaler_transform demo_library s X = Inr T \<and> list_all (\<lambda>c. i < length c) X \<longrightarrow>
      scaler_transform demo_library s (row_at X i) = Inr (row_at T i)"
  by (auto simp: demo_library_def row_at_def list_all_iff)

lemma demo_forest_rows:
  "\<forall>f X ys j. forest_predict demo_library f X = Inr ys \<and> X \<noteq> [] \<and> j < length (hd X) \<longrightarrow>
      forest_predict demo_library f (row_at X j) = Inr [ys ! j]"
  by (auto simp: demo_library_def row_at_def hd_map)

lemma demo_forest_len:
  "\<forall>f X ys. forest_predict demo_library f X = Inr ys \<longrightarrow> length ys = length (hd X)"
  by (auto simp: demo_library_def)

lemma demo_rectangular:
  "rectangular demo_table" "row_index demo_table = default_index (nrows demo_table)"
  "rectangular demo_table_100" "row_index demo_table_100 = default_index (nrows demo_table_100)"
  by (simp_all add: rectangular_def nrows_def demo_table_def demo_table_100_def length_default_index)

lemma demo_input:
  "files demo_world (path_join ''/in'' ''data.csv'') = Some (DemoCsv demo_table)"
  by code_simp

lemma demo_split:
  "take ((nrows demo_table + 3) div 4)
     (rng_permutation demo_library (rng_seed demo_library 42) (nrows demo_table)) = [0, 1]"
  by code_simp

lemma demo_features:
  "drop_column ''y'' demo_table
     = Inr \<lparr> row_index = default_index 6,
             cols = [(StrName ''a'', map Some [1, 2, 3, 4, 5, 6]),
                     (StrName ''b'', map Some [5, 6, 7, 8, 9, 10])] \<rparr>"
  by code_simp

lemma demo_in_process:
  "est_predict demo_library demo_model demo_test_features = Inr [Some 1, Some 1]"
  by code_simp

section \<open>Input files without row names\<close>

text \<open>
  When the rows of the input file have as many fields as its header, \<^verbatim>\<open>read_csv\<close> gives
  the table the default row index, the labels line up with the transformed rows, and a
  successful run of \<^verbatim>\<open>preprocessing.py\<close> does what the contract of the stage says: the
  train table has the rows at three quarters of the positions (rounded down) and the test
  table the rows at the others, every position once; the feature values written are those
  that the transform artifact, loaded again, computes from the feature columns of the
  input; the labels written are the input labels at the same positions. The library is
  assumed to keep the shape of an array in the scaler, to draw a permutation, and to load
  what was dumped.
\<close>

lemma preprocessing_without_row_names:
  assumes run: "preprocessing_main L g argv w = (Inr u, w1)"
    and pargs: "parse_args_preprocessing L argv = Inr pargs"
    and indir: "filepath pargs = PyStr indir"
    and infile: "filename pargs = PyStr infile"
    and out: "outputpath pargs = PyStr out"
    and src_file: "files w (path_join indir infile) = Some b"
    and parsed: "read_csv_parse L b = Inr df"
    and rect: "rectangular df"
    and idx: "row_index df = default_index (nrows df)"
    and shape: "\<forall>s X T. scaler_transform L s X = Inr T \<longrightarrow> map length T = map length X"
    and perm: "\<forall>r n. mset (rng_permutation L r n) = mset [0..<n]"
    and joblib: "\<forall>e. joblib_loads L (joblib_dumps L e) = Inr e"
  shows "\<exists>X y artifact pipe T ind_train ind_test.
      drop_column ''y'' df = Inr X
    \<and> get_column df ''y'' = Inr y
    \<and> files w1 (path_join out ''pipeline/preproc-pipeline.joblib'') = Some artifact
    \<and> joblib_loads L artifact = Inr pipe
    \<and> est_transform L pipe (to_array X) = Inr T
    \<and> mset (ind_train @ ind_test) = mset [0..<nrows df]
    \<and> length ind_test = (nrows df + 3) div 4
    \<and> length ind_train + length ind_test = nrows df
    \<and> (nrows df = 100 \<longrightarrow> length ind_train = 75 \<and> length ind_test = 25)
    \<and> files w1 (path_join out ''train/train.csv'')
        = Some (to_csv_render L
            (zip (default_index (length T)) (map (take_positions ind_train) T)
               @ [(StrName ''y'', take_positions ind_train (snd y))]))
    \<and> files w1 (path_join out ''test/test.csv'')
        = Some (to_csv_render L
            (zip (default_index (length T)) (map (take_positions ind_test) T)
               @ [(StrName ''y'', take_positions ind_test (snd y))]))"
proof -
  let ?n = "nrows df"
  let ?perm = "rng_permutation L (rng_seed L 42) ?n"
  from preprocessing_tables [OF run pargs indir infile out src_file parsed rect idx shape]
  obtain X y s T ind_train ind_test where
    X: "drop_column ''y'' df = Inr X"
    and y: "get_column df ''y'' = Inr y"
    and ne: "to_array X \<noteq> []" "hd (to_array X) \<noteq> []"
    and T: "scaler_transform L s (to_array X) = Inr T"
    and small: "(?n + 3) div 4 < ?n"
    and ind_test: "ind_test = take ((?n + 3) div 4) ?perm"
    and ind_train: "ind_train = take (?n - (?n + 3) div 4) (drop ((?n + 3) div 4) ?perm)"
    and f1: "files w1 (path_join out ''train/train.csv'')
        = Some (to_csv_render L
            (zip (default_index (length T)) (map (take_positions ind_train) T)
               @ [(StrName ''y'', take_positions ind_train (snd y))]))"
    and f2: "files w1 (path_join out ''test/test.csv'')
        = Some (to_csv_render L
            (zip (default_index (length T)) (map (take_positions ind_test) T)
               @ [(StrName ''y'', take_positions ind_test (snd y))]))"
    and f3: "files w1 (path_join out ''pipeline/preproc-pipeline.joblib'')
        = Some (joblib_dumps L (Pipeline [(''scaler'', StandardScaler (Some s))]))"
    by (elim exE conjE) (rule that, assumption+)
  let ?pipe = "Pipeline [(''scaler'', StandardScaler (Some s))]"
  from joblib have loaded: "joblib_loads L (joblib_dumps L ?pipe) = Inr ?pipe"
    by blast
  from transform_scaler_pipeline [OF ne, of L "''scaler''" s] T
  have again: "est_transform L ?pipe (to_array X) = Inr T"
    by (simp only:)
  from perm have mperm: "mset ?perm = mset [0..<?n]"
    by blast
  then have "length ?perm = length [0..<?n]"
    by (rule mset_eq_length)
  then have len: "length ?perm = ?n"
    by simp
  from ind_test len small have l_test: "length ind_test = (?n + 3) div 4"
    by simp
  from ind_train len have l_train: "length ind_train = ?n - (?n + 3) div 4"
    by simp
  from l_train l_test small have total: "length ind_train + length ind_test = ?n"
    by simp
  from l_train l_test have hundred: "?n = 100 \<longrightarrow> length ind_train = 75 \<and> length ind_test = 25"
    by simp
  from ind_train len have "ind_train = drop ((?n + 3) div 4) ?perm"
    by simp
  with ind_test have "mset (ind_train @ ind_test)
      = mset (drop ((?n + 3) div 4) ?perm) + mset (take ((?n + 3) div 4) ?perm)"
    by simp
  also have "\<dots> = mset (take ((?n + 3) div 4) ?perm @ drop ((?n + 3) div 4) ?perm)"
    by (simp only: mset_append add.commute)
  also have "\<dots> = mset [0..<?n]"
    using mperm by simp
  finally have cover: "mset (ind_train @ ind_test) = mset [0..<?n]" .
  show ?thesis
    apply (rule exI [of _ X], rule exI [of _ y], rule exI [of _ "joblib_dumps L ?pipe"])
    apply (rule exI [of _ ?pipe], rule exI [of _ T])
    apply (rule exI [of _ ind_train], rule exI [of _ ind_test])
    using X y f3 loaded again cover l_test total hundred f1 f2
    apply (intro conjI)
    apply (assumption | rule refl)+
    done
qed

section \<open>Hyperparameter defaults\<close>

text \<open>
  C10. When no string of the command line names \<^verbatim>\<open>--n-estimators\<close> (in full, by a prefix
  such as \<^verbatim>\<open>--n-est\<close>, or with \<^verbatim>\<open>=value\<close> attached), every result that \<^verbatim>\<open>_parse_args\<close>
  of \<^verbatim>\<open>training.py\<close> or of \<^verbatim>\<open>sklearn_pipeline.py\<close> returns has \<^verbatim>\<open>n_estimators = 10\<close>;
  likewise \<^verbatim>\<open>min_samples_leaf = 3\<close> when none names \<^verbatim>\<open>--min-samples-leaf\<close>. The parsers
  do return, with both defaults, on the empty command line and on the command lines of the
  notebook's local runs. With the hyperparameters of the notebook's cloud jobs (and an
  \<^verbatim>\<open>int\<close> that reads the two decimal strings) they return 100 and 3, and 100 also when
  the option is abbreviated to \<^verbatim>\<open>--n-est\<close>; the ambiguous \<^verbatim>\<open>--t\<close> ends the process with
  status 2. The scripts hand the two values to the forest as they are: a run of either
  script that succeeds on a command line that names neither option has fitted a forest
  with 10 and 3 and has written it to the model directory.
\<close>

theorem default_hyperparameters:
  "(list_all (\<lambda>arg. \<not> names_option ''--n-estimators'' arg) argv \<longrightarrow>
      (\<forall>a. parse_args_training L environ argv = Inr a \<longrightarrow> n_estimators a = PyInt 10) \<and>
      (\<forall>a. parse_args_sklearn_pipeline L environ argv = Inr a \<longrightarrow> n_estimators a = PyInt 10)) \<and>
   (list_all (\<lambda>arg. \<not> names_option ''--min-samples-leaf'' arg) argv \<longrightarrow>
      (\<forall>a. parse_args_training L environ argv = Inr a \<longrightarrow> min_samples_leaf a = PyInt 3) \<and>
      (\<forall>a. parse_args_sklearn_pipeline L environ argv = Inr a \<longrightarrow> min_samples_leaf a = PyInt 3)) \<and>
   (\<exists>a. parse_args_training L environ [] = Inr a
        \<and> n_estimators a = PyInt 10 \<and> min_samples_leaf a = PyInt 3) \<and>
   (\<exists>a. parse_args_sklearn_pipeline L environ [] = Inr a
        \<and> n_estimators a = PyInt 10 \<and> min_samples_leaf a = PyInt 3) \<and>
   (\<exists>a. parse_args_training L environ notebook_local_run_training = Inr a
        \<and> n_estimators a = PyInt 10 \<and> min_samples_leaf a = PyInt 3) \<and>
   (\<exists>a. parse_args_sklearn_pipeline L environ notebook_local_run = Inr a
        \<and> n_estimators a = PyInt 10 \<and> min_samples_leaf a = PyInt 3) \<and>
   (py_int L ''100'' = Some 100 \<and> py_int L ''3'' = Some 3 \<longrightarrow>
      (\<exists>a. parse_args_training L environ notebook_hyperparameters = Inr a
           \<and> n_estimators a = PyInt 100 \<and> min_samples_leaf a = PyInt 3) \<and>
      (\<exists>a. parse_args_sklearn_pipeline L environ notebook_hyperparameters = Inr a
           \<and> n_estimators a = PyInt 100 \<and> min_samples_leaf a = PyInt 3) \<and>
      (\<exists>a. parse_args_training L environ [''--n-est'', ''100''] = Inr a
           \<and> n_estimators a = PyInt 100 \<and> min_samples_leaf a = PyInt 3)) \<and>
   parse_args_training L environ [''--t'', ''x''] = Inl (SystemExit 2) \<and>
   (list_all (\<lambda>arg. \<not> names_option ''--n-estimators'' arg) argv
      \<and> list_all (\<lambda>arg. \<not> names_option ''--min-samples-leaf'' arg) argv \<longrightarrow>
      (training_main L g environ argv w = (Inr u, w2) \<longrightarrow>
         (\<exists>args mdir T y f.
             parse_args_training L environ argv = Inr args \<and> model_dir args = PyStr mdir
           \<and> forest_fit L g (PyInt 10) (PyInt 3) T y = Inr f
           \<and> files w2 (path_join mdir ''model.joblib'')
               = Some (joblib_dumps L
                   (RandomForestClassifier (PyInt 10) (PyInt 3) (PyInt (- 1)) (Some f))))) \<and>
      (sklearn_pipeline_main L g environ argv w = (Inr u, w3) \<longrightarrow>
         (\<exists>args mdir T y s f.
             parse_args_sklearn_pipeline L environ argv = Inr args \<and> model_dir args = PyStr mdir
           \<and> forest_fit L g (PyInt 10) (PyInt 3) T y = Inr f
           \<and> files w3 (path_join mdir ''pipeline.joblib'')
               = Some (joblib_dumps L
                   (Pipeline [(''scaler'', StandardScaler (Some s)),
                              (''rfc'', RandomForestClassifier (PyInt 10) (PyInt 3) PyNone (Some f))])))))"
proof -
  have ne: "n_estimators a = PyInt 10"
    if "list_all (\<lambda>arg. \<not> names_option ''--n-estimators'' arg) argv"
      and "parse_args_training L environ argv = Inr a" for a
  proof -
    from that(2) obtain stored where st: "parse_known_args L training_parser argv = Inr stored"
      and a: "n_estimators a = namespace_get stored ''--n-estimators'' (PyInt 10)"
      by (auto simp: parse_args_training_def bindE_Inr)
    from not_supplied_not_stored [OF that(1) st] have "''--n-estimators'' \<notin> fst ` set stored"
      by simp
    with a show ?thesis
      by (simp add: namespace_get_default)
  qed
  have ne': "n_estimators a = PyInt 10"
    if "list_all (\<lambda>arg. \<not> names_option ''--n-estimators'' arg) argv"
      and "parse_args_sklearn_pipeline L environ argv = Inr a" for a
  proof -
    from that(2) obtain stored where st: "parse_known_args L sklearn_pipeline_parser argv = Inr stored"
      and a: "n_estimators a = namespace_get stored ''--n-estimators'' (PyInt 10)"
      by (auto simp: parse_args_sklearn_pipeline_def bindE_Inr)
    from not_supplied_not_stored [OF that(1) st] have "''--n-estimators'' \<notin> fst ` set stored"
      by simp
    with a show ?thesis
      by (simp add: namespace_get_default)
  qed
  have msl: "min_samples_leaf a = PyInt 3"
    if "list_all (\<lambda>arg. \<not> names_option ''--min-samples-leaf'' arg) argv"
      and "parse_args_training L environ argv = Inr a" for a
  proof -
    from that(2) obtain stored where st: "parse_known_args L training_parser argv = Inr stored"
      and a: "min_samples_leaf a = namespace_get stored ''--min-samples-leaf'' (PyInt 3)"
      by (auto simp: parse_args_training_def bindE_Inr)
    from not_supplied_not_stored [OF that(1) st] have "''--min-samples-leaf'' \<notin> fst ` set stored"
      by simp
    with a show ?thesis
      by (simp add: namespace_get_default)
  qed
  have msl': "min_samples_leaf a = PyInt 3"
    if "list_all (\<lambda>arg. \<not> names_option ''--min-samples-leaf'' arg) argv"
      and "parse_args_sklearn_pipeline L environ argv = Inr a" for a
  proof -
    from that(2) obtain stored where st: "parse_known_args L sklearn_pipeline_parser argv = Inr stored"
      and a: "min_samples_leaf a = namespace_get stored ''--min-samples-leaf'' (PyInt 3)"
      by (auto simp: parse_args_sklearn_pipeline_def bindE_Inr)
    from not_supplied_not_stored [OF that(1) st] have "''--min-samples-leaf'' \<notin> fst ` set stored"
      by simp
    with a show ?thesis
      by (simp add: namespace_get_default)
  qed
  have empty: "\<exists>a. parse_args_training L environ [] = Inr a
        \<and> n_estimators a = PyInt 10 \<and> min_samples_leaf a = PyInt 3"
    by (simp add: parse_args_training_def parse_known_args_def bindE_def namespace_get_def)
  have empty': "\<exists>a. parse_args_sklearn_pipeline L environ [] = Inr a
        \<and> n_estimators a = PyInt 10 \<and> min_samples_leaf a = PyInt 3"
    by (simp add: parse_args_sklearn_pipeline_def parse_known_args_def bindE_def namespace_get_def)
  have c1: "classify training_parser notebook_local_run_training =
      Inr [(''--train'', Option ''--train'' None), (''./temp/train'', Positional),
           (''--test'', Option ''--test'' None), (''./temp/test'', Positional),
           (''--pipeline'', Option ''--pipeline'' None), (''./temp/pipeline'', Positional),
           (''--model-dir'', Option ''--model-dir'' None), (''./temp/'', Positional)]"
    by code_simp
  have local: "\<exists>a. parse_args_training L environ notebook_local_run_training = Inr a
        \<and> n_estimators a = PyInt 10 \<and> min_samples_leaf a = PyInt 3"
    unfolding parse_args_training_def parse_known_args_def c1
    by (simp add: training_parser_def get_values_def bindE_def namespace_get_def)
  have c2: "classify sklearn_pipeline_parser notebook_local_run =
      Inr [(''--model-dir'', Option ''--model-dir'' None), (''.'', Positional),
           (''--train'', Option ''--train'' None), (''/tmp/'', Positional),
           (''--test'', Option ''--test'' None), (''/tmp/'', Positional)]"
    by code_simp
  have local': "\<exists>a. parse_args_sklearn_pipeline L environ notebook_local_run = Inr a
        \<and> n_estimators a = PyInt 10 \<and> min_samples_leaf a = PyInt 3"
    unfolding parse_args_sklearn_pipeline_def parse_known_args_def c2
    by (simp add: sklearn_pipeline_parser_def get_values_def bindE_def namespace_get_def)
  have c3: "classify training_parser notebook_hyperparameters =
      Inr [(''--n-estimators'', Option ''--n-estimators'' None), (''100'', Positional),
           (''--min-samples-leaf'', Option ''--min-samples-leaf'' None), (''3'', Positional)]"
    by code_simp
  have c4: "classify sklearn_pipeline_parser notebook_hyperparameters =
      Inr [(''--n-estimators'', Option ''--n-estimators'' None), (''100'', Positional),
           (''--min-samples-leaf'', Option ''--min-samples-leaf'' None), (''3'', Positional)]"
    by code_simp
  have c5: "classify training_parser [''--n-est'', ''100''] =
      Inr [(''--n-est'', Option ''--n-estimators'' None), (''100'', Positional)]"
    by code_simp
  have c6: "classify training_parser [''--t'', ''x''] = Inl (SystemExit 2)"
    by code_simp
  have hyper: "\<exists>a. parse_args_training L environ notebook_hyperparameters = Inr a
           \<and> n_estimators a = PyInt 100 \<and> min_samples_leaf a = PyInt 3"
    if "py_int L ''100'' = Some 100" "py_int L ''3'' = Some 3"
    using that
    unfolding parse_args_training_def parse_known_args_def c3
    by (simp add: training_parser_def get_values_def bindE_def namespace_get_def)
  have hyper': "\<exists>a. parse_args_sklearn_pipeline L environ notebook_hyperparameters = Inr a
           \<and> n_estimators a = PyInt 100 \<and> min_samples_leaf a = PyInt 3"
    if "py_int L ''100'' = Some 100" "py_int L ''3'' = Some 3"
    using that
    unfolding parse_args_sklearn_pipeline_def parse_known_args_def c4
    by (simp add: sklearn_pipeline_parser_def get_values_def bindE_def namespace_get_def)
  have abbrev: "\<exists>a. parse_args_training L environ [''--n-est'', ''100''] = Inr a
           \<and> n_estimators a = PyInt 100 \<and> min_samples_leaf a = PyInt 3"
    if "py_int L ''100'' = Some 100"
    using that
    unfolding parse_args_training_def parse_known_args_def c5
    by (simp add: training_parser_def get_values_def bindE_def namespace_get_def)
  have ambiguous: "parse_args_training L environ [''--t'', ''x''] = Inl (SystemExit 2)"
    unfolding parse_args_training_def parse_known_args_def c6
    by (simp add: bindE_def)
  have used: "\<exists>args mdir T y f.
             parse_args_training L environ argv = Inr args \<and> model_dir args = PyStr mdir
           \<and> forest_fit L g (PyInt 10) (PyInt 3) T y = Inr f
           \<and> files w2 (path_join mdir ''model.joblib'')
               = Some (joblib_dumps L
                   (RandomForestClassifier (PyInt 10) (PyInt 3) (PyInt (- 1)) (Some f)))"
    if absent: "list_all (\<lambda>arg. \<not> names_option ''--n-estimators'' arg) argv"
        "list_all (\<lambda>arg. \<not> names_option ''--min-samples-leaf'' arg) argv"
      and run: "training_main L g environ argv w = (Inr u, w2)"
  proof -
    from training_success [OF run]
    obtain args mdir T y f accuracy artifact where
      args: "parse_args_training L environ argv = Inr args"
      and mdir: "model_dir args = PyStr mdir"
      and fit: "forest_fit L g (n_estimators args) (min_samples_leaf args) T y = Inr f"
      and w2: "w2 = w\<lparr>stdout := stdout w @ [accuracy],
            files := (files w)
              (path_join mdir ''model.joblib'' \<mapsto>
                 joblib_dumps L (RandomForestClassifier (n_estimators args) (min_samples_leaf args) (PyInt (- 1)) (Some f)),
               path_join mdir ''preproc.joblib'' \<mapsto> artifact)\<rparr>"
      by (elim exE conjE) (rule that, assumption+)
    from ne [OF absent(1) args] msl [OF absent(2) args]
    have d: "n_estimators args = PyInt 10" "min_samples_leaf args = PyInt 3" .
    from w2 have "files w2 (path_join mdir ''model.joblib'')
               = Some (joblib_dumps L
                   (RandomForestClassifier (PyInt 10) (PyInt 3) (PyInt (- 1)) (Some f)))"
      by (simp add: d artifact_names_distinct)
    with args mdir fit [unfolded d] show ?thesis
      by blast
  qed
  have used': "\<exists>args mdir T y s f.
             parse_args_sklearn_pipeline L environ argv = Inr args \<and> model_dir args = PyStr mdir
           \<and> forest_fit L g (PyInt 10) (PyInt 3) T y = Inr f
           \<and> files w3 (path_join mdir ''pipeline.joblib'')
               = Some (joblib_dumps L
                   (Pipeline [(''scaler'', StandardScaler (Some s)),
                              (''rfc'', RandomForestClassifier (PyInt 10) (PyInt 3) PyNone (Some f))]))"
    if absent: "list_all (\<lambda>arg. \<not> names_option ''--n-estimators'' arg) argv"
        "list_all (\<lambda>arg. \<not> names_option ''--min-samples-leaf'' arg) argv"
      and run: "sklearn_pipeline_main L g environ argv w = (Inr u, w3)"
  proof -
    from sklearn_pipeline_success [OF run]
    obtain args mdir T y s f accuracy where
      args: "parse_args_sklearn_pipeline L environ argv = Inr args"
      and mdir: "model_dir args = PyStr mdir"
      and fit: "forest_fit L g (n_estimators args) (min_samples_leaf args) T y = Inr f"
      and w3: "w3 = w\<lparr>stdout := stdout w @ [accuracy],
            files := (files w)
              (path_join mdir ''pipeline.joblib'' \<mapsto>
                 joblib_dumps L
                   (Pipeline [(''scaler'', StandardScaler (Some s)),
                              (''rfc'', RandomForestClassifier (n_estimators args) (min_samples_leaf args)
                                          PyNone (Some f))]))\<rparr>"
      by (elim exE conjE) (rule that, assumption+)
    from ne' [OF absent(1) args] msl' [OF absent(2) args]
    have d: "n_estimators args = PyInt 10" "min_samples_leaf args = PyInt 3" .
    from w3 have "files w3 (path_join mdir ''pipeline.joblib'')
               = Some (joblib_dumps L
                   (Pipeline [(''scaler'', StandardScaler (Some s)),
                              (''rfc'', RandomForestClassifier (PyInt 10) (PyInt 3) PyNone (Some f))]))"
      by (simp add: d)
    with args mdir fit [unfolded d] show ?thesis
      by blast
  qed
  from ne ne' msl msl' empty empty' local local' hyper hyper' abbrev ambiguous used used'
  show ?thesis
    by blast
qed

theorem default_hyperparameters_witness:
  "list_all (\<lambda>arg. \<not> names_option ''--n-estimators'' arg) demo_train_argv \<and>
   list_all (\<lambda>arg. \<not> names_option ''--min-samples-leaf'' arg) demo_train_argv \<and>
   parse_args_training demo_library Map.empty demo_train_argv = Inr demo_training_args \<and>
   n_estimators demo_training_args = PyInt 10 \<and>
   min_samples_leaf demo_training_args = PyInt 3 \<and>
   py_int demo_library ''100'' = Some 100 \<and> py_int demo_library ''3'' = Some 3 \<and>
   (\<exists>a. parse_args_training demo_library Map.empty notebook_hyperparameters = Inr a
        \<and> n_estimators a = PyInt 100 \<and> min_samples_leaf a = PyInt 3) \<and>
   (\<exists>a. parse_args_sklearn_pipeline demo_library Map.empty notebook_hyperparameters = Inr a
        \<and> n_estimators a = PyInt 100 \<and> min_samples_leaf a = PyInt 3) \<and>
   training_main demo_library 7 Map.empty demo_train_argv demo_world_preprocessed
     = (Inr (), demo_world_trained) \<and>
   (\<exists>f. files demo_world_trained ''/model/model.joblib''
      = Some (joblib_dumps demo_library
               (RandomForestClassifier (PyInt 10) (PyInt 3) (PyInt (- 1)) (Some f))))"
proof -
  have absent: "list_all (\<lambda>arg. \<not> names_option ''--n-estimators'' arg) demo_train_argv"
    "list_all (\<lambda>arg. \<not> names_option ''--min-samples-leaf'' arg) demo_train_argv"
    by code_simp+
  have parsed: "parse_args_training demo_library Map.empty demo_train_argv = Inr demo_training_args"
    by code_simp
  have ints: "py_int demo_library ''100'' = Some 100" "py_int demo_library ''3'' = Some 3"
    by (simp_all add: demo_library_def)
  note inst = default_hyperparameters [of demo_train_argv demo_library Map.empty]
  from inst absent parsed have "n_estimators demo_training_args = PyInt 10"
    and "min_samples_leaf demo_training_args = PyInt 3"
    by blast+
  moreover from inst ints
  have "\<exists>a. parse_args_training demo_library Map.empty notebook_hyperparameters = Inr a
        \<and> n_estimators a = PyInt 100 \<and> min_samples_leaf a = PyInt 3"
    and "\<exists>a. parse_args_sklearn_pipeline demo_library Map.empty notebook_hyperparameters = Inr a
        \<and> n_estimators a = PyInt 100 \<and> min_samples_leaf a = PyInt 3"
    by blast+
  moreover from inst [of 7 demo_world_preprocessed "()" demo_world_trained] absent demo_training_run
  obtain args mdir f where "parse_args_training demo_library Map.empty demo_train_argv = Inr args"
    and "model_dir args = PyStr mdir"
    and "files demo_world_trained (path_join mdir ''model.joblib'')
           = Some (joblib_dumps demo_library
                    (RandomForestClassifier (PyInt 10) (PyInt 3) (PyInt (- 1)) (Some f)))"
    by blast
  then have "files demo_world_trained ''/model/model.joblib''
      = Some (joblib_dumps demo_library
               (RandomForestClassifier (PyInt 10) (PyInt 3) (PyInt (- 1)) (Some f)))"
    by (auto simp: parsed demo_training_args_def demo_paths)
  then have "\<exists>f. files demo_world_trained ''/model/model.joblib''
      = Some (joblib_dumps demo_library
               (RandomForestClassifier (PyInt 10) (PyInt 3) (PyInt (- 1)) (Some f)))"
    by (rule exI)
  ultimately show ?thesis
    using absent parsed ints demo_training_run by (intro conjI)
qed

section \<open>Failure on missing input\<close>

text \<open>
  C8. When no file exists at the joined input path, \<^verbatim>\<open>preprocessing.py\<close> ends with the
  \<^verbatim>\<open>FileNotFoundError\<close> of \<^verbatim>\<open>read_csv\<close>; when the table has no column \<^verbatim>\<open>y\<close>, it ends
  with the \<^verbatim>\<open>KeyError\<close> of \<^verbatim>\<open>drop\<close>; when the file cannot be parsed, it ends with the
  parser's error; when \<^verbatim>\<open>argparse\<close> ends the process, it ends with that exit. In each case
  the error is the library's own and the world is left as it was: nothing has been written.
\<close>

theorem preprocessing_missing_input_fatal:
  "(parse_args_preprocessing L argv = Inr args
      \<and> path_join_py (filepath args) (filename args) = Inr p
      \<and> files w p = None \<longrightarrow>
      preprocessing_main L g argv w = (Inl FileNotFoundError, w)) \<and>
   (\<forall>b df. parse_args_preprocessing L argv = Inr args
        \<and> path_join_py (filepath args) (filename args) = Inr p
        \<and> files w p = Some b
        \<and> read_csv_parse L b = Inr df \<and> StrName ''y'' \<notin> set (map fst (cols df)) \<longrightarrow>
      preprocessing_main L g argv w = (Inl KeyError, w)) \<and>
   (\<forall>b e. parse_args_preprocessing L argv = Inr args
        \<and> path_join_py (filepath args) (filename args) = Inr p
        \<and> files w p = Some b
        \<and> read_csv_parse L b = Inl e \<longrightarrow>
      preprocessing_main L g argv w = (Inl e, w)) \<and>
   (\<forall>e. parse_args_preprocessing L argv = Inl e \<longrightarrow>
      preprocessing_main L g argv w = (Inl e, w))"
  by (simp add: preprocessing_main_def Let_def bindS_def read_csv_def liftE_def drop_column_def)

theorem preprocessing_missing_input_fatal_witness:
  "parse_args_preprocessing demo_library [''--filepath'', ''/nowhere'']
     = Inr \<lparr> filepath = PyStr ''/nowhere'', filename = PyStr ''data.csv'',
             outputpath = PyStr ''/opt/ml/processing/output/'' \<rparr> \<and>
   path_join_py (PyStr ''/nowhere'') (PyStr ''data.csv'') = Inr ''/nowhere/data.csv'' \<and>
   files demo_world ''/nowhere/data.csv'' = None \<and>
   preprocessing_main demo_library 0 [''--filepath'', ''/nowhere''] demo_world
     = (Inl FileNotFoundError, demo_world) \<and>
   parse_args_preprocessing demo_library [''--filepath'', ''/in'', ''--filename'', ''nolabel.csv'']
     = Inr \<lparr> filepath = PyStr ''/in'', filename = PyStr ''nolabel.csv'',
             outputpath = PyStr ''/opt/ml/processing/output/'' \<rparr> \<and>
   path_join_py (PyStr ''/in'') (PyStr ''nolabel.csv'') = Inr ''/in/nolabel.csv'' \<and>
   files demo_world ''/in/nolabel.csv'' = Some (DemoCsv demo_table_no_label) \<and>
   read_csv_parse demo_library (DemoCsv demo_table_no_label) = Inr demo_table_no_label \<and>
   StrName ''y'' \<notin> set (map fst (cols demo_table_no_label)) \<and>
   preprocessing_main demo_library 0 [''--filepath'', ''/in'', ''--filename'', ''nolabel.csv''] demo_world
     = (Inl KeyError, demo_world) \<and>
   parse_args_preprocessing demo_library [''--help''] = Inl (SystemExit 0) \<and>
   preprocessing_main demo_library 0 [''--help''] demo_world = (Inl (SystemExit 0), demo_world)"
proof -
  let ?a1 = "\<lparr> filepath = PyStr ''/nowhere'', filename = PyStr ''data.csv'',
             outputpath = PyStr ''/opt/ml/processing/output/'' \<rparr>"
  let ?a2 = "\<lparr> filepath = PyStr ''/in'', filename = PyStr ''nolabel.csv'',
             outputpath = PyStr ''/opt/ml/processing/output/'' \<rparr>"
  have parse1: "parse_args_preprocessing demo_library [''--filepath'', ''/nowhere''] = Inr ?a1"
    by code_simp
  have join1: "path_join_py (PyStr ''/nowhere'') (PyStr ''data.csv'') = Inr ''/nowhere/data.csv''"
    by code_simp
  have missing: "files demo_world ''/nowhere/data.csv'' = None"
    by code_simp
  have parse2: "parse_args_preprocessing demo_library [''--filepath'', ''/in'', ''--filename'', ''nolabel.csv'']
     = Inr ?a2"
    by code_simp
  have join2: "path_join_py (PyStr ''/in'') (PyStr ''nolabel.csv'') = Inr ''/in/nolabel.csv''"
    by code_simp
  have present: "files demo_world ''/in/nolabel.csv'' = Some (DemoCsv demo_table_no_label)"
    by code_simp
  have parsed: "read_csv_parse demo_library (DemoCsv demo_table_no_label) = Inr demo_table_no_label"
    by (simp add: demo_library_def)
  have nolabel: "StrName ''y'' \<notin> set (map fst (cols demo_table_no_label))"
    by (simp add: demo_table_no_label_def)
  have parse3: "parse_args_preprocessing demo_library [''--help''] = Inl (SystemExit 0)"
    by code_simp
  from preprocessing_missing_input_fatal
         [of demo_library "[''--filepath'', ''/nowhere'']" ?a1 "''/nowhere/data.csv''" demo_world 0]
       parse1 join1 missing
  have r1: "preprocessing_main demo_library 0 [''--filepath'', ''/nowhere''] demo_world
     = (Inl FileNotFoundError, demo_world)"
    by simp
  from preprocessing_missing_input_fatal
         [of demo_library "[''--filepath'', ''/in'', ''--filename'', ''nolabel.csv'']" ?a2
             "''/in/nolabel.csv''" demo_world 0]
       parse2 join2 present parsed nolabel
  have r2: "preprocessing_main demo_library 0 [''--filepath'', ''/in'', ''--filename'', ''nolabel.csv''] demo_world
     = (Inl KeyError, demo_world)"
    by auto
  from preprocessing_missing_input_fatal
         [of demo_library "[''--help'']" ?a1 "''/nowhere/data.csv''" demo_world 0]
       parse3
  have r3: "preprocessing_main demo_library 0 [''--help''] demo_world = (Inl (SystemExit 0), demo_world)"
    by auto
  from parse1 join1 missing r1 parse2 join2 present parsed nolabel r2 parse3 r3 show ?thesis
    by (intro conjI)
qed

section \<open>Determinism of the split\<close>

text \<open>
  C4. Two runs of \<^verbatim>\<open>preprocessing.py\<close> on the same command line and the same world end
  in the same result and the same world (hence the same train and test files), whatever the
  state of the global pseudo-random generator in either run: the split is seeded with 42.
\<close>

theorem preprocessing_split_ignores_global_rng:
  "preprocessing_main L g1 argv w = preprocessing_main L g2 argv w"
proof -
  have "train_test_split L (Some 42) g1 = train_test_split L (Some 42) g2"
    by (rule ext) (simp add: train_test_split_def check_random_state_def Let_def)
  then show ?thesis
    by (simp add: preprocessing_main_def)
qed

text \<open>
  On the small instance the two runs agree and succeed, while an unseeded split of the same
  table would have followed the generator.
\<close>

theorem preprocessing_split_ignores_global_rng_witness:
  "preprocessing_main demo_library 0 demo_prep_argv demo_world
     = preprocessing_main demo_library 1 demo_prep_argv demo_world \<and>
   fst (preprocessing_main demo_library 0 demo_prep_argv demo_world) = Inr () \<and>
   train_test_split demo_library None 0 demo_table \<noteq> train_test_split demo_library None 1 demo_table"
proof -
  have ok: "fst (preprocessing_main demo_library 0 demo_prep_argv demo_world) = Inr ()"
    by code_simp
  have differ:
    "train_test_split demo_library None 0 demo_table \<noteq> train_test_split demo_library None 1 demo_table"
    by code_simp
  show ?thesis
    using preprocessing_split_ignores_global_rng [of demo_library 0 demo_prep_argv demo_world 1] ok differ
    by simp
qed

section \<open>Reported accuracy\<close>

text \<open>
  C5. Whatever \<^verbatim>\<open>training.py\<close> prints as accuracy lies in the closed interval from 0 to
  1, and so does what \<^verbatim>\<open>sklearn_pipeline.py\<close> prints from \<^verbatim>\<open>pipe.score\<close>: a run, whether
  it ends normally or with an exception, prints nothing or exactly one accuracy, which is
  a number between 0 and 1 (never \<^verbatim>\<open>nan\<close>). The library is assumed to do what
  \<^verbatim>\<open>predict\<close> documents: one label for every sample.
\<close>

theorem reported_accuracy_in_unit_interval:
  assumes "\<forall>f X ys. forest_predict L f X = Inr ys \<longrightarrow> length ys = length (hd X)"
  shows "(training_main L g environ argv w = (r, w2) \<longrightarrow>
            stdout w2 = stdout w \<or>
            (\<exists>q. stdout w2 = stdout w @ [Score q] \<and> 0 \<le> q \<and> q \<le> 1)) \<and>
         (sklearn_pipeline_main L g environ argv w = (r, w2) \<longrightarrow>
            stdout w2 = stdout w \<or>
            (\<exists>q. stdout w2 = stdout w @ [Score q] \<and> 0 \<le> q \<and> q \<le> 1))"
proof (intro conjI impI)
  assume "training_main L g environ argv w = (r, w2)"
  from training_outcome [OF this]
  show "stdout w2 = stdout w \<or> (\<exists>q. stdout w2 = stdout w @ [Score q] \<and> 0 \<le> q \<and> q \<le> 1)"
  proof
    assume "stdout w2 = stdout w"
    then show ?thesis by simp
  next
    assume "\<exists>ne msl nj fo X_test y_test y_pred accuracy.
        est_predict L (RandomForestClassifier ne msl nj fo) X_test = Inr y_pred
      \<and> accuracy_score y_test y_pred = Inr accuracy
      \<and> stdout w2 = stdout w @ [accuracy]"
    then obtain ne msl nj fo X_test y_test y_pred accuracy where
      p: "est_predict L (RandomForestClassifier ne msl nj fo) X_test = Inr y_pred"
      and a: "accuracy_score y_test y_pred = Inr accuracy"
      and out: "stdout w2 = stdout w @ [accuracy]"
      by blast
    from assms p have "y_pred \<noteq> []"
      by (rule forest_predict_nonempty)
    with a obtain q where "accuracy = Score q" "0 \<le> q" "q \<le> 1"
      using accuracy_score_range by blast
    with out show ?thesis by blast
  qed
next
  assume "sklearn_pipeline_main L g environ argv w = (r, w2)"
  from sklearn_pipeline_outcome [OF this]
  show "stdout w2 = stdout w \<or> (\<exists>q. stdout w2 = stdout w @ [Score q] \<and> 0 \<le> q \<and> q \<le> 1)"
  proof
    assume "stdout w2 = stdout w"
    then show ?thesis by simp
  next
    assume "\<exists>n1 so n2 ne msl nj fo X_test y_test y_pred accuracy.
        est_predict L (Pipeline [(n1, StandardScaler so), (n2, RandomForestClassifier ne msl nj fo)]) X_test
          = Inr y_pred
      \<and> accuracy_score y_test y_pred = Inr accuracy
      \<and> stdout w2 = stdout w @ [accuracy]"
    then obtain n1 so n2 ne msl nj fo X_test y_test y_pred accuracy where
      p: "est_predict L (Pipeline [(n1, StandardScaler so), (n2, RandomForestClassifier ne msl nj fo)]) X_test
          = Inr y_pred"
      and a: "accuracy_score y_test y_pred = Inr accuracy"
      and out: "stdout w2 = stdout w @ [accuracy]"
      by blast
    from assms p have "y_pred \<noteq> []"
      by (rule predict_scaler_forest_pipeline)
    with a obtain q where "accuracy = Score q" "0 \<le> q" "q \<le> 1"
      using accuracy_score_range by blast
    with out show ?thesis by blast
  qed
qed

theorem reported_accuracy_in_unit_interval_witness:
  "training_main demo_library 7 Map.empty demo_train_argv demo_world_preprocessed
     = (Inr (), demo_world_trained) \<and>
   stdout demo_world_trained = stdout demo_world_preprocessed @ [Score (1 / 2)] \<and>
   (\<exists>q. stdout demo_world_trained = stdout demo_world_preprocessed @ [Score q] \<and> 0 \<le> q \<and> q \<le> 1) \<and>
   sklearn_pipeline_main demo_library 7 Map.empty demo_mono_argv demo_world_preprocessed
     = (Inr (), demo_world_mono) \<and>
   (\<exists>q. stdout demo_world_mono = stdout demo_world_preprocessed @ [Score q] \<and> 0 \<le> q \<and> q \<le> 1)"
proof -
  have contract:
    "\<forall>f X ys. forest_predict demo_library f X = Inr ys \<longrightarrow> length ys = length (hd X)"
    by (auto simp: demo_library_def)
  have out: "stdout demo_world_trained = stdout demo_world_preprocessed @ [Score (1 / 2)]"
    by code_simp
  then have grew: "stdout demo_world_trained \<noteq> stdout demo_world_preprocessed"
    by simp
  have "stdout demo_world_mono = stdout demo_world_preprocessed @ [Score (1 / 2)]"
    by code_simp
  then have grew_mono: "stdout demo_world_mono \<noteq> stdout demo_world_preprocessed"
    by simp
  from reported_accuracy_in_unit_interval
         [OF contract, of 7 Map.empty demo_train_argv demo_world_preprocessed "Inr ()" demo_world_trained]
       demo_training_run grew
  have first: "\<exists>q. stdout demo_world_trained = stdout demo_world_preprocessed @ [Score q] \<and> 0 \<le> q \<and> q \<le> 1"
    by blast
  from reported_accuracy_in_unit_interval
         [OF contract, of 7 Map.empty demo_mono_argv demo_world_preprocessed "Inr ()" demo_world_mono]
       demo_mono_run grew_mono
  have second: "\<exists>q. stdout demo_world_mono = stdout demo_world_preprocessed @ [Score q] \<and> 0 \<le> q \<and> q \<le> 1"
    by blast
  from demo_training_run out first demo_mono_run second show ?thesis
    by (intro conjI)
qed

section \<open>Artifact layout\<close>

text \<open>
  C7. A successful run of \<^verbatim>\<open>preprocessing.py\<close> changes exactly three files, at
  \<^verbatim>\<open>train/train.csv\<close>, \<^verbatim>\<open>test/test.csv\<close> and \<^verbatim>\<open>pipeline/preproc-pipeline.joblib\<close>
  joined to its output path, and all three exist afterwards. A successful run of
  \<^verbatim>\<open>training.py\<close> changes exactly two files, \<^verbatim>\<open>model.joblib\<close> and
  \<^verbatim>\<open>preproc.joblib\<close> joined to its model directory; both exist afterwards, and
  \<^verbatim>\<open>model_fn\<close> on that directory reads these two files and nothing else.
\<close>

theorem artifact_layout:
  "(preprocessing_main L g argv w = (Inr u, w1) \<longrightarrow>
      (\<exists>args out train_csv test_csv transform.
          parse_args_preprocessing L argv = Inr args
        \<and> outputpath args = PyStr out
        \<and> files w1 = (files w)
            (path_join out ''train/train.csv'' \<mapsto> train_csv,
             path_join out ''test/test.csv'' \<mapsto> test_csv,
             path_join out ''pipeline/preproc-pipeline.joblib'' \<mapsto> transform)
        \<and> files w1 (path_join out ''train/train.csv'') = Some train_csv
        \<and> files w1 (path_join out ''test/test.csv'') = Some test_csv
        \<and> files w1 (path_join out ''pipeline/preproc-pipeline.joblib'') = Some transform)) \<and>
   (training_main L g' environ argv' w = (Inr u', w2) \<longrightarrow>
      (\<exists>args mdir model preproc.
          parse_args_training L environ argv' = Inr args
        \<and> model_dir args = PyStr mdir
        \<and> files w2 = (files w)
            (path_join mdir ''model.joblib'' \<mapsto> model,
             path_join mdir ''preproc.joblib'' \<mapsto> preproc)
        \<and> files w2 (path_join mdir ''model.joblib'') = Some model
        \<and> files w2 (path_join mdir ''preproc.joblib'') = Some preproc
        \<and> training_model_fn L mdir w2 =
            (bindE (joblib_loads L preproc) (\<lambda>p.
             bindE (joblib_loads L model) (\<lambda>m.
             Inr (Pipeline [(''preproc'', p), (''model'', m)]))), w2)))"
proof (intro conjI impI)
  assume "preprocessing_main L g argv w = (Inr u, w1)"
  from preprocessing_success [OF this] obtain args out s train_csv test_csv where
    args: "parse_args_preprocessing L argv = Inr args"
    and out: "outputpath args = PyStr out"
    and w1: "w1 = w\<lparr>files := (files w)
        (path_join out ''train/train.csv'' \<mapsto> train_csv,
         path_join out ''test/test.csv'' \<mapsto> test_csv,
         path_join out ''pipeline/preproc-pipeline.joblib''
           \<mapsto> joblib_dumps L (Pipeline [(''scaler'', StandardScaler (Some s))]))\<rparr>"
    by (elim exE conjE) (rule that, assumption+)
  have f1: "files w1 = (files w)
            (path_join out ''train/train.csv'' \<mapsto> train_csv,
             path_join out ''test/test.csv'' \<mapsto> test_csv,
             path_join out ''pipeline/preproc-pipeline.joblib''
               \<mapsto> joblib_dumps L (Pipeline [(''scaler'', StandardScaler (Some s))]))"
    by (simp add: w1)
  have g1: "files w1 (path_join out ''train/train.csv'') = Some (train_csv)"
    and g2: "files w1 (path_join out ''test/test.csv'') = Some (test_csv)"
    and g3: "files w1 (path_join out ''pipeline/preproc-pipeline.joblib'')
               = Some (joblib_dumps L (Pipeline [(''scaler'', StandardScaler (Some s))]))"
    by (simp_all add: f1 artifact_names_distinct)
  show "\<exists>args out train_csv test_csv transform.
          parse_args_preprocessing L argv = Inr args
        \<and> outputpath args = PyStr out
        \<and> files w1 = (files w)
            (path_join out ''train/train.csv'' \<mapsto> train_csv,
             path_join out ''test/test.csv'' \<mapsto> test_csv,
             path_join out ''pipeline/preproc-pipeline.joblib'' \<mapsto> transform)
        \<and> files w1 (path_join out ''train/train.csv'') = Some train_csv
        \<and> files w1 (path_join out ''test/test.csv'') = Some test_csv
        \<and> files w1 (path_join out ''pipeline/preproc-pipeline.joblib'') = Some transform"
    apply (rule exI [of _ args], rule exI [of _ out])
    apply (rule exI [of _ train_csv], rule exI [of _ test_csv])
    apply (rule exI [of _ "joblib_dumps L (Pipeline [(''scaler'', StandardScaler (Some s))])"])
    using args out f1 g1 g2 g3
    apply (intro conjI)
    apply (assumption | rule refl)+
    done
next
  assume "training_main L g' environ argv' w = (Inr u', w2)"
  from training_success [OF this] obtain args mdir model artifact accuracy where
    args: "parse_args_training L environ argv' = Inr args"
    and mdir: "model_dir args = PyStr mdir"
    and w2: "w2 = w\<lparr>stdout := stdout w @ [accuracy],
            files := (files w)
              (path_join mdir ''model.joblib'' \<mapsto> joblib_dumps L model,
               path_join mdir ''preproc.joblib'' \<mapsto> artifact)\<rparr>"
    by (elim exE conjE) (rule that, assumption+)
  have f2: "files w2 = (files w)
              (path_join mdir ''model.joblib'' \<mapsto> joblib_dumps L model,
               path_join mdir ''preproc.joblib'' \<mapsto> artifact)"
    by (simp add: w2)
  have m: "files w2 (path_join mdir ''model.joblib'') = Some (joblib_dumps L model)"
    and p: "files w2 (path_join mdir ''preproc.joblib'') = Some artifact"
    by (simp_all add: f2 artifact_names_distinct)
  note fn = training_model_fn_result [OF p m, of L]
  show "\<exists>args mdir model preproc.
          parse_args_training L environ argv' = Inr args
        \<and> model_dir args = PyStr mdir
        \<and> files w2 = (files w)
            (path_join mdir ''model.joblib'' \<mapsto> model,
             path_join mdir ''preproc.joblib'' \<mapsto> preproc)
        \<and> files w2 (path_join mdir ''model.joblib'') = Some model
        \<and> files w2 (path_join mdir ''preproc.joblib'') = Some preproc
        \<and> training_model_fn L mdir w2 =
            (bindE (joblib_loads L preproc) (\<lambda>p.
             bindE (joblib_loads L model) (\<lambda>m.
             Inr (Pipeline [(''preproc'', p), (''model'', m)]))), w2)"
    apply (rule exI [of _ args], rule exI [of _ mdir])
    apply (rule exI [of _ "joblib_dumps L model"], rule exI [of _ artifact])
    using args mdir f2 m p fn
    apply (intro conjI)
    apply (assumption | rule refl)+
    done
qed

theorem artifact_layout_witness:
  "preprocessing_main demo_library 0 demo_prep_argv demo_world = (Inr (), demo_world_preprocessed) \<and>
   (\<exists>train_csv test_csv transform.
      files demo_world_preprocessed = (files demo_world)
        (''/out/train/train.csv'' \<mapsto> train_csv,
         ''/out/test/test.csv'' \<mapsto> test_csv,
         ''/out/pipeline/preproc-pipeline.joblib'' \<mapsto> transform)) \<and>
   training_main demo_library 7 Map.empty demo_train_argv demo_world_preprocessed
     = (Inr (), demo_world_trained) \<and>
   (\<exists>model preproc.
      files demo_world_trained = (files demo_world_preprocessed)
        (''/model/model.joblib'' \<mapsto> model, ''/model/preproc.joblib'' \<mapsto> preproc))"
proof -
  from artifact_layout
         [of demo_library 0 demo_prep_argv demo_world "()" demo_world_preprocessed]
       demo_preprocessing_run
  obtain args out train_csv test_csv transform where
    args: "parse_args_preprocessing demo_library demo_prep_argv = Inr args"
    and out: "outputpath args = PyStr out"
    and f1: "files demo_world_preprocessed = (files demo_world)
            (path_join out ''train/train.csv'' \<mapsto> train_csv,
             path_join out ''test/test.csv'' \<mapsto> test_csv,
             path_join out ''pipeline/preproc-pipeline.joblib'' \<mapsto> transform)"
    by blast
  from args out have "out = ''/out''"
    by (auto simp: demo_parse_prep demo_preprocessing_args_def)
  with f1 have first: "\<exists>train_csv test_csv transform.
      files demo_world_preprocessed = (files demo_world)
        (''/out/train/train.csv'' \<mapsto> train_csv,
         ''/out/test/test.csv'' \<mapsto> test_csv,
         ''/out/pipeline/preproc-pipeline.joblib'' \<mapsto> transform)"
    by (auto simp only: demo_paths)
  from artifact_layout
         [of demo_library 0 demo_prep_argv demo_world_preprocessed "()" demo_world_preprocessed
             7 Map.empty demo_train_argv "()" demo_world_trained]
       demo_training_run
  obtain targs mdir model preproc where
    targs: "parse_args_training demo_library Map.empty demo_train_argv = Inr targs"
    and mdir: "model_dir targs = PyStr mdir"
    and f2: "files demo_world_trained = (files demo_world_preprocessed)
            (path_join mdir ''model.joblib'' \<mapsto> model,
             path_join mdir ''preproc.joblib'' \<mapsto> preproc)"
    by blast
  from targs mdir have "mdir = ''/model''"
    by (auto simp: demo_parse_args demo_training_args_def)
  with f2 have second: "\<exists>model preproc.
      files demo_world_trained = (files demo_world_preprocessed)
        (''/model/model.joblib'' \<mapsto> model, ''/model/preproc.joblib'' \<mapsto> preproc)"
    by (auto simp only: demo_paths)
  from demo_preprocessing_run first demo_training_run second show ?thesis
    by (intro conjI)
qed

section \<open>The transform at inference time\<close>

text \<open>
  C1. In a run of the two-stage workflow (\<^verbatim>\<open>preprocessing.py\<close>, then \<^verbatim>\<open>training.py\<close>
  reading the transform file that the first stage wrote), the file \<^verbatim>\<open>preproc.joblib\<close> in
  the model directory has exactly the bytes of the transform artifact written by the
  preprocessing stage, which are the serialization of its fitted scaler pipeline. Whenever
  \<^verbatim>\<open>model_fn\<close> returns a unit for that directory, it leaves the world unchanged and
  the first step of the unit is the deserialization of those bytes.
\<close>

theorem inference_transform_is_preprocessing_artifact:
  assumes prep: "preprocessing_main L g argv w = (Inr u, w1)"
    and train: "training_main L g' environ argv' w1 = (Inr u', w2)"
    and pargs: "parse_args_preprocessing L argv = Inr pargs"
    and out: "outputpath pargs = PyStr out"
    and args: "parse_args_training L environ argv' = Inr targs"
    and pdir: "pipeline targs = PyStr pdir"
    and pfile: "pipeline_file targs = PyStr pfile"
    and wired: "path_join pdir pfile = path_join out ''pipeline/preproc-pipeline.joblib''"
  shows "\<exists>mdir artifact s.
      model_dir targs = PyStr mdir
    \<and> artifact = joblib_dumps L (Pipeline [(''scaler'', StandardScaler (Some s))])
    \<and> files w1 (path_join out ''pipeline/preproc-pipeline.joblib'') = Some artifact
    \<and> files w2 (path_join mdir ''preproc.joblib'') = Some artifact
    \<and> (\<forall>unit w3. training_model_fn L mdir w2 = (Inr unit, w3) \<longrightarrow>
          w3 = w2 \<and>
          (\<exists>preproc model. unit = Pipeline [(''preproc'', preproc), (''model'', model)]
             \<and> joblib_loads L artifact = Inr preproc))"
proof -
  let ?src = "path_join out ''pipeline/preproc-pipeline.joblib''"
  from preprocessing_success [OF prep] obtain pargs' out' s train_csv test_csv where
    pargs': "parse_args_preprocessing L argv = Inr pargs'"
    and out': "outputpath pargs' = PyStr out'"
    and w1: "w1 = w\<lparr>files := (files w)
        (path_join out' ''train/train.csv'' \<mapsto> train_csv,
         path_join out' ''test/test.csv'' \<mapsto> test_csv,
         path_join out' ''pipeline/preproc-pipeline.joblib''
           \<mapsto> joblib_dumps L (Pipeline [(''scaler'', StandardScaler (Some s))]))\<rparr>"
    by (elim exE conjE) (rule that, assumption+)
  from pargs pargs' out out' have "out' = out"
    by simp
  with w1 have src: "files w1 ?src = Some (joblib_dumps L (Pipeline [(''scaler'', StandardScaler (Some s))]))"
    by simp
  from training_success [OF train] obtain args pdir' pfile' mdir model artifact accuracy where
    args': "parse_args_training L environ argv' = Inr args"
    and pdir': "pipeline args = PyStr pdir'"
    and pfile': "pipeline_file args = PyStr pfile'"
    and mdir': "model_dir args = PyStr mdir"
    and art': "(if path_join pdir' pfile' = path_join mdir ''model.joblib''
       then Some (joblib_dumps L model)
       else files w1 (path_join pdir' pfile')) = Some artifact"
    and w2: "w2 = w1\<lparr>stdout := stdout w1 @ [accuracy],
            files := (files w1)
              (path_join mdir ''model.joblib'' \<mapsto> joblib_dumps L model,
               path_join mdir ''preproc.joblib'' \<mapsto> artifact)\<rparr>"
    by (elim exE conjE) (rule that, assumption+)
  from args args' have same: "args = targs"
    by simp
  from mdir' same have mdir: "model_dir targs = PyStr mdir"
    by simp
  from pdir pdir' pfile pfile' same wired have "path_join pdir' pfile' = ?src"
    by simp
  with art' have "files w1 ?src = Some artifact"
    by (simp add: artifact_names_distinct)
  with src have artifact: "artifact = joblib_dumps L (Pipeline [(''scaler'', StandardScaler (Some s))])"
    by simp
  have f2: "files w2 = (files w1)
              (path_join mdir ''model.joblib'' \<mapsto> joblib_dumps L model,
               path_join mdir ''preproc.joblib'' \<mapsto> artifact)"
    by (simp add: w2)
  have m: "files w2 (path_join mdir ''model.joblib'') = Some (joblib_dumps L model)"
    and p: "files w2 (path_join mdir ''preproc.joblib'') = Some artifact"
    by (simp_all add: f2 artifact_names_distinct)
  have "\<forall>unit w3. training_model_fn L mdir w2 = (Inr unit, w3) \<longrightarrow>
          w3 = w2 \<and>
          (\<exists>preproc model. unit = Pipeline [(''preproc'', preproc), (''model'', model)]
             \<and> joblib_loads L artifact = Inr preproc)"
    by (auto simp: training_model_fn_result [OF p m] bindE_Inr)
  with mdir artifact src p show ?thesis
    by blast
qed

theorem inference_transform_is_preprocessing_artifact_witness:
  "preprocessing_main demo_library 0 demo_prep_argv demo_world = (Inr (), demo_world_preprocessed) \<and>
   training_main demo_library 7 Map.empty demo_train_argv demo_world_preprocessed
     = (Inr (), demo_world_trained) \<and>
   parse_args_preprocessing demo_library demo_prep_argv = Inr demo_preprocessing_args \<and>
   outputpath demo_preprocessing_args = PyStr ''/out'' \<and>
   parse_args_training demo_library Map.empty demo_train_argv = Inr demo_training_args \<and>
   pipeline demo_training_args = PyStr ''/out/pipeline'' \<and>
   pipeline_file demo_training_args = PyStr ''preproc-pipeline.joblib'' \<and>
   path_join ''/out/pipeline'' ''preproc-pipeline.joblib''
     = path_join ''/out'' ''pipeline/preproc-pipeline.joblib'' \<and>
   files demo_world_trained ''/model/preproc.joblib''
     = files demo_world_preprocessed ''/out/pipeline/preproc-pipeline.joblib'' \<and>
   (\<exists>s. files demo_world_trained ''/model/preproc.joblib''
          = Some (joblib_dumps demo_library (Pipeline [(''scaler'', StandardScaler (Some s))]))) \<and>
   training_model_fn demo_library ''/model'' demo_world_trained
     = (Inr (Pipeline [(''preproc'', Pipeline [(''scaler'', StandardScaler (Some 1))]),
                       (''model'', RandomForestClassifier (PyInt 10) (PyInt 3) (PyInt (- 1)) (Some (- 1)))]),
        demo_world_trained) \<and>
   (\<exists>artifact. files demo_world_preprocessed ''/out/pipeline/preproc-pipeline.joblib'' = Some artifact
      \<and> joblib_loads demo_library artifact = Inr (Pipeline [(''scaler'', StandardScaler (Some 1))]))"
proof -
  have out: "outputpath demo_preprocessing_args = PyStr ''/out''"
    by (simp add: demo_preprocessing_args_def)
  have pdir: "pipeline demo_training_args = PyStr ''/out/pipeline''"
    and pfile: "pipeline_file demo_training_args = PyStr ''preproc-pipeline.joblib''"
    by (simp_all add: demo_training_args_def)
  have wired: "path_join ''/out/pipeline'' ''preproc-pipeline.joblib''
     = path_join ''/out'' ''pipeline/preproc-pipeline.joblib''"
    by (simp only: demo_paths)
  from inference_transform_is_preprocessing_artifact
         [OF demo_preprocessing_run demo_training_run demo_parse_prep out demo_parse_args pdir pfile wired]
  obtain mdir artifact s where
    mdir: "model_dir demo_training_args = PyStr mdir"
    and artifact: "artifact = joblib_dumps demo_library (Pipeline [(''scaler'', StandardScaler (Some s))])"
    and src: "files demo_world_preprocessed (path_join ''/out'' ''pipeline/preproc-pipeline.joblib'')
        = Some artifact"
    and dst: "files demo_world_trained (path_join mdir ''preproc.joblib'') = Some artifact"
    and loader: "\<forall>unit w3. training_model_fn demo_library mdir demo_world_trained = (Inr unit, w3) \<longrightarrow>
          w3 = demo_world_trained \<and>
          (\<exists>preproc model. unit = Pipeline [(''preproc'', preproc), (''model'', model)]
             \<and> joblib_loads demo_library artifact = Inr preproc)"
    by (elim exE conjE) (rule that, assumption+)
  from mdir have m: "mdir = ''/model''"
    by (simp add: demo_training_args_def)
  from src have src': "files demo_world_preprocessed ''/out/pipeline/preproc-pipeline.joblib'' = Some artifact"
    by (simp only: demo_paths)
  from dst m have dst': "files demo_world_trained ''/model/preproc.joblib'' = Some artifact"
    by (simp only: demo_paths)
  from loader m demo_model_fn_run
  have unchanged: "snd (training_model_fn demo_library ''/model'' demo_world_trained) = demo_world_trained"
    and loaded: "joblib_loads demo_library artifact = Inr (Pipeline [(''scaler'', StandardScaler (Some 1))])"
    by blast+
  from demo_model_fn_run unchanged
  have unit: "training_model_fn demo_library ''/model'' demo_world_trained
     = (Inr (Pipeline [(''preproc'', Pipeline [(''scaler'', StandardScaler (Some 1))]),
                       (''model'', RandomForestClassifier (PyInt 10) (PyInt 3) (PyInt (- 1)) (Some (- 1)))]),
        demo_world_trained)"
    by simp
  have same: "files demo_world_trained ''/model/preproc.joblib''
     = files demo_world_preprocessed ''/out/pipeline/preproc-pipeline.joblib''"
    using src' dst' by simp
  have dumped: "\<exists>s. files demo_world_trained ''/model/preproc.joblib''
          = Some (joblib_dumps demo_library (Pipeline [(''scaler'', StandardScaler (Some s))]))"
    using dst' artifact by blast
  have reload: "\<exists>artifact. files demo_world_preprocessed ''/out/pipeline/preproc-pipeline.joblib'' = Some artifact
      \<and> joblib_loads demo_library artifact = Inr (Pipeline [(''scaler'', StandardScaler (Some 1))])"
    using src' loaded by blast
  from demo_preprocessing_run demo_training_run demo_parse_prep out demo_parse_args pdir pfile wired
       same dumped unit reload
  show ?thesis
    by (intro conjI)
qed

section \<open>Input files with row names\<close>

text \<open>
  C3. The train and test tables do not always have, together, the rows of the input. On
  the file with row names shown above, of four rows, \<^verbatim>\<open>preprocessing.py\<close> succeeds and
  writes a train table of three rows and a test table of two: \<^verbatim>\<open>pd.concat\<close> joins the
  transformed rows (row labels 0 to 3) and the labels (row labels 1 to 4) on the row
  label, which gives five rows. For the table of 100 rows read from a file with the row
  names 1 to 100 it writes 75 and 26 rows; from a file without row names, 75 and 25.
\<close>

theorem row_counts_with_row_names:
  "files demo_world ''/in/rownames.csv'' = Some (DemoCsv demo_table_row_names) \<and>
   read_csv_parse demo_library (DemoCsv demo_table_row_names) = Inr demo_table_row_names \<and>
   rectangular demo_table_row_names \<and>
   nrows demo_table_row_names = 4 \<and>
   preprocessing_main demo_library 0 demo_row_names_argv demo_world = (Inr (), demo_world_row_names) \<and>
   demo_rows demo_world_row_names ''/named/train/train.csv'' = Some 3 \<and>
   demo_rows demo_world_row_names ''/named/test/test.csv'' = Some 2 \<and>
   nrows demo_table_100_row_names = 100 \<and>
   preprocessing_main demo_library 0 demo_hundred_row_names_argv demo_world
     = (Inr (), demo_world_hundred_row_names) \<and>
   demo_rows demo_world_hundred_row_names ''/named100/train/train.csv'' = Some 75 \<and>
   demo_rows demo_world_hundred_row_names ''/named100/test/test.csv'' = Some 26 \<and>
   nrows demo_table_100 = 100 \<and>
   preprocessing_main demo_library 0 demo_hundred_argv demo_world = (Inr (), demo_world_hundred) \<and>
   demo_rows demo_world_hundred ''/big/train/train.csv'' = Some 75 \<and>
   demo_rows demo_world_hundred ''/big/test/test.csv'' = Some 25"
proof -
  have a: "files demo_world ''/in/rownames.csv'' = Some (DemoCsv demo_table_row_names)"
    by code_simp
  have b: "rectangular demo_table_row_names"
    by code_simp
  have c: "nrows demo_table_row_names = 4"
    by code_simp
  have d: "demo_rows demo_world_row_names ''/named/train/train.csv'' = Some 3"
    by code_simp
  have e: "demo_rows demo_world_row_names ''/named/test/test.csv'' = Some 2"
    by code_simp
  have f: "nrows demo_table_100_row_names = 100"
    by code_simp
  have g: "demo_rows demo_world_hundred_row_names ''/named100/train/train.csv'' = Some 75"
    by code_simp
  have h: "demo_rows demo_world_hundred_row_names ''/named100/test/test.csv'' = Some 26"
    by code_simp
  have i: "nrows demo_table_100 = 100"
    by code_simp
  have j: "demo_rows demo_world_hundred ''/big/train/train.csv'' = Some 75"
    by code_simp
  have k: "demo_rows demo_world_hundred ''/big/test/test.csv'' = Some 25"
    by code_simp
  from a demo_parsed b c demo_row_names_run d e f demo_hundred_row_names_run g h i demo_hundred_run j k
  show ?thesis
    by (intro conjI)
qed

text \<open>
  C2. The feature values written are not always those that the transform artifact computes
  from the feature columns of the input. On the file with row names the artifact, loaded
  again, turns the feature column 10, 20, 30, 40 into 0, 10, 20, 30; the train table written
  has the feature values \<^verbatim>\<open>NaN\<close>, 0, 10: the row that the join made for the row label 4
  has no features at all.
\<close>

theorem transform_with_row_names:
  "preprocessing_main demo_library 0 demo_row_names_argv demo_world = (Inr (), demo_world_row_names) \<and>
   drop_column ''y'' demo_table_row_names
     = Inr \<lparr> row_index = [IntName 1, IntName 2, IntName 3, IntName 4],
             cols = [(StrName ''a'', [Some 10, Some 20, Some 30, Some 40])] \<rparr> \<and>
   files demo_world_row_names ''/named/pipeline/preproc-pipeline.joblib''
     = Some (DemoJoblib (Pipeline [(''scaler'', StandardScaler (Some 10))])) \<and>
   joblib_loads demo_library (DemoJoblib (Pipeline [(''scaler'', StandardScaler (Some 10))]))
     = Inr (Pipeline [(''scaler'', StandardScaler (Some 10))]) \<and>
   est_transform demo_library (Pipeline [(''scaler'', StandardScaler (Some 10))])
       [[Some 10, Some 20, Some 30, Some 40]]
     = Inr [[Some 0, Some 10, Some 20, Some 30]] \<and>
   files demo_world_row_names ''/named/train/train.csv''
     = Some (DemoCsv \<lparr> row_index = [IntName 0, IntName 1, IntName 2],
                       cols = [(IntName 0, [None, Some 0, Some 10]),
                               (StrName ''y'', [Some 0, None, Some 1])] \<rparr>) \<and>
   np_nan demo_library = None"
proof -
  have a: "drop_column ''y'' demo_table_row_names
     = Inr \<lparr> row_index = [IntName 1, IntName 2, IntName 3, IntName 4],
             cols = [(StrName ''a'', [Some 10, Some 20, Some 30, Some 40])] \<rparr>"
    by code_simp
  have b: "files demo_world_row_names ''/named/pipeline/preproc-pipeline.joblib''
     = Some (DemoJoblib (Pipeline [(''scaler'', StandardScaler (Some 10))]))"
    by code_simp
  have c: "joblib_loads demo_library (DemoJoblib (Pipeline [(''scaler'', StandardScaler (Some 10))]))
     = Inr (Pipeline [(''scaler'', StandardScaler (Some 10))])"
    by (simp add: demo_library_def)
  have d: "est_transform demo_library (Pipeline [(''scaler'', StandardScaler (Some 10))])
       [[Some 10, Some 20, Some 30, Some 40]]
     = Inr [[Some 0, Some 10, Some 20, Some 30]]"
    by code_simp
  have e: "files demo_world_row_names ''/named/train/train.csv''
     = Some (DemoCsv \<lparr> row_index = [IntName 0, IntName 1, IntName 2],
                       cols = [(IntName 0, [None, Some 0, Some 10]),
                               (StrName ''y'', [Some 0, None, Some 1])] \<rparr>)"
    by code_simp
  have f: "np_nan demo_library = None"
    by (simp add: demo_library_def)
  from demo_row_names_run a b c d e f show ?thesis
    by (intro conjI)
qed

text \<open>
  C9. The label written with a row is not always the label that the row had in the input.
  The file with row names has the rows (10, 1), (20, 0), (30, 1), (40, 0), feature and
  label, and the fitted scaler turns the features into 0, 10, 20, 30. The rows written are
  (\<^verbatim>\<open>NaN\<close>, 0), (0, \<^verbatim>\<open>NaN\<close>), (10, 1) in the train table and (20, 0), (30, 1) in the test
  table: the first input row has lost its label, and every other row carries the label of
  the row before it.
\<close>

theorem labels_with_row_names:
  "read_csv_parse demo_library (DemoCsv demo_table_row_names) = Inr demo_table_row_names \<and>
   row_index demo_table_row_names = [IntName 1, IntName 2, IntName 3, IntName 4] \<and>
   cols demo_table_row_names
     = [(StrName ''a'', [Some 10, Some 20, Some 30, Some 40]),
        (StrName ''y'', [Some 1, Some 0, Some 1, Some 0])] \<and>
   scaler_fit demo_library [[Some 10, Some 20, Some 30, Some 40]] = Inr 10 \<and>
   scaler_transform demo_library 10 [[Some 10, Some 20, Some 30, Some 40]]
     = Inr [[Some 0, Some 10, Some 20, Some 30]] \<and>
   concat_axis1 demo_library (DataFrame [[Some 0, Some 10, Some 20, Some 30]]) ''y''
       ([IntName 1, IntName 2, IntName 3, IntName 4], [Some 1, Some 0, Some 1, Some 0])
     = Inr \<lparr> row_index = [IntName 0, IntName 1, IntName 2, IntName 3, IntName 4],
             cols = [(IntName 0, [Some 0, Some 10, Some 20, Some 30, None]),
                     (StrName ''y'', [None, Some 1, Some 0, Some 1, Some 0])] \<rparr> \<and>
   preprocessing_main demo_library 0 demo_row_names_argv demo_world = (Inr (), demo_world_row_names) \<and>
   files demo_world_row_names ''/named/train/train.csv''
     = Some (DemoCsv \<lparr> row_index = [IntName 0, IntName 1, IntName 2],
                       cols = [(IntName 0, [None, Some 0, Some 10]),
                               (StrName ''y'', [Some 0, None, Some 1])] \<rparr>) \<and>
   files demo_world_row_names ''/named/test/test.csv''
     = Some (DemoCsv \<lparr> row_index = [IntName 0, IntName 1],
                       cols = [(IntName 0, [Some 20, Some 30]),
                               (StrName ''y'', [Some 0, Some 1])] \<rparr>)"
proof -
  have a: "row_index demo_table_row_names = [IntName 1, IntName 2, IntName 3, IntName 4]"
    and b: "cols demo_table_row_names
     = [(StrName ''a'', [Some 10, Some 20, Some 30, Some 40]),
        (StrName ''y'', [Some 1, Some 0, Some 1, Some 0])]"
    by (simp_all add: demo_table_row_names_def)
  have c: "scaler_fit demo_library [[Some 10, Some 20, Some 30, Some 40]] = Inr 10"
    by (simp add: demo_library_def)
  have d: "scaler_transform demo_library 10 [[Some 10, Some 20, Some 30, Some 40]]
     = Inr [[Some 0, Some 10, Some 20, Some 30]]"
    by (simp add: demo_library_def)
  have e: "concat_axis1 demo_library (DataFrame [[Some 0, Some 10, Some 20, Some 30]]) ''y''
       ([IntName 1, IntName 2, IntName 3, IntName 4], [Some 1, Some 0, Some 1, Some 0])
     = Inr \<lparr> row_index = [IntName 0, IntName 1, IntName 2, IntName 3, IntName 4],
             cols = [(IntName 0, [Some 0, Some 10, Some 20, Some 30, None]),
                     (StrName ''y'', [None, Some 1, Some 0, Some 1, Some 0])] \<rparr>"
    by code_simp
  have f: "files demo_world_row_names ''/named/train/train.csv''
     = Some (DemoCsv \<lparr> row_index = [IntName 0, IntName 1, IntName 2],
                       cols = [(IntName 0, [None, Some 0, Some 10]),
                               (StrName ''y'', [Some 0, None, Some 1])] \<rparr>)"
    by code_simp
  have g: "files demo_world_row_names ''/named/test/test.csv''
     = Some (DemoCsv \<lparr> row_index = [IntName 0, IntName 1],
                       cols = [(IntName 0, [Some 20, Some 30]),
                               (StrName ''y'', [Some 0, Some 1])] \<rparr>)"
    by code_simp
  from demo_parsed a b c d e demo_row_names_run f g show ?thesis
    by (intro conjI)
qed

section \<open>The hand-off functions\<close>

text \<open>
  C6, as the code has it. \<^verbatim>\<open>training.py\<close> defines two public functions, \<^verbatim>\<open>model_fn\<close>
  and \<^verbatim>\<open>predict_fn\<close> (the spec's \<^verbatim>\<open>load_model\<close> and \<^verbatim>\<open>predict\<close>). After a run of the
  two-stage workflow on an input file without row names, in which the training stage reads
  the test table and the transform that the preprocessing stage wrote, \<^verbatim>\<open>model_fn\<close> on
  the model directory leaves the world as it is and returns the pipeline whose first step
  is the fitted scaler pipeline of the preprocessing stage and whose second step is the
  fitted forest of the training stage; \<^verbatim>\<open>predict_fn\<close> on that unit is the transform
  followed by the forest's \<^verbatim>\<open>predict\<close>. The unit expects raw rows: for every row of the
  input file that the split put into the test table, \<^verbatim>\<open>predict_fn\<close> on that raw row alone
  returns the label that the training stage predicted, in process, for the transformed row
  when it computed the accuracy it printed. The library is assumed to do what its
  documentation says: \<^verbatim>\<open>joblib.load\<close> returns what was dumped, \<^verbatim>\<open>read_csv\<close> returns
  the values and the label column that \<^verbatim>\<open>to_csv\<close> wrote, the scaler keeps the shape and
  works row by row, and the forest predicts one label per row, row by row.
\<close>

theorem composite_unit_handoff:
  assumes prep: "preprocessing_main L g argv w = (Inr u, w1)"
    and train: "training_main L g' environ argv' w1 = (Inr u', w2)"
    and pargs: "parse_args_preprocessing L argv = Inr pargs"
    and indir: "filepath pargs = PyStr indir"
    and infile: "filename pargs = PyStr infile"
    and out: "outputpath pargs = PyStr out"
    and src_file: "files w (path_join indir infile) = Some b"
    and parsed: "read_csv_parse L b = Inr df"
    and rect: "rectangular df"
    and idx: "row_index df = default_index (nrows df)"
    and targs: "parse_args_training L environ argv' = Inr targs"
    and test_dir: "test targs = PyStr test_dir"
    and test_name: "test_file targs = PyStr test_name"
    and pdir: "pipeline targs = PyStr pdir"
    and pfile: "pipeline_file targs = PyStr pfile"
    and mdir: "model_dir targs = PyStr mdir"
    and wired_test: "path_join test_dir test_name = path_join out ''test/test.csv''"
    and wired_pipe: "path_join pdir pfile = path_join out ''pipeline/preproc-pipeline.joblib''"
    and joblib: "\<forall>e. joblib_loads L (joblib_dumps L e) = Inr e"
    and csv: "\<forall>cs df'. read_csv_parse L (to_csv_render L cs) = Inr df' \<longrightarrow>
                map snd (cols df') = map snd cs
              \<and> map (\<lambda>c. fst c = StrName ''y'') (cols df') = map (\<lambda>c. fst c = StrName ''y'') cs"
    and shape: "\<forall>s X T. scaler_transform L s X = Inr T \<longrightarrow> map length T = map length X"
    and scaler_rows: "\<forall>s X T i. scaler_transform L s X = Inr T \<and> list_all (\<lambda>c. i < length c) X \<longrightarrow>
                   scaler_transform L s (row_at X i) = Inr (row_at T i)"
    and forest_rows: "\<forall>f X ys j. forest_predict L f X = Inr ys \<and> X \<noteq> [] \<and> j < length (hd X) \<longrightarrow>
                   forest_predict L f (row_at X j) = Inr [ys ! j]"
    and forest_len: "\<forall>f X ys. forest_predict L f X = Inr ys \<longrightarrow> length ys = length (hd X)"
  shows "handoff_functions training_py_functions = [''model_fn'', ''predict_fn''] \<and>
    (\<exists>X s T f ind_test y_test y_pred accuracy preproc model unit.
        preproc = Pipeline [(''scaler'', StandardScaler (Some s))]
      \<and> model = RandomForestClassifier (n_estimators targs) (min_samples_leaf targs) (PyInt (- 1)) (Some f)
      \<and> unit = Pipeline [(''preproc'', preproc), (''model'', model)]
      \<and> training_model_fn L mdir w2 = (Inr unit, w2)
      \<and> files w1 (path_join out ''pipeline/preproc-pipeline.joblib'') = Some (joblib_dumps L preproc)
      \<and> (\<forall>rows. predict_fn L rows unit =
            bindE (est_transform L preproc rows) (\<lambda>Xt. est_predict L model Xt))
      \<and> drop_column ''y'' df = Inr X
      \<and> scaler_transform L s (to_array X) = Inr T
      \<and> ind_test = take ((nrows df + 3) div 4) (rng_permutation L (rng_seed L 42) (nrows df))
      \<and> est_predict L model (map (take_positions ind_test) T) = Inr y_pred
      \<and> accuracy_score y_test y_pred = Inr accuracy
      \<and> stdout w2 = stdout w1 @ [accuracy]
      \<and> length y_pred = length ind_test
      \<and> (\<forall>j<length ind_test.
            predict_fn L (row_at (to_array X) (ind_test ! j)) unit = Inr [y_pred ! j]))"
proof
  show "handoff_functions training_py_functions = [''model_fn'', ''predict_fn'']"
    by (simp add: handoff_functions_def training_py_functions_def)
next
  let ?n = "nrows df"
  let ?src = "path_join out ''pipeline/preproc-pipeline.joblib''"
  from preprocessing_tables [OF prep pargs indir infile out src_file parsed rect idx shape]
  obtain X y s T ind_train ind_test where
    X: "drop_column ''y'' df = Inr X"
    and y: "get_column df ''y'' = Inr y"
    and ne: "to_array X \<noteq> []"
    and T: "scaler_transform L s (to_array X) = Inr T"
    and ind_test: "ind_test = take ((?n + 3) div 4) (rng_permutation L (rng_seed L 42) ?n)"
    and range: "list_all (\<lambda>i. i < ?n) (ind_train @ ind_test)"
    and test_csv: "files w1 (path_join out ''test/test.csv'')
        = Some (to_csv_render L
            (zip (default_index (length T)) (map (take_positions ind_test) T)
               @ [(StrName ''y'', take_positions ind_test (snd y))]))"
    and transform: "files w1 ?src = Some (joblib_dumps L (Pipeline [(''scaler'', StandardScaler (Some s))]))"
    by (elim exE conjE) (rule that, assumption+)
  let ?cs = "zip (default_index (length T)) (map (take_positions ind_test) T)
               @ [(StrName ''y'', take_positions ind_test (snd y))]"
  let ?Xt = "map (take_positions ind_test) T"
  let ?preproc = "Pipeline [(''scaler'', StandardScaler (Some s))]"
  from training_success [OF train]
  obtain args test_dir' test_name' pdir' pfile' mdir' b2 test_df X_test y_test f y_pred accuracy artifact
    where args: "parse_args_training L environ argv' = Inr args"
    and test_dir': "test args = PyStr test_dir'"
    and test_name': "test_file args = PyStr test_name'"
    and pdir': "pipeline args = PyStr pdir'"
    and pfile': "pipeline_file args = PyStr pfile'"
    and mdir': "model_dir args = PyStr mdir'"
    and b2: "files w1 (path_join test_dir' test_name') = Some b2"
    and test_df: "read_csv_parse L b2 = Inr test_df"
    and X_test: "drop_column ''y'' test_df = Inr X_test"
    and y_test: "get_column test_df ''y'' = Inr y_test"
    and pred: "est_predict L (RandomForestClassifier (n_estimators args) (min_samples_leaf args) (PyInt (- 1)) (Some f))
        (to_array X_test) = Inr y_pred"
    and acc: "accuracy_score (snd y_test) y_pred = Inr accuracy"
    and art: "(if path_join pdir' pfile' = path_join mdir' ''model.joblib''
       then Some (joblib_dumps L
              (RandomForestClassifier (n_estimators args) (min_samples_leaf args) (PyInt (- 1)) (Some f)))
       else files w1 (path_join pdir' pfile')) = Some artifact"
    and w2: "w2 = w1\<lparr>stdout := stdout w1 @ [accuracy],
            files := (files w1)
              (path_join mdir' ''model.joblib'' \<mapsto>
                 joblib_dumps L (RandomForestClassifier (n_estimators args) (min_samples_leaf args) (PyInt (- 1)) (Some f)),
               path_join mdir' ''preproc.joblib'' \<mapsto> artifact)\<rparr>"
    by (elim exE conjE) (rule that, assumption+)
  from args targs have same: "args = targs"
    by simp
  let ?model = "RandomForestClassifier (n_estimators targs) (min_samples_leaf targs) (PyInt (- 1)) (Some f)"
  let ?unit = "Pipeline [(''preproc'', ?preproc), (''model'', ?model)]"
  from same test_dir test_dir' test_name test_name' pdir pdir' pfile pfile' mdir mdir'
  have eqs: "test_dir' = test_dir" "test_name' = test_name" "pdir' = pdir" "pfile' = pfile" "mdir' = mdir"
    by simp_all
  \<comment> \<open>the training stage read the test table that the preprocessing stage wrote\<close>
  from b2 test_csv wired_test have "b2 = to_csv_render L ?cs"
    by (simp add: eqs)
  with csv test_df have vals: "map snd (cols test_df) = map snd ?cs"
    and flags: "map (\<lambda>c. fst c = StrName ''y'') (cols test_df) = map (\<lambda>c. fst c = StrName ''y'') ?cs"
    by blast+
  have "to_array X_test = map snd (filter (\<lambda>c. \<not> (fst c = StrName ''y'')) ?cs)"
    unfolding drop_column_array [OF X_test] using vals flags by (rule same_features)
  also have "\<dots> = ?Xt"
    using features_of_written [of "default_index (length T)" ?Xt "''y''"]
    by (simp add: length_default_index default_index_no_label)
  finally have arr: "to_array X_test = ?Xt" .
  from pred have pred': "est_predict L ?model ?Xt = Inr y_pred"
    by (simp only: arr same)
  \<comment> \<open>the transform in the model directory is the one the preprocessing stage wrote\<close>
  from wired_pipe have "path_join pdir' pfile' = ?src"
    by (simp add: eqs)
  with art transform have artifact: "artifact = joblib_dumps L ?preproc"
    by (simp add: artifact_names_distinct)
  have m: "files w2 (path_join mdir ''model.joblib'') = Some (joblib_dumps L ?model)"
    and p: "files w2 (path_join mdir ''preproc.joblib'') = Some (joblib_dumps L ?preproc)"
    by (simp_all add: w2 eqs same artifact artifact_names_distinct)
  from joblib have "joblib_loads L (joblib_dumps L ?preproc) = Inr ?preproc"
    and "joblib_loads L (joblib_dumps L ?model) = Inr ?model"
    by blast+
  with training_model_fn_result [OF p m, of L]
  have loaded: "training_model_fn L mdir w2 = (Inr ?unit, w2)"
    by (simp add: bindE_def)
  have both: "\<forall>rows. predict_fn L rows ?unit =
            bindE (est_transform L ?preproc rows) (\<lambda>Xt. est_predict L ?model Xt)"
    by (simp add: predict_fn_composite)
  have out2: "stdout w2 = stdout w1 @ [accuracy]"
    by (simp add: w2)
  \<comment> \<open>shapes\<close>
  from shape T have len: "map length T = map length (to_array X)"
    by blast
  from shape_hd [OF len ne] have Tne: "T \<noteq> []"
    by simp
  have hdXt: "length (hd ?Xt) = length ind_test"
    using Tne by (simp add: hd_map take_positions_def)
  from pred' have "forest_predict L f ?Xt = Inr y_pred"
    by (auto simp: bindE_Inr check_array_Inr)
  with forest_len hdXt have ylen: "length y_pred = length ind_test"
    by fastforce
  have cols_ok: "list_all (\<lambda>c. length c = ?n) (to_array X)"
    using rect X by (rule features_rectangular)
  have rows: "\<forall>j<length ind_test.
      predict_fn L (row_at (to_array X) (ind_test ! j)) ?unit = Inr [y_pred ! j]"
  proof (intro allI impI)
    fix j
    assume j: "j < length ind_test"
    let ?i = "ind_test ! j"
    from range j have "?i < ?n"
      by (simp add: list_all_iff)
    with cols_ok have "list_all (\<lambda>c. ?i < length c) (to_array X)"
      by (simp add: list_all_iff)
    from transform_row [OF scaler_rows T ne this]
    have t: "est_transform L ?preproc (row_at (to_array X) ?i) = Inr (row_at T ?i)" .
    from j hdXt have "j < length (hd ?Xt)"
      by simp
    from predict_row [OF forest_rows pred' this]
    have "est_predict L ?model (row_at ?Xt j) = Inr [y_pred ! j]" .
    then have "est_predict L ?model (row_at T ?i) = Inr [y_pred ! j]"
      by (simp only: row_at_selected [OF j])
    with t show "predict_fn L (row_at (to_array X) ?i) ?unit = Inr [y_pred ! j]"
      by (simp add: predict_fn_composite bindE_def)
  qed
  show "\<exists>X s T f ind_test y_test y_pred accuracy preproc model unit.
        preproc = Pipeline [(''scaler'', StandardScaler (Some s))]
      \<and> model = RandomForestClassifier (n_estimators targs) (min_samples_leaf targs) (PyInt (- 1)) (Some f)
      \<and> unit = Pipeline [(''preproc'', preproc), (''model'', model)]
      \<and> training_model_fn L mdir w2 = (Inr unit, w2)
      \<and> files w1 (path_join out ''pipeline/preproc-pipeline.joblib'') = Some (joblib_dumps L preproc)
      \<and> (\<forall>rows. predict_fn L rows unit =
            bindE (est_transform L preproc rows) (\<lambda>Xt. est_predict L model Xt))
      \<and> drop_column ''y'' df = Inr X
      \<and> scaler_transform L s (to_array X) = Inr T
      \<and> ind_test = take ((nrows df + 3) div 4) (rng_permutation L (rng_seed L 42) (nrows df))
      \<and> est_predict L model (map (take_positions ind_test) T) = Inr y_pred
      \<and> accuracy_score y_test y_pred = Inr accuracy
      \<and> stdout w2 = stdout w1 @ [accuracy]
      \<and> length y_pred = length ind_test
      \<and> (\<forall>j<length ind_test.
            predict_fn L (row_at (to_array X) (ind_test ! j)) unit = Inr [y_pred ! j])"
    apply (rule exI [of _ X], rule exI [of _ s], rule exI [of _ T], rule exI [of _ f])
    apply (rule exI [of _ ind_test], rule exI [of _ "snd y_test"], rule exI [of _ y_pred])
    apply (rule exI [of _ accuracy], rule exI [of _ ?preproc], rule exI [of _ ?model])
    apply (rule exI [of _ ?unit])
    using loaded transform both X T ind_test pred' acc out2 ylen rows
    apply (intro conjI)
    apply (assumption | rule refl)+
    done
qed

theorem composite_unit_handoff_witness:
  "preprocessing_main demo_library 0 demo_prep_argv demo_world = (Inr (), demo_world_preprocessed) \<and>
   training_main demo_library 7 Map.empty demo_train_argv demo_world_preprocessed
     = (Inr (), demo_world_trained) \<and>
   rectangular demo_table \<and> row_index demo_table = default_index (nrows demo_table) \<and>
   training_model_fn demo_library ''/model'' demo_world_trained = (Inr demo_unit, demo_world_trained) \<and>
   est_predict demo_library demo_model demo_test_features = Inr [Some 1, Some 1] \<and>
   stdout demo_world_trained = stdout demo_world_preprocessed @ [Score (1 / 2)] \<and>
   predict_fn demo_library [[Some 1], [Some 5]] demo_unit = Inr [Some 1] \<and>
   predict_fn demo_library [[Some 2], [Some 6]] demo_unit = Inr [Some 1]"
proof -
  have indir: "filepath demo_preprocessing_args = PyStr ''/in''"
    and infile: "filename demo_preprocessing_args = PyStr ''data.csv''"
    and out: "outputpath demo_preprocessing_args = PyStr ''/out''"
    by (simp_all add: demo_preprocessing_args_def)
  have test_dir: "test demo_training_args = PyStr ''/out/test''"
    and test_name: "test_file demo_training_args = PyStr ''test.csv''"
    and pdir: "pipeline demo_training_args = PyStr ''/out/pipeline''"
    and pfile: "pipeline_file demo_training_args = PyStr ''preproc-pipeline.joblib''"
    and mdir: "model_dir demo_training_args = PyStr ''/model''"
    by (simp_all add: demo_training_args_def)
  have wired_test: "path_join ''/out/test'' ''test.csv'' = path_join ''/out'' ''test/test.csv''"
    and wired_pipe: "path_join ''/out/pipeline'' ''preproc-pipeline.joblib''
                       = path_join ''/out'' ''pipeline/preproc-pipeline.joblib''"
    by (simp_all only: demo_paths)
  from composite_unit_handoff
         [OF demo_preprocessing_run demo_training_run demo_parse_prep indir infile out
             demo_input demo_parsed demo_rectangular(1,2) demo_parse_args
             test_dir test_name pdir pfile mdir wired_test wired_pipe
             demo_roundtrip demo_csv demo_shape demo_scaler_rows demo_forest_rows demo_forest_len]
  obtain X s T f ind_test y_test y_pred accuracy preproc model unit where
    preproc: "preproc = Pipeline [(''scaler'', StandardScaler (Some s))]"
    and model: "model = RandomForestClassifier (n_estimators demo_training_args)
                  (min_samples_leaf demo_training_args) (PyInt (- 1)) (Some f)"
    and unit: "unit = Pipeline [(''preproc'', preproc), (''model'', model)]"
    and loaded: "training_model_fn demo_library ''/model'' demo_world_trained = (Inr unit, demo_world_trained)"
    and X: "drop_column ''y'' demo_table = Inr X"
    and T: "scaler_transform demo_library s (to_array X) = Inr T"
    and ind_test: "ind_test = take ((nrows demo_table + 3) div 4)
                     (rng_permutation demo_library (rng_seed demo_library 42) (nrows demo_table))"
    and pred: "est_predict demo_library model (map (take_positions ind_test) T) = Inr y_pred"
    and acc: "accuracy_score y_test y_pred = Inr accuracy"
    and printed: "stdout demo_world_trained = stdout demo_world_preprocessed @ [accuracy]"
    and rows: "\<forall>j<length ind_test.
            predict_fn demo_library (row_at (to_array X) (ind_test ! j)) unit = Inr [y_pred ! j]"
    by (elim exE conjE) (rule that, assumption+)
  from loaded demo_model_fn_run have u: "unit = demo_unit"
    by (simp add: demo_unit_def demo_model_def)
  with unit preproc model have s: "s = 1" and m: "model = demo_model"
    by (simp_all add: demo_unit_def)
  from ind_test have it: "ind_test = [0, 1]"
    by (simp only: demo_split)
  from X have arr: "to_array X = [map Some [1, 2, 3, 4, 5, 6], map Some [5, 6, 7, 8, 9, 10]]"
    by (auto simp: demo_features to_array_def)
  from T have "map (take_positions ind_test) T = demo_test_features"
    by (auto simp: arr s it demo_library_def take_positions_def demo_test_features_def)
  with pred m demo_in_process have yp: "y_pred = [Some 1, Some 1]"
    by simp
  have "(0::nat) < length ind_test" and "(1::nat) < length ind_test"
    by (simp_all add: it)
  with rows have "predict_fn demo_library (row_at (to_array X) (ind_test ! 0)) unit = Inr [y_pred ! 0]"
    and "predict_fn demo_library (row_at (to_array X) (ind_test ! 1)) unit = Inr [y_pred ! 1]"
    by blast+
  then have first: "predict_fn demo_library [[Some 1], [Some 5]] demo_unit = Inr [Some 1]"
    and second: "predict_fn demo_library [[Some 2], [Some 6]] demo_unit = Inr [Some 1]"
    by (simp_all add: arr it yp u row_at_def)
  have out2: "stdout demo_world_trained = stdout demo_world_preprocessed @ [Score (1 / 2)]"
    by code_simp
  from loaded u have fn: "training_model_fn demo_library ''/model'' demo_world_trained
                            = (Inr demo_unit, demo_world_trained)"
    by simp
  from demo_preprocessing_run demo_training_run demo_rectangular(1,2) fn demo_in_process out2 first second
  show ?thesis
    by (intro conjI)
qed

text \<open>
  C6, as the spec has it, fails on the rows that the in-process evaluation saw. The test
  table that the training stage evaluated holds rows that are already transformed; the
  reloaded unit transforms them a second time. On the small instance the training stage
  predicted the label 1 for the first row of the persisted test table (and printed the
  accuracy 1/2, computed from the predictions 1, 1 and the labels 1, 0), while
  \<^verbatim>\<open>predict_fn\<close> on the reloaded unit returns the label 0 for that row.
\<close>

theorem reloaded_unit_differs_on_persisted_row:
  "training_main demo_library 7 Map.empty demo_train_argv demo_world_preprocessed
     = (Inr (), demo_world_trained) \<and>
   files demo_world_preprocessed ''/out/test/test.csv''
     = Some (DemoCsv \<lparr> row_index = [IntName 0, IntName 1],
                       cols = [(IntName 0, [Some 0, Some 1]), (IntName 1, [Some 4, Some 5]),
                               (StrName ''y'', [Some 1, Some 0])] \<rparr>) \<and>
   files demo_world_trained ''/model/model.joblib'' = Some (DemoJoblib demo_model) \<and>
   demo_test_features = [[Some 0, Some 1], [Some 4, Some 5]] \<and>
   est_predict demo_library demo_model demo_test_features = Inr [Some 1, Some 1] \<and>
   accuracy_score [Some 1, Some 0] [Some (1::int), Some 1] = Inr (Score (1 / 2)) \<and>
   stdout demo_world_trained = [Score (1 / 2)] \<and>
   fst (training_model_fn demo_library ''/model'' demo_world_trained) = Inr demo_unit \<and>
   predict_fn demo_library (row_at demo_test_features 0) demo_unit = Inr [Some 0] \<and>
   predict_fn demo_library demo_test_features demo_unit = Inr [Some 0, Some 1]"
proof -
  have m: "files demo_world_trained ''/model/model.joblib'' = Some (DemoJoblib demo_model)"
    by code_simp
  have a: "demo_test_features = [[Some 0, Some 1], [Some 4, Some 5]]"
    by (simp add: demo_test_features_def)
  have b: "accuracy_score [Some 1, Some 0] [Some (1::int), Some 1] = Inr (Score (1 / 2))"
    by code_simp
  have c: "stdout demo_world_trained = [Score (1 / 2)]"
    by code_simp
  have d: "fst (training_model_fn demo_library ''/model'' demo_world_trained) = Inr demo_unit"
    by code_simp
  have e: "predict_fn demo_library (row_at demo_test_features 0) demo_unit = Inr [Some 0]"
    by code_simp
  have f: "predict_fn demo_library demo_test_features demo_unit = Inr [Some 0, Some 1]"
    by code_simp
  from demo_training_run demo_test_file m a demo_in_process b c d e f show ?thesis
    by (intro conjI)
qed

end
